theory Spec2Isabelle
  imports Complex_Main
begin

section \<open>Python values shared by both modules\<close>

text \<open>
  The two source files are \<^verbatim>\<open>bugtracker/io/processor.py\<close> (calibration checks, the
  precipitation filter and the mask fusion) and \<^verbatim>\<open>bugtracker/io/models.py\<close> (the netCDF4
  writer). Every \<^verbatim>\<open>raise\<close> of the source, and every exception the interpreter or
  numpy raises on the way, is a value of \<open>py_error\<close>; a function that can raise returns
  \<open>py_error + 'a\<close> with \<open>Inl\<close> for the exception.

  Floating point numbers are idealised as rationals: arithmetic is exact, and NaN, where
  numpy produces one, is the value \<open>None\<close> of a \<open>rat option\<close>.
\<close>

datatype py_error =
    ValueError string
  | IndexError string
  | TypeError string
  | AttributeError string
  | NameError string
  | NotImplementedError string
  | ZeroDivisionError string
  | FileNotFoundError string
  | MaskError string
  | RuntimeError string

text \<open>Sequencing: the first exception raised ends the computation.\<close>

definition and_then :: "py_error + 'a \<Rightarrow> ('a \<Rightarrow> py_error + 'b) \<Rightarrow> py_error + 'b" where
  "and_then m f = (case m of Inl e \<Rightarrow> Inl e | Inr v \<Rightarrow> f v)"

text \<open>
  A statement that changes a state \<open>'s\<close> (the file system, the heap) and may raise:
  the state is returned in both cases, as the changes made before an exception stay.
\<close>

type_synonym ('a, 's) action = "'s \<Rightarrow> (py_error + 'a) \<times> 's"

definition seq :: "('a, 's) action \<Rightarrow> ('a \<Rightarrow> ('b, 's) action) \<Rightarrow> ('b, 's) action" where
  "seq m f s = (case m s of (Inl e, s') \<Rightarrow> (Inl e, s') | (Inr v, s') \<Rightarrow> f v s')"

definition ret :: "'a \<Rightarrow> ('a, 's) action" where
  "ret v s = (Inr v, s)"

definition raise :: "py_error \<Rightarrow> ('a, 's) action" where
  "raise e s = (Inl e, s)"

definition lift :: "py_error + 'a \<Rightarrow> ('a, 's) action" where
  "lift r s = (r, s)"

subsection \<open>numpy arrays\<close>

text \<open>
  An array is its shape and its cells, read by a full index (one position per axis).
  Only the cells at a valid index mean anything.
\<close>

record 'a ndarray =
  shape :: "nat list"
  elem :: "nat list \<Rightarrow> 'a"

definition valid_index :: "nat list \<Rightarrow> nat list \<Rightarrow> bool" where
  "valid_index sh idx = list_all2 (\<lambda>i d. i < d) idx sh"

text \<open>All valid indices of a shape, in row-major (C) order, as \<^verbatim>\<open>flatten\<close> visits them.\<close>

fun indices :: "nat list \<Rightarrow> nat list list" where
  "indices [] = [[]]"
| "indices (d # ds) = concat (map (\<lambda>i. map ((#) i) (indices ds)) [0..<d])"

definition array_size :: "nat list \<Rightarrow> nat" where
  "array_size sh = prod_list sh"

text \<open>Row-major position of an index, and the index at a row-major position.\<close>

fun ravel :: "nat list \<Rightarrow> nat list \<Rightarrow> nat" where
  "ravel [] idx = 0"
| "ravel (d # ds) [] = 0"
| "ravel (d # ds) (i # idx) = i * prod_list ds + ravel ds idx"

fun unravel :: "nat list \<Rightarrow> nat \<Rightarrow> nat list" where
  "unravel [] k = []"
| "unravel (d # ds) k = (k div prod_list ds) # unravel ds (k mod prod_list ds)"

text \<open>
  \<^verbatim>\<open>numpy.reshape\<close> keeps the row-major order of the cells; \<^verbatim>\<open>numpy.resize\<close> of a
  one-cell array repeats that cell.
\<close>

definition np_reshape :: "'a ndarray \<Rightarrow> nat list \<Rightarrow> 'a ndarray" where
  "np_reshape a sh = \<lparr>shape = sh, elem = (\<lambda>idx. elem a (unravel (shape a) (ravel sh idx)))\<rparr>"

definition np_resize1 :: "'a ndarray \<Rightarrow> nat list \<Rightarrow> 'a ndarray" where
  "np_resize1 a sh = \<lparr>shape = sh, elem = (\<lambda>idx. elem a (map (\<lambda>d. 0) (shape a)))\<rparr>"

text \<open>
  Broadcasting: shapes are aligned at their last axis; two extents are compatible when
  they are equal or one of them is 1. \<open>broadcast_rev\<close> works on reversed shapes.
\<close>

fun broadcast_rev :: "nat list \<Rightarrow> nat list \<Rightarrow> nat list option" where
  "broadcast_rev [] ys = Some ys"
| "broadcast_rev (x # xs) [] = Some (x # xs)"
| "broadcast_rev (x # xs) (y # ys) =
     (if x = y \<or> y = 1 then map_option ((#) x) (broadcast_rev xs ys)
      else if x = 1 then map_option ((#) y) (broadcast_rev xs ys)
      else None)"

definition broadcast_shapes :: "nat list \<Rightarrow> nat list \<Rightarrow> nat list option" where
  "broadcast_shapes s t = map_option rev (broadcast_rev (rev s) (rev t))"

text \<open>The index of the cell of an array of shape \<open>sh\<close> that a broadcast index reads.\<close>

definition broadcast_index :: "nat list \<Rightarrow> nat list \<Rightarrow> nat list" where
  "broadcast_index sh idx =
     map (\<lambda>(d, i). if d = 1 then 0 else i) (zip sh (drop (length idx - length sh) idx))"

definition logical_or :: "bool ndarray \<Rightarrow> bool ndarray \<Rightarrow> py_error + bool ndarray" where
  "logical_or a b =
     (case broadcast_shapes (shape a) (shape b) of
        None \<Rightarrow> Inl (ValueError ''operands could not be broadcast together'')
      | Some sh \<Rightarrow>
          Inr \<lparr>shape = sh,
               elem = (\<lambda>idx. elem a (broadcast_index (shape a) idx)
                           \<or> elem b (broadcast_index (shape b) idx))\<rparr>)"

definition astype_bool :: "int ndarray \<Rightarrow> bool ndarray" where
  "astype_bool a = \<lparr>shape = shape a, elem = (\<lambda>idx. \<not> (elem a idx = 0))\<rparr>"

subsection \<open>Text that ends up in messages and attributes\<close>

fun str_nat :: "nat \<Rightarrow> string" where
  "str_nat n =
     (if n < 10 then [''0123456789'' ! n]
      else str_nat (n div 10) @ [''0123456789'' ! (n mod 10)])"

declare str_nat.simps [simp del]

fun join_comma :: "string list \<Rightarrow> string" where
  "join_comma [] = []"
| "join_comma [s] = s"
| "join_comma (s # t # ss) = s @ '', '' @ join_comma (t # ss)"

text \<open>What an f-string prints for a shape: Python's \<^verbatim>\<open>repr\<close> of a tuple of ints.\<close>

definition str_tuple :: "nat list \<Rightarrow> string" where
  "str_tuple sh =
     (case sh of
        [] \<Rightarrow> ''()''
      | [d] \<Rightarrow> ''('' @ str_nat d @ '',)''
      | _ \<Rightarrow> ''('' @ join_comma (map str_nat sh) @ '')'')"

fun is_prefix :: "string \<Rightarrow> string \<Rightarrow> bool" where
  "is_prefix [] t = True"
| "is_prefix (c # s) [] = False"
| "is_prefix (c # s) (d # t) = (c = d \<and> is_prefix s t)"

fun contains :: "string \<Rightarrow> string \<Rightarrow> bool" where
  "contains [] s = is_prefix s []"
| "contains (c # t) s = (is_prefix s (c # t) \<or> contains t s)"

fun zero_pad :: "nat \<Rightarrow> string \<Rightarrow> string" where
  "zero_pad w s = replicate (w - length s) (CHR ''0'') @ s"

record datetime =
  year :: nat
  month :: nat
  day :: nat
  hour :: nat
  minute :: nat
  second :: nat

text \<open>\<^verbatim>\<open>scan_dt.strftime("%Y%m%d%H%M")\<close>; the year is padded to four digits.\<close>

definition strftime_YmdHM :: "datetime \<Rightarrow> string" where
  "strftime_YmdHM dt =
     zero_pad 4 (str_nat (year dt)) @ zero_pad 2 (str_nat (month dt)) @ zero_pad 2 (str_nat (day dt))
     @ zero_pad 2 (str_nat (hour dt)) @ zero_pad 2 (str_nat (minute dt))"

record metadata =
  lat :: rat
  lon :: rat
  radar_id :: string
  scan_dt :: datetime
  name :: string

record grid_info =
  azims :: nat
  gates :: nat

section \<open>processor.py: calibration\<close>

record precip_config =
  azim_region :: nat
  gate_region :: nat
  max_dbz_per_degree :: rat

record config =
  precip :: precip_config
  plot_dir :: string

text \<open>
  The calibration file of a radar, as \<^verbatim>\<open>load_universal_calib\<close> and
  \<^verbatim>\<open>load_specific_calib\<close> read it: the named variables with their stored arrays.
\<close>

record calib_dataset =
  var_lats :: "rat ndarray"
  var_lons :: "rat ndarray"
  var_altitude :: "rat ndarray"
  var_convol_angles :: "rat list"
  var_dopvol_angles :: "rat list"
  var_convol_clutter :: "int ndarray"
  var_dopvol_clutter :: "int ndarray"

text \<open>
  What the collaborators outside the two files answer: \<^verbatim>\<open>bugtracker.config.load\<close>,
  \<^verbatim>\<open>bugtracker.core.cache.calib_filepath\<close> and the calibration files on disk.
\<close>

record environment =
  config_json :: config
  calib_filepath :: "metadata \<Rightarrow> grid_info \<Rightarrow> string"
  calib_files :: "string \<Rightarrow> calib_dataset option"

text \<open>Both \<^verbatim>\<open>Processor\<close> and \<^verbatim>\<open>BaseOutput\<close> keep \<^verbatim>\<open>self.metadata\<close> and \<^verbatim>\<open>self.grid_info\<close>.\<close>

record radar_object =
  metadata :: metadata
  grid_info :: grid_info

record Processor = radar_object +
  config :: config
  calib_file :: string
  plotter :: bool
  lats :: "rat ndarray"
  lons :: "rat ndarray"
  altitude :: "rat ndarray"

record IrisProcessor = Processor +
  convol_angles :: "rat list"
  dopvol_angles :: "rat list"
  convol_clutter :: "int ndarray"
  dopvol_clutter :: "int ndarray"

definition verify_universal_calib :: "'a Processor_scheme \<Rightarrow> py_error + unit" where
  "verify_universal_calib self =
     (let polar_dims = [azims (grid_info self), gates (grid_info self)] in
      if \<not> (shape (lats self) = polar_dims) then
        Inl (ValueError (''Lat grid invalid dims: '' @ str_tuple (shape (lats self))))
      else if \<not> (shape (lons self) = polar_dims) then
        Inl (ValueError (''Lon grid invalid dims: '' @ str_tuple (shape (lons self))))
      else if \<not> (shape (altitude self) = polar_dims) then
        Inl (ValueError (''Altitude grid invalid dims: '' @ str_tuple (shape (altitude self))))
      else Inr ())"

definition verify_specific_calib :: "'a IrisProcessor_scheme \<Rightarrow> py_error + unit" where
  "verify_specific_calib self =
     (let num_convol = length (convol_angles self);
          num_dopvol = length (dopvol_angles self) in
      if num_convol \<le> 1 then Inl (ValueError ''Not enough CONVOL angles in calib'')
      else if num_dopvol \<le> 1 then Inl (ValueError ''Not enough DOPVOL angles in calib'')
      else
        let azims = azims (grid_info self);
            gates = gates (grid_info self);
            convol_dim = [num_convol, azims, gates];
            dopvol_dim = [num_dopvol, azims, gates] in
        if \<not> (shape (convol_clutter self) = convol_dim) then
          Inl (ValueError (''Invalid convol dimensions: '' @ str_tuple (shape (convol_clutter self))))
        else if \<not> (shape (dopvol_clutter self) = dopvol_dim) then
          Inl (ValueError (''Invalid dopvol dimensions: '' @ str_tuple (shape (dopvol_clutter self))))
        else Inr ())"

text \<open>
  \<^verbatim>\<open>dset.variables[v][:,:]\<close> and \<^verbatim>\<open>[:,:,:]\<close>: more slices than the variable has
  dimensions is an IndexError; fewer is the whole variable.
\<close>

definition read_slices :: "nat \<Rightarrow> 'a ndarray \<Rightarrow> py_error + 'a ndarray" where
  "read_slices n a =
     (if length (shape a) < n then Inl (IndexError ''too many indices'') else Inr a)"

definition Processor_init :: "environment \<Rightarrow> metadata \<Rightarrow> grid_info \<Rightarrow> py_error + Processor" where
  "Processor_init env md gi =
     (let path = calib_filepath env md gi in
      case calib_files env path of
        None \<Rightarrow> Inl (FileNotFoundError ''Missing calib file'')
      | Some dset \<Rightarrow>
          and_then (read_slices 2 (var_lats dset)) (\<lambda>la.
          and_then (read_slices 2 (var_lons dset)) (\<lambda>lo.
          and_then (read_slices 2 (var_altitude dset)) (\<lambda>al.
            let self = \<lparr>metadata = md, grid_info = gi, config = config_json env,
                         calib_file = path, plotter = False,
                         lats = la, lons = lo, altitude = al\<rparr> in
            and_then (verify_universal_calib self) (\<lambda>u. Inr self)))))"

definition IrisProcessor_init ::
  "environment \<Rightarrow> metadata \<Rightarrow> grid_info \<Rightarrow> py_error + IrisProcessor" where
  "IrisProcessor_init env md gi =
     and_then (Processor_init env md gi) (\<lambda>base.
       case calib_files env (calib_file base) of
         None \<Rightarrow> Inl (FileNotFoundError (calib_file base))
       | Some dset \<Rightarrow>
           and_then (read_slices 3 (var_convol_clutter dset)) (\<lambda>cc.
           and_then (read_slices 3 (var_dopvol_clutter dset)) (\<lambda>dc.
             let self = Processor.extend base
                          (IrisProcessor.fields (var_convol_angles dset) (var_dopvol_angles dset) cc dc) in
             and_then (verify_specific_calib self) (\<lambda>u. Inr self))))"

subsection \<open>The unimplemented processors\<close>

text \<open>
  \<^verbatim>\<open>Processor\<close> is an \<^verbatim>\<open>abc.ABC\<close> with the abstract methods
  \<^verbatim>\<open>load_specific_calib\<close> and \<^verbatim>\<open>verify_specific_calib\<close>. Calling a class first
  creates the instance, which Python refuses with a TypeError while an abstract method
  is left without an implementation, and only then runs \<^verbatim>\<open>__init__\<close>.
  \<^verbatim>\<open>OdimProcessor\<close> and \<^verbatim>\<open>NexradProcessor\<close> define \<^verbatim>\<open>__init__(self)\<close> alone; its
  body calls \<^verbatim>\<open>super().__init__()\<close> with no argument and then raises the misspelt
  \<^verbatim>\<open>NotImplmentedError\<close>, a name that is bound nowhere.
\<close>

datatype pyval = PyMetadata metadata | PyGridInfo grid_info | PyNone

definition Processor_abstractmethods :: "string list" where
  "Processor_abstractmethods = [''load_specific_calib'', ''verify_specific_calib'']"

definition OdimProcessor_methods :: "string list" where
  "OdimProcessor_methods = [''__init__'']"

definition NexradProcessor_methods :: "string list" where
  "NexradProcessor_methods = [''__init__'']"

definition IrisProcessor_methods :: "string list" where
  "IrisProcessor_methods =
     [''__init__'', ''load_specific_calib'', ''verify_specific_calib'', ''plot_graph'', ''plot_iris'',
      ''impose_filter'', ''determine_zone_slope'', ''filter_precip'', ''process_set'', ''process_sets'']"

definition abstract_left :: "string list \<Rightarrow> string list" where
  "abstract_left methods = filter (\<lambda>m. m \<notin> set methods) Processor_abstractmethods"

text \<open>\<^verbatim>\<open>Processor.__init__(self, metadata, grid_info)\<close> called with the given positional arguments.\<close>

definition Processor_init_call :: "environment \<Rightarrow> pyval list \<Rightarrow> py_error + Processor" where
  "Processor_init_call env args =
     (case args of
        [PyMetadata md, PyGridInfo gi] \<Rightarrow> Processor_init env md gi
      | [a, b] \<Rightarrow> Inl (AttributeError ''metadata or grid_info of another type'')
      | _ \<Rightarrow> Inl (TypeError ''__init__() missing or extra positional arguments''))"

definition unimplemented_processor_init ::
  "string \<Rightarrow> environment \<Rightarrow> pyval list \<Rightarrow> py_error + Processor" where
  "unimplemented_processor_init label env args =
     (if \<not> (args = []) then Inl (TypeError ''__init__() takes 1 positional argument'')
      else and_then (Processor_init_call env [])
             (\<lambda>self. Inl (NameError ''NotImplmentedError'')))"

definition OdimProcessor_new :: "environment \<Rightarrow> pyval list \<Rightarrow> py_error + Processor" where
  "OdimProcessor_new env args =
     (if \<not> (abstract_left OdimProcessor_methods = []) then
        Inl (TypeError ''Cannot instantiate abstract class OdimProcessor'')
      else unimplemented_processor_init ''OdimProcessor'' env args)"

definition NexradProcessor_new :: "environment \<Rightarrow> pyval list \<Rightarrow> py_error + Processor" where
  "NexradProcessor_new env args =
     (if \<not> (abstract_left NexradProcessor_methods = []) then
        Inl (TypeError ''Cannot instantiate abstract class NexradProcessor'')
      else unimplemented_processor_init ''NexradProcessor'' env args)"

section \<open>processor.py: the precipitation filter and the mask fusion\<close>

text \<open>
  Boolean arrays are objects on a heap: \<^verbatim>\<open>filter_3d[..] = True\<close> writes into the array
  object the filter holds, and whoever holds the same object sees the write. A masked
  array is its data and a reference to its mask (\<open>None\<close> is numpy's \<^verbatim>\<open>nomask\<close>); the data
  buffers are never written by the two files and are plain values.

  \<^verbatim>\<open>IrisData\<close> (\<^verbatim>\<open>bugtracker.core.iris\<close>) and \<^verbatim>\<open>PrecipFilter\<close>
  (\<^verbatim>\<open>bugtracker.core.precip\<close>) are declared outside the two files; the records hold the
  attributes that \<^verbatim>\<open>processor.py\<close> reads and writes.
\<close>

record store =
  arrays :: "nat \<Rightarrow> bool ndarray"
  next_ref :: nat

record masked_array =
  ma_data :: "rat ndarray"
  ma_mask :: "nat option"

record iris_data =
  convol :: masked_array
  dopvol :: masked_array

record PrecipFilter =
  filter_3d :: nat

definition alloc :: "bool ndarray \<Rightarrow> (nat, store) action" where
  "alloc a s = (Inr (next_ref s), s\<lparr>arrays := (arrays s)(next_ref s := a), next_ref := Suc (next_ref s)\<rparr>)"

definition is_masked :: "store \<Rightarrow> masked_array \<Rightarrow> nat list \<Rightarrow> bool" where
  "is_masked s m idx = (case ma_mask m of None \<Rightarrow> False | Some r \<Rightarrow> elem (arrays s r) idx)"

text \<open>
  Reading one cell into a Python list: a masked cell comes out as \<^verbatim>\<open>numpy.ma.masked\<close>,
  which the later conversion to a float array turns into NaN.
\<close>

definition sample :: "store \<Rightarrow> masked_array \<Rightarrow> nat list \<Rightarrow> rat option" where
  "sample s m idx = (if is_masked s m idx then None else Some (elem (ma_data m) idx))"

text \<open>
  \<^verbatim>\<open>list(vol[x, min_azim:max_azim, min_gate:max_gate].flatten())\<close>: an integer index
  beyond the first axis, or fewer than three axes, is an IndexError; a slice is cut to
  the extent of its axis.
\<close>

definition zone_flat ::
  "store \<Rightarrow> masked_array \<Rightarrow> nat \<Rightarrow> nat \<Rightarrow> nat \<Rightarrow> nat \<Rightarrow> nat \<Rightarrow> py_error + rat option list" where
  "zone_flat s vol x min_azim max_azim min_gate max_gate =
     (let sh = shape (ma_data vol) in
      if length sh < 3 then Inl (IndexError ''too many indices for array'')
      else if sh ! 0 \<le> x then Inl (IndexError ''index is out of bounds for axis 0'')
      else Inr [sample s vol (x # a # g # rest).
                  a \<leftarrow> [min_azim..<min max_azim (sh ! 1)],
                  g \<leftarrow> [min_gate..<min max_gate (sh ! 2)],
                  rest \<leftarrow> indices (drop 3 sh)])"

text \<open>The two nested loops of \<^verbatim>\<open>determine_zone_slope\<close> that fill \<^verbatim>\<open>angle_list\<close> and \<^verbatim>\<open>dbz_list\<close>.\<close>

fun pool_samples ::
  "store \<Rightarrow> rat list \<Rightarrow> masked_array \<Rightarrow> nat \<times> nat \<times> nat \<times> nat \<Rightarrow> nat list
     \<Rightarrow> rat list \<times> rat option list \<Rightarrow> py_error + (rat list \<times> rat option list)" where
  "pool_samples s angles vol zone [] acc = Inr acc"
| "pool_samples s angles vol (min_azim, max_azim, min_gate, max_gate) (x # xs) acc =
     (case zone_flat s vol x min_azim max_azim min_gate max_gate of
        Inl e \<Rightarrow> Inl e
      | Inr zone \<Rightarrow>
          pool_samples s angles vol (min_azim, max_azim, min_gate, max_gate) xs
            (foldl (\<lambda>(angle_list, dbz_list) dbz. (angle_list @ [angles ! x], dbz_list @ [dbz]))
               acc zone))"

text \<open>
  \<^verbatim>\<open>scipy.stats.linregress\<close>, the slope only: empty input and identical x values are
  ValueErrors; otherwise the slope is the covariance of x and y over the variance of x
  (both with divisor n), NaN when a y value is NaN or only one point is given.
\<close>

definition mean :: "rat list \<Rightarrow> rat" where
  "mean xs = sum_list xs / of_nat (length xs)"

definition linregress_slope :: "rat list \<Rightarrow> rat option list \<Rightarrow> py_error + rat option" where
  "linregress_slope x y =
     (if x = [] \<or> y = [] then Inl (ValueError ''Inputs must not be empty.'')
      else if \<not> (length x = length y) then
        Inl (ValueError ''all the input array dimensions must match exactly'')
      else if 1 < length x \<and> Max (set x) = Min (set x) then
        Inl (ValueError ''Cannot calculate a linear regression if all x values are identical'')
      else
        (case those y of
           None \<Rightarrow> Inr None
         | Some ys \<Rightarrow>
             if length x = 1 then Inr None
             else
               let n = of_nat (length x);
                   xmean = mean x;
                   ymean = mean ys;
                   ssxm = sum_list (map (\<lambda>xi. (xi - xmean) * (xi - xmean)) x) / n;
                   ssxym = sum_list (map (\<lambda>(xi, yi). (xi - xmean) * (yi - ymean)) (zip x ys)) / n
               in Inr (Some (ssxym / ssxm))))"

text \<open>
  The slope of one zone over a volume and its scan angles. \<^verbatim>\<open>determine_zone_slope\<close>
  is this function on \<^verbatim>\<open>iris_data.convol\<close> and \<^verbatim>\<open>self.convol_angles\<close>.
\<close>

definition zone_slope ::
  "precip_config \<Rightarrow> store \<Rightarrow> rat list \<Rightarrow> masked_array \<Rightarrow> nat \<Rightarrow> nat \<Rightarrow> py_error + rat option" where
  "zone_slope cfg s angles vol azim_zone gate_zone =
     (let min_azim = azim_zone * azim_region cfg;
          max_azim = (azim_zone + 1) * azim_region cfg;
          min_gate = gate_zone * gate_region cfg;
          max_gate = (gate_zone + 1) * gate_region cfg in
      and_then (pool_samples s angles vol (min_azim, max_azim, min_gate, max_gate)
                  [0..<length angles] ([], []))
        (\<lambda>(angle_list, dbz_list).
           if \<not> (length angle_list = length dbz_list) then Inl (ValueError ''Zone slope error'')
           else linregress_slope angle_list dbz_list))"

definition determine_zone_slope ::
  "IrisProcessor \<Rightarrow> store \<Rightarrow> iris_data \<Rightarrow> nat \<Rightarrow> nat \<Rightarrow> py_error + rat option" where
  "determine_zone_slope self s iris azim_zone gate_zone =
     zone_slope (precip (config self)) s (convol_angles self) (convol iris) azim_zone gate_zone"

text \<open>\<^verbatim>\<open>slope > max_slope\<close>; a comparison with NaN is False.\<close>

definition exceeds :: "rat option \<Rightarrow> rat \<Rightarrow> bool" where
  "exceeds slope max_slope = (case slope of None \<Rightarrow> False | Some v \<Rightarrow> max_slope < v)"

definition in_block :: "nat \<Rightarrow> nat \<Rightarrow> nat \<Rightarrow> nat \<Rightarrow> nat list \<Rightarrow> bool" where
  "in_block min_azim max_azim min_gate max_gate idx =
     (case idx of
        e # a # g # rest \<Rightarrow> min_azim \<le> a \<and> a < max_azim \<and> min_gate \<le> g \<and> g < max_gate
      | _ \<Rightarrow> False)"

text \<open>\<^verbatim>\<open>filter_3d[:, min_azim:max_azim, min_gate:max_gate] = True\<close> on the array at \<open>r\<close>.\<close>

definition set_block :: "nat \<Rightarrow> nat \<Rightarrow> nat \<Rightarrow> nat \<Rightarrow> nat \<Rightarrow> (unit, store) action" where
  "set_block r min_azim max_azim min_gate max_gate s =
     (let a = arrays s r in
      if length (shape a) < 3 then (Inl (IndexError ''too many indices for array''), s)
      else (Inr (),
            s\<lparr>arrays := (arrays s)
                 (r := a\<lparr>elem := (\<lambda>idx. if in_block min_azim max_azim min_gate max_gate idx
                                        then True else elem a idx)\<rparr>)\<rparr>))"

definition mark_zone :: "precip_config \<Rightarrow> PrecipFilter \<Rightarrow> PrecipFilter \<Rightarrow> nat \<Rightarrow> nat \<Rightarrow> (unit, store) action" where
  "mark_zone cfg convol_precip dopvol_precip x y =
     (let min_azim = x * azim_region cfg;
          max_azim = (x + 1) * azim_region cfg;
          min_gate = y * gate_region cfg;
          max_gate = (y + 1) * gate_region cfg in
      seq (set_block (filter_3d convol_precip) min_azim max_azim min_gate max_gate)
        (\<lambda>u. set_block (filter_3d dopvol_precip) min_azim max_azim min_gate max_gate))"

text \<open>The inner loop (over \<open>y\<close>) and the outer loop (over \<open>x\<close>) of \<^verbatim>\<open>filter_precip\<close>.\<close>

fun filter_gates ::
  "IrisProcessor \<Rightarrow> PrecipFilter \<Rightarrow> PrecipFilter \<Rightarrow> iris_data \<Rightarrow> nat \<Rightarrow> nat list \<Rightarrow> (unit, store) action" where
  "filter_gates self convol_precip dopvol_precip iris x [] s = (Inr (), s)"
| "filter_gates self convol_precip dopvol_precip iris x (y # ys) s =
     (case determine_zone_slope self s iris x y of
        Inl e \<Rightarrow> (Inl e, s)
      | Inr slope \<Rightarrow>
          if exceeds slope (max_dbz_per_degree (precip (config self))) then
            (case mark_zone (precip (config self)) convol_precip dopvol_precip x y s of
               (Inl e, s') \<Rightarrow> (Inl e, s')
             | (Inr u, s') \<Rightarrow> filter_gates self convol_precip dopvol_precip iris x ys s')
          else filter_gates self convol_precip dopvol_precip iris x ys s)"

fun filter_azims ::
  "IrisProcessor \<Rightarrow> PrecipFilter \<Rightarrow> PrecipFilter \<Rightarrow> iris_data \<Rightarrow> nat list \<Rightarrow> nat list \<Rightarrow> (unit, store) action" where
  "filter_azims self convol_precip dopvol_precip iris [] ys s = (Inr (), s)"
| "filter_azims self convol_precip dopvol_precip iris (x # xs) ys s =
     (case filter_gates self convol_precip dopvol_precip iris x ys s of
        (Inl e, s') \<Rightarrow> (Inl e, s')
      | (Inr u, s') \<Rightarrow> filter_azims self convol_precip dopvol_precip iris xs ys s')"

text \<open>
  \<^verbatim>\<open>filter_precip\<close>. \<open>loaded\<close> is what \<^verbatim>\<open>bugtracker.config.load\<close> returns at the call;
  the method stores it in \<^verbatim>\<open>self.config\<close>, so the processor is returned too. The timing
  print is left out. The region sizes are natural numbers; \<^verbatim>\<open>%\<close> by zero raises.
\<close>

definition filter_precip ::
  "config \<Rightarrow> IrisProcessor \<Rightarrow> PrecipFilter \<Rightarrow> PrecipFilter \<Rightarrow> iris_data \<Rightarrow> store
     \<Rightarrow> (py_error + unit) \<times> IrisProcessor \<times> store" where
  "filter_precip loaded self0 convol_precip dopvol_precip iris s =
     (let self = self0\<lparr>config := loaded\<rparr>;
          azim_region = azim_region (precip (config self));
          gate_region = gate_region (precip (config self));
          azims = azims (grid_info self);
          gates = gates (grid_info self) in
      if azim_region = 0 then (Inl (ZeroDivisionError ''integer modulo by zero''), self, s)
      else if \<not> (azims mod azim_region = 0) then
        (Inl (ValueError (''Choose value of azim_region that divides '' @ str_nat azims @ '' evenly.'')),
         self, s)
      else if gate_region = 0 then (Inl (ZeroDivisionError ''integer modulo by zero''), self, s)
      else if \<not> (gates mod gate_region = 0) then
        (Inl (ValueError (''Choose value of gate_region that divides '' @ str_nat gates @ '' evenly'')),
         self, s)
      else
        let azim_zones = azims div azim_region;
            gate_zones = gates div gate_region in
        (case filter_azims self convol_precip dopvol_precip iris [0..<azim_zones] [0..<gate_zones] s of
           (r, s') \<Rightarrow> (r, self, s')))"

subsection \<open>Mask fusion\<close>

text \<open>
  \<^verbatim>\<open>numpy.ma.getmask\<close>, \<^verbatim>\<open>numpy.ma.mask_or\<close> (which shrinks an all-False result to
  \<^verbatim>\<open>nomask\<close>) and \<^verbatim>\<open>numpy.ma.array(data, mask=m)\<close> on a masked array with the default
  \<^verbatim>\<open>keep_mask=True\<close>: a mask of another shape is resized when it has one cell, reshaped
  when it has as many cells as the data and refused otherwise; the new object's mask is
  a new array, the given mask or-ed with the mask the data had.
\<close>

definition getmask :: "store \<Rightarrow> masked_array \<Rightarrow> bool ndarray option" where
  "getmask s m = map_option (arrays s) (ma_mask m)"

definition make_mask_shrink :: "bool ndarray \<Rightarrow> bool ndarray option" where
  "make_mask_shrink m = (if list_ex (elem m) (indices (shape m)) then Some m else None)"

definition mask_or :: "bool ndarray \<Rightarrow> bool ndarray option \<Rightarrow> py_error + bool ndarray option" where
  "mask_or m1 m2 =
     (case m2 of
        None \<Rightarrow> Inr (make_mask_shrink m1)
      | Some m \<Rightarrow> and_then (logical_or m1 m) (\<lambda>r. Inr (make_mask_shrink r)))"

definition fit_mask :: "bool ndarray \<Rightarrow> nat list \<Rightarrow> py_error + bool ndarray" where
  "fit_mask m sh =
     (if shape m = sh then Inr m
      else if array_size (shape m) = 1 then Inr (np_resize1 m sh)
      else if array_size (shape m) = array_size sh then Inr (np_reshape m sh)
      else Inl (MaskError ''Mask and data not compatible''))"

definition ma_array :: "masked_array \<Rightarrow> bool ndarray option \<Rightarrow> (masked_array, store) action" where
  "ma_array data given s =
     (case given of
        None \<Rightarrow> (Inr data, s)
      | Some m \<Rightarrow>
          (case fit_mask m (shape (ma_data data)) of
             Inl e \<Rightarrow> (Inl e, s)
           | Inr m' \<Rightarrow>
               (let new_mask =
                      (case getmask s data of
                         None \<Rightarrow> m'
                       | Some old \<Rightarrow>
                           \<lparr>shape = shape (ma_data data),
                            elem = (\<lambda>idx. elem m' idx \<or> elem old idx)\<rparr>) in
                case alloc new_mask s of
                  (r, s') \<Rightarrow> (Inr (data\<lparr>ma_mask := Some (next_ref s)\<rparr>), s'))))"

definition impose_filter ::
  "iris_data \<Rightarrow> bool ndarray \<Rightarrow> bool ndarray \<Rightarrow> store \<Rightarrow> (py_error + unit) \<times> iris_data \<times> store" where
  "impose_filter iris np_convol np_dopvol s =
     (let raw_dopvol_shape = shape (ma_data (dopvol iris));
          raw_convol_shape = shape (ma_data (convol iris));
          raw_dopvol_mask = getmask s (dopvol iris);
          raw_convol_mask = getmask s (convol iris) in
      case mask_or np_dopvol raw_dopvol_mask of
        Inl e \<Rightarrow> (Inl e, iris, s)
      | Inr dopvol_mask \<Rightarrow>
          (case mask_or np_convol raw_convol_mask of
             Inl e \<Rightarrow> (Inl e, iris, s)
           | Inr convol_mask \<Rightarrow>
               (case ma_array (dopvol iris) dopvol_mask s of
                  (Inl e, s1) \<Rightarrow> (Inl e, iris, s1)
                | (Inr d, s1) \<Rightarrow>
                    (case ma_array (convol iris) convol_mask s1 of
                       (Inl e, s2) \<Rightarrow> (Inl e, iris\<lparr>dopvol := d\<rparr>, s2)
                     | (Inr c, s2) \<Rightarrow>
                         (let iris' = iris\<lparr>dopvol := d, convol := c\<rparr> in
                          if \<not> (raw_dopvol_shape = shape (ma_data (dopvol iris'))) then
                            (Inl (ValueError ''Error in DOPVOL array size''), iris', s2)
                          else if \<not> (raw_convol_shape = shape (ma_data (convol iris'))) then
                            (Inl (ValueError ''Error in new CONVOL array size''), iris', s2)
                          else (Inr (), iris', s2))))))"

subsection \<open>One set of scans\<close>

text \<open>
  Modelled from the spec: the constructor of \<^verbatim>\<open>PrecipFilter\<close> is not in the sources. By
  the spec a zone mask is a boolean 3-D array of the shape of its volume, created fresh
  for each processing call; a fresh mask flags nothing.
\<close>

definition PrecipFilter_new :: "metadata \<Rightarrow> grid_info \<Rightarrow> rat list \<Rightarrow> (PrecipFilter, store) action" where
  "PrecipFilter_new md gi angles s =
     (case alloc \<lparr>shape = [length angles, azims gi, gates gi], elem = (\<lambda>idx. False)\<rparr> s of
        (r, s') \<Rightarrow> (Inr \<lparr>filter_3d = next_ref s\<rparr>, s'))"

text \<open>
  \<^verbatim>\<open>plot_iris\<close>: the plotter is a collaborator outside the two files and changes none of
  the arrays; what remains are the exception for a missing plotter and the slices
  \<^verbatim>\<open>vol[x,:,:]\<close> taken for every scan angle.
\<close>

definition plot_slices :: "masked_array \<Rightarrow> nat \<Rightarrow> py_error + unit" where
  "plot_slices vol n =
     (if list_all (\<lambda>x. 3 \<le> length (shape (ma_data vol)) \<and> x < shape (ma_data vol) ! 0) [0..<n]
      then Inr () else Inl (IndexError ''index is out of bounds''))"

definition plot_iris :: "IrisProcessor \<Rightarrow> iris_data \<Rightarrow> py_error + unit" where
  "plot_iris self iris =
     (if \<not> plotter self then Inl (ValueError ''Plotter has not been initialized!'')
      else and_then (plot_slices (convol iris) (length (convol_angles self)))
             (\<lambda>u. plot_slices (dopvol iris) (length (dopvol_angles self))))"

text \<open>
  \<^verbatim>\<open>process_set\<close>, from the filled \<^verbatim>\<open>iris_data\<close> on (\<^verbatim>\<open>IrisData(iris_set).fill_grids()\<close>
  is the parser outside the two files).
\<close>

definition process_set ::
  "config \<Rightarrow> IrisProcessor \<Rightarrow> iris_data \<Rightarrow> store \<Rightarrow> (py_error + unit) \<times> IrisProcessor \<times> iris_data \<times> store" where
  "process_set loaded self iris s =
     (case plot_iris self iris of
        Inl e \<Rightarrow> (Inl e, self, iris, s)
      | Inr u \<Rightarrow>
          (case PrecipFilter_new (metadata self) (grid_info self) (convol_angles self) s of
             (Inl e, s1) \<Rightarrow> (Inl e, self, iris, s1)
           | (Inr convol_precip, s1) \<Rightarrow>
          (case PrecipFilter_new (metadata self) (grid_info self) (dopvol_angles self) s1 of
             (Inl e, s2) \<Rightarrow> (Inl e, self, iris, s2)
           | (Inr dopvol_precip, s2) \<Rightarrow>
          (case filter_precip loaded self convol_precip dopvol_precip iris s2 of
             (Inl e, self', s3) \<Rightarrow> (Inl e, self', iris, s3)
           | (Inr u, self', s3) \<Rightarrow>
          (case logical_or (astype_bool (convol_clutter self')) (arrays s3 (filter_3d convol_precip)) of
             Inl e \<Rightarrow> (Inl e, self', iris, s3)
           | Inr convol_joint \<Rightarrow>
          (case logical_or (astype_bool (dopvol_clutter self')) (arrays s3 (filter_3d dopvol_precip)) of
             Inl e \<Rightarrow> (Inl e, self', iris, s3)
           | Inr dopvol_joint \<Rightarrow>
          (case impose_filter iris convol_joint dopvol_joint s3 of
             (Inl e, iris', s4) \<Rightarrow> (Inl e, self', iris', s4)
           | (Inr u, iris', s4) \<Rightarrow>
               (plot_iris self' iris', self', iris', s4))))))))"

section \<open>models.py: the netCDF4 writer\<close>

text \<open>
  The file system is a map from paths to netCDF datasets, with the list of
  \<^verbatim>\<open>nc.Dataset(filename, mode=..)\<close> calls that opened a file. A dataset holds its
  global attributes, its dimensions and its variables; a variable that was created and
  never assigned holds no data (reading it gives fill values). A handle is the path of
  the open file, and what is written through it is in the file at once: \<^verbatim>\<open>dset.close()\<close>
  changes no content and is left out. A dimension of size 0 would be an unlimited one;
  that case is left out.
\<close>

datatype nc_type = NcFloat | NcInt

datatype nc_values = FloatValues "rat ndarray" | IntValues "int ndarray"

datatype attr_value = NumAttr rat | StrAttr string

record nc_variable =
  var_type :: nc_type
  var_dims :: "string list"
  var_data :: "nc_values option"

record dataset =
  attrs :: "string \<Rightarrow> attr_value option"
  dims :: "string \<Rightarrow> nat option"
  variables :: "string \<Rightarrow> nc_variable option"

record filesystem =
  files :: "string \<Rightarrow> dataset option"
  opened :: "(string \<times> string) list"

definition empty_dataset :: dataset where
  "empty_dataset = \<lparr>attrs = (\<lambda>k. None), dims = (\<lambda>k. None), variables = (\<lambda>k. None)\<rparr>"

text \<open>Mode \<^verbatim>\<open>"w"\<close> creates the file or replaces it; mode \<^verbatim>\<open>"a"\<close> needs the file.\<close>

definition Dataset_open :: "string \<Rightarrow> string \<Rightarrow> (string, filesystem) action" where
  "Dataset_open filename mode fs =
     (if mode = ''w'' then
        (Inr filename,
         fs\<lparr>files := (files fs)(filename := Some empty_dataset),
            opened := opened fs @ [(filename, mode)]\<rparr>)
      else
        (case files fs filename of
           None \<Rightarrow> (Inl (FileNotFoundError filename), fs)
         | Some d \<Rightarrow> (Inr filename, fs\<lparr>opened := opened fs @ [(filename, mode)]\<rparr>)))"

definition update_dataset :: "string \<Rightarrow> (dataset \<Rightarrow> py_error + dataset) \<Rightarrow> (unit, filesystem) action" where
  "update_dataset dset f fs =
     (case files fs dset of
        None \<Rightarrow> (Inl (RuntimeError ''NetCDF: Not a valid ID''), fs)
      | Some d \<Rightarrow>
          (case f d of
             Inl e \<Rightarrow> (Inl e, fs)
           | Inr d' \<Rightarrow> (Inr (), fs\<lparr>files := (files fs)(dset := Some d')\<rparr>)))"

definition setncattr :: "string \<Rightarrow> string \<Rightarrow> attr_value \<Rightarrow> (unit, filesystem) action" where
  "setncattr dset k v = update_dataset dset (\<lambda>d. Inr (d\<lparr>attrs := (attrs d)(k := Some v)\<rparr>))"

definition createDimension :: "string \<Rightarrow> string \<Rightarrow> nat \<Rightarrow> (unit, filesystem) action" where
  "createDimension dset k n =
     update_dataset dset (\<lambda>d.
       case dims d k of
         Some m \<Rightarrow> Inl (RuntimeError ''NetCDF: String match to name in use'')
       | None \<Rightarrow> Inr (d\<lparr>dims := (dims d)(k := Some n)\<rparr>))"

definition createVariable :: "string \<Rightarrow> string \<Rightarrow> nc_type \<Rightarrow> string list \<Rightarrow> (unit, filesystem) action" where
  "createVariable dset k ty dimensions =
     update_dataset dset (\<lambda>d.
       case variables d k of
         Some v \<Rightarrow> Inl (RuntimeError ''NetCDF: String match to name in use'')
       | None \<Rightarrow>
           if list_ex (\<lambda>n. dims d n = None) dimensions then
             Inl (ValueError ''cannot find dimension'')
           else Inr (d\<lparr>variables := (variables d)
                         (k := Some \<lparr>var_type = ty, var_dims = dimensions, var_data = None\<rparr>)\<rparr>))"

text \<open>
  Assigning to all of a variable: data of the variable's shape is stored as it is, data
  with as many cells is reshaped, other data is broadcast when numpy can, and refused
  otherwise.
\<close>

definition conform :: "'a ndarray \<Rightarrow> nat list \<Rightarrow> py_error + 'a ndarray" where
  "conform a sh =
     (if shape a = sh then Inr a
      else if array_size (shape a) = array_size sh then Inr (np_reshape a sh)
      else if broadcast_shapes (shape a) sh = Some sh then
        Inr \<lparr>shape = sh, elem = (\<lambda>idx. elem a (broadcast_index (shape a) idx))\<rparr>
      else Inl (ValueError ''operands could not be broadcast together''))"

definition var_shape :: "dataset \<Rightarrow> nc_variable \<Rightarrow> nat list" where
  "var_shape d v = map (\<lambda>n. case dims d n of None \<Rightarrow> 0 | Some m \<Rightarrow> m) (var_dims v)"

definition put_float :: "string \<Rightarrow> string \<Rightarrow> rat ndarray \<Rightarrow> (unit, filesystem) action" where
  "put_float dset k a =
     update_dataset dset (\<lambda>d.
       case variables d k of
         None \<Rightarrow> Inl (RuntimeError ''NetCDF: Variable not found'')
       | Some v \<Rightarrow>
           and_then (conform a (var_shape d v))
             (\<lambda>a'. Inr (d\<lparr>variables := (variables d)(k := Some (v\<lparr>var_data := Some (FloatValues a')\<rparr>))\<rparr>)))"

definition put_int :: "string \<Rightarrow> string \<Rightarrow> int ndarray \<Rightarrow> (unit, filesystem) action" where
  "put_int dset k a =
     update_dataset dset (\<lambda>d.
       case variables d k of
         None \<Rightarrow> Inl (RuntimeError ''NetCDF: Variable not found'')
       | Some v \<Rightarrow>
           and_then (conform a (var_shape d v))
             (\<lambda>a'. Inr (d\<lparr>variables := (variables d)(k := Some (v\<lparr>var_data := Some (IntValues a')\<rparr>))\<rparr>)))"

text \<open>\<^verbatim>\<open>a[:,:,:]\<close> and \<^verbatim>\<open>a[:,:]\<close> on an attribute that may be \<^verbatim>\<open>None\<close>; \<^verbatim>\<open>xs[:]\<close> on a list.\<close>

definition slice_all :: "nat \<Rightarrow> 'a ndarray option \<Rightarrow> py_error + 'a ndarray" where
  "slice_all n a =
     (case a of
        None \<Rightarrow> Inl (TypeError ''NoneType object is not subscriptable'')
      | Some v \<Rightarrow>
          if length (shape v) < n then Inl (IndexError ''too many indices for array'') else Inr v)"

definition array_of_list :: "rat list \<Rightarrow> rat ndarray" where
  "array_of_list xs = \<lparr>shape = [length xs], elem = (\<lambda>idx. xs ! hd idx)\<rparr>"

record BaseOutput = radar_object +
  radar_filetype :: string
  dbz_elevs :: "rat list"
  dbz_filtered :: "rat ndarray option"
  dbz_unfiltered :: "rat ndarray option"
  joint_product :: "rat ndarray option"

record IrisOutput = BaseOutput +
  velocity :: "rat ndarray option"
  spectrum_width :: "rat ndarray option"
  total_power :: "rat ndarray option"
  dop_elevs :: "rat list"

text \<open>
  \<^verbatim>\<open>dset.k = v\<close> on a \<^verbatim>\<open>netCDF4.Dataset\<close>. \<^verbatim>\<open>Dataset.__setattr__\<close> stores a global
  attribute of the file through \<^verbatim>\<open>setncattr\<close>, unless \<^verbatim>\<open>k\<close> is one of the names the
  library keeps for itself (\<^verbatim>\<open>_private_atts\<close>): those that a Dataset has, such as the
  read-only property \<^verbatim>\<open>name\<close>, cannot be rebound, the assignment raises AttributeError
  and no attribute is written.
\<close>

definition private_atts :: "string list" where
  "private_atts =
     [''_grpid'', ''_grp'', ''_varid'', ''groups'', ''dimensions'', ''variables'', ''dtype'',
      ''data_model'', ''disk_format'', ''_nunlimdim'', ''path'', ''parent'', ''ndim'', ''mask'',
      ''scale'', ''cmptypes'', ''vltypes'', ''enumtypes'', ''_isprimitive'', ''file_format'',
      ''_isvlen'', ''_isenum'', ''_iscompound'', ''_cmptype'', ''_vltype'', ''_enumtype'', ''name'',
      ''__orthogoral_indexing__'', ''keepweakref'', ''_has_lsd'', ''_buffer'', ''chartostring'',
      ''_use_get_vars'', ''_ncstring_attrs__'']"

definition Dataset_setattr :: "string \<Rightarrow> string \<Rightarrow> attr_value \<Rightarrow> (unit, filesystem) action" where
  "Dataset_setattr dset k v =
     (if k \<in> set private_atts then
        raise (AttributeError (k @ '' is one of the reserved attributes, cannot rebind. Use setncattr instead.''))
      else setncattr dset k v)"

text \<open>
  \<^verbatim>\<open>BaseOutput.write_metadata\<close>: six assignments to attributes of the open Dataset. The
  fifth one, \<^verbatim>\<open>dset.name = self.metadata.name\<close>, is to a reserved name.
\<close>

definition write_metadata :: "'a BaseOutput_scheme \<Rightarrow> string \<Rightarrow> (unit, filesystem) action" where
  "write_metadata self dset =
     seq (Dataset_setattr dset ''latitude'' (NumAttr (lat (metadata self)))) (\<lambda>u.
     seq (Dataset_setattr dset ''longitude'' (NumAttr (lon (metadata self)))) (\<lambda>u.
     seq (Dataset_setattr dset ''radar_id'' (StrAttr (radar_id (metadata self)))) (\<lambda>u.
     seq (Dataset_setattr dset ''datetime'' (StrAttr (strftime_YmdHM (scan_dt (metadata self))))) (\<lambda>u.
     seq (Dataset_setattr dset ''name'' (StrAttr (name (metadata self)))) (\<lambda>u.
          Dataset_setattr dset ''filetype'' (StrAttr (radar_filetype self)))))))"

text \<open>
  \<^verbatim>\<open>BaseOutput.write\<close> opens the file, calls \<^verbatim>\<open>write_metadata\<close> and then declares and
  fills the dbz variables; these statements, from \<^verbatim>\<open>azims = self.grid_info.azims\<close> to
  the end of the method, are \<open>write_arrays\<close>. The last assignment,
  \<^verbatim>\<open>nc_dbz_joint = self.joint_product[:,:]\<close>, has no \<^verbatim>\<open>[:,:]\<close> on the left: it evaluates
  the slice and binds the local name to it; nothing is stored in the variable
  \<^verbatim>\<open>dbz_joint\<close>.
\<close>

definition write_arrays :: "'a BaseOutput_scheme \<Rightarrow> string \<Rightarrow> (unit, filesystem) action" where
  "write_arrays self dset =
     (let azims = azims (grid_info self);
          gates = gates (grid_info self);
          dbz_elevs = dbz_elevs self;
          num_dbz_elevs = length dbz_elevs in
     seq (createDimension dset ''dbz_elevs'' num_dbz_elevs) (\<lambda>u.
     seq (createDimension dset ''azims'' azims) (\<lambda>u.
     seq (createDimension dset ''gates'' gates) (\<lambda>u.
     seq (createVariable dset ''dbz_elevs'' NcFloat [''dbz_elevs'']) (\<lambda>u.
     seq (createVariable dset ''dbz_filtered'' NcFloat [''dbz_elevs'', ''azims'', ''gates'']) (\<lambda>u.
     seq (createVariable dset ''dbz_unfiltered'' NcFloat [''dbz_elevs'', ''azims'', ''gates'']) (\<lambda>u.
     seq (createVariable dset ''dbz_joint'' NcFloat [''azims'', ''gates'']) (\<lambda>u.
     seq (put_float dset ''dbz_elevs'' (array_of_list dbz_elevs)) (\<lambda>u.
     seq (lift (slice_all 3 (dbz_filtered self))) (\<lambda>a.
     seq (put_float dset ''dbz_filtered'' a) (\<lambda>u.
     seq (lift (slice_all 3 (dbz_unfiltered self))) (\<lambda>a.
     seq (put_float dset ''dbz_unfiltered'' a) (\<lambda>u.
     seq (lift (slice_all 2 (joint_product self))) (\<lambda>nc_dbz_joint.
          ret ()))))))))))))))"

definition BaseOutput_write :: "'a BaseOutput_scheme \<Rightarrow> string \<Rightarrow> (unit, filesystem) action" where
  "BaseOutput_write self filename =
     seq (Dataset_open filename ''w'') (\<lambda>dset.
     seq (write_metadata self dset) (\<lambda>u.
          write_arrays self dset))"

definition BaseOutput_validate :: "'a BaseOutput_scheme \<Rightarrow> py_error + unit" where
  "BaseOutput_validate self =
     (case dbz_filtered self of
        None \<Rightarrow> Inl (ValueError ''dbz_filtered array cannot be null.'')
      | Some filtered \<Rightarrow>
     (case dbz_unfiltered self of
        None \<Rightarrow> Inl (ValueError ''dbz_unfiltered array cannot be null.'')
      | Some unfiltered \<Rightarrow>
          if \<not> (shape filtered = shape unfiltered) then
            Inl (ValueError ''dbz grids must have the same dimension.'')
          else
            let azims = azims (grid_info self);
                gates = gates (grid_info self) in
            if length (shape filtered) < 3 then Inl (IndexError ''tuple index out of range'')
            else
              let dbz_azims = shape filtered ! 1;
                  dbz_gates = shape filtered ! 2 in
              if \<not> (dbz_azims = azims) then
                Inl (ValueError (''Incompatible azims: '' @ str_nat dbz_azims @ '' != '' @ str_nat azims))
              else if \<not> (dbz_gates = gates) then
                Inl (ValueError (''Incompatible gates: '' @ str_nat dbz_gates @ '' != '' @ str_nat gates))
              else
                (case joint_product self of
                   None \<Rightarrow> Inl (ValueError ''joint_product cannot be null.'')
                 | Some jp \<Rightarrow>
                     let joint = shape jp in
                     if \<not> (length joint = 2) then
                       Inl (ValueError ''joint_product must be a 2D array.'')
                     else if \<not> (azims = joint ! 0 \<and> gates = joint ! 1) then
                       Inl (ValueError (''Incompatible dims for joint_product: ''
                              @ str_nat (joint ! 0) @ '','' @ str_nat (joint ! 1)))
                     else Inr ())))"

text \<open>
  \<^verbatim>\<open>append_target_id\<close> calls \<^verbatim>\<open>self.validate()\<close>, which is the \<^verbatim>\<open>validate\<close> of the
  object's own class; it is a parameter here. \<^verbatim>\<open>validate\<close> takes no argument but
  \<^verbatim>\<open>self\<close>.
\<close>

definition append_target_id ::
  "('a BaseOutput_scheme \<Rightarrow> py_error + unit) \<Rightarrow> 'a BaseOutput_scheme \<Rightarrow> string \<Rightarrow> int ndarray
     \<Rightarrow> (unit, filesystem) action" where
  "append_target_id validate self filename id_matrix =
     seq (lift (validate self)) (\<lambda>u.
     seq (Dataset_open filename ''a'') (\<lambda>dset.
     seq (createVariable dset ''target_id'' NcInt [''dbz_elevs'', ''azims'', ''gates'']) (\<lambda>u.
     seq (lift (slice_all 3 (Some id_matrix))) (\<lambda>a.
     seq (put_int dset ''target_id'' a) (\<lambda>u.
          ret ())))))"

text \<open>
  \<^verbatim>\<open>IrisOutput\<close>. Reading \<^verbatim>\<open>.shape\<close> of an auxiliary volume that is \<^verbatim>\<open>None\<close> is an
  AttributeError. The second message prints the spectrum shape, as the source does.
\<close>

definition shape_of :: "'a ndarray option \<Rightarrow> py_error + nat list" where
  "shape_of a =
     (case a of
        None \<Rightarrow> Inl (AttributeError ''NoneType object has no attribute shape'')
      | Some v \<Rightarrow> Inr (shape v))"

definition IrisOutput_validate :: "'a IrisOutput_scheme \<Rightarrow> py_error + unit" where
  "IrisOutput_validate self =
     and_then (BaseOutput_validate self) (\<lambda>u.
     and_then (shape_of (velocity self)) (\<lambda>velocity_shape.
     and_then (shape_of (spectrum_width self)) (\<lambda>spectrum_shape.
     and_then (shape_of (total_power self)) (\<lambda>power_shape.
       if \<not> (velocity_shape = spectrum_shape) then
         Inl (ValueError (''Incompatible shapes '' @ str_tuple velocity_shape @ '' != ''
                @ str_tuple spectrum_shape))
       else if \<not> (velocity_shape = power_shape) then
         Inl (ValueError (''Incompatible shapes '' @ str_tuple velocity_shape @ '' != ''
                @ str_tuple spectrum_shape))
       else Inr ()))))"

definition IrisOutput_write :: "'a IrisOutput_scheme \<Rightarrow> string \<Rightarrow> (unit, filesystem) action" where
  "IrisOutput_write self filename =
     seq (lift (IrisOutput_validate self)) (\<lambda>u.
     seq (BaseOutput_write self filename) (\<lambda>u.
     seq (Dataset_open filename ''a'') (\<lambda>dset.
     let dop_elevs = dop_elevs self;
         num_dop_elevs = length dop_elevs;
         dop_dims = [''dop_elevs'', ''azims'', ''gates''] in
     seq (createDimension dset ''dop_elevs'' num_dop_elevs) (\<lambda>u.
     seq (createVariable dset ''dop_elevs'' NcFloat [''dop_elevs'']) (\<lambda>u.
     seq (createVariable dset ''total_power'' NcFloat dop_dims) (\<lambda>u.
     seq (createVariable dset ''velocity'' NcFloat dop_dims) (\<lambda>u.
     seq (createVariable dset ''spectrum_width'' NcFloat dop_dims) (\<lambda>u.
     seq (put_float dset ''dop_elevs'' (array_of_list dop_elevs)) (\<lambda>u.
     seq (lift (slice_all 3 (total_power self))) (\<lambda>a.
     seq (put_float dset ''total_power'' a) (\<lambda>u.
     seq (lift (slice_all 3 (velocity self))) (\<lambda>a.
     seq (put_float dset ''velocity'' a) (\<lambda>u.
     seq (lift (slice_all 3 (spectrum_width self))) (\<lambda>a.
     seq (put_float dset ''spectrum_width'' a) (\<lambda>u.
          ret ())))))))))))))))"

subsection \<open>The unimplemented output variants\<close>

text \<open>
  \<^verbatim>\<open>OdimOutput.__init__\<close> and \<^verbatim>\<open>NexradOutput.__init__\<close> raise as their first
  statement. \<^verbatim>\<open>BaseOutput\<close> declares no abstract method, so the instance is created and
  \<^verbatim>\<open>__init__(self, metadata, grid_info)\<close> runs whenever two arguments are given.
\<close>

definition OdimOutput_init :: "pyval \<Rightarrow> pyval \<Rightarrow> py_error + BaseOutput" where
  "OdimOutput_init md gi = Inl (NotImplementedError ''OdimOutput'')"

definition NexradOutput_init :: "pyval \<Rightarrow> pyval \<Rightarrow> py_error + BaseOutput" where
  "NexradOutput_init md gi = Inl (NotImplementedError ''NEXRAD'')"

definition OdimOutput_new :: "pyval list \<Rightarrow> py_error + BaseOutput" where
  "OdimOutput_new args =
     (case args of
        [md, gi] \<Rightarrow> OdimOutput_init md gi
      | _ \<Rightarrow> Inl (TypeError ''__init__() missing or extra positional arguments''))"

definition NexradOutput_new :: "pyval list \<Rightarrow> py_error + BaseOutput" where
  "NexradOutput_new args =
     (case args of
        [md, gi] \<Rightarrow> NexradOutput_init md gi
      | _ \<Rightarrow> Inl (TypeError ''__init__() missing or extra positional arguments''))"

section \<open>Vocabulary of the statements\<close>

subsection \<open>Calibration fields\<close>

text \<open>The checked fields in the order of the checks: the message prefix and the loaded shape
  (and, for the clutter volumes, the shape the check compares with).\<close>

definition universal_fields :: "'a Processor_scheme \<Rightarrow> (string \<times> nat list) list" where
  "universal_fields self =
     [(''Lat grid invalid dims: '', shape (lats self)),
      (''Lon grid invalid dims: '', shape (lons self)),
      (''Altitude grid invalid dims: '', shape (altitude self))]"

definition specific_fields :: "'a IrisProcessor_scheme \<Rightarrow> (string \<times> nat list \<times> nat list) list" where
  "specific_fields self =
     [(''Invalid convol dimensions: '', shape (convol_clutter self),
         [length (convol_angles self), azims (grid_info self), gates (grid_info self)]),
      (''Invalid dopvol dimensions: '', shape (dopvol_clutter self),
         [length (dopvol_angles self), azims (grid_info self), gates (grid_info self)])]"

subsection \<open>Defects of an output set\<close>

text \<open>
  Both dbz volumes are present with the same shape, of fewer than three axes: the case in
  which \<^verbatim>\<open>validate\<close> reaches \<^verbatim>\<open>self.dbz_filtered.shape[1]\<close> and
  \<^verbatim>\<open>self.dbz_filtered.shape[2]\<close> on a shape tuple that is too short.
\<close>

definition dbz_rank_short :: "'a BaseOutput_scheme \<Rightarrow> bool" where
  "dbz_rank_short self =
     (case dbz_filtered self of
        None \<Rightarrow> False
      | Some f \<Rightarrow>
          (case dbz_unfiltered self of
             None \<Rightarrow> False
           | Some u \<Rightarrow> shape f = shape u \<and> length (shape f) < 3))"

definition extent_agrees :: "grid_info \<Rightarrow> nat list \<Rightarrow> bool" where
  "extent_agrees gi sh = (sh ! 1 = azims gi \<and> sh ! 2 = gates gi)"

text \<open>A dbz volume is absent, the two shapes differ, or an azimuth or gate extent is not the grid's.\<close>

definition dbz_defect :: "'a BaseOutput_scheme \<Rightarrow> bool" where
  "dbz_defect self =
     (case dbz_filtered self of
        None \<Rightarrow> True
      | Some f \<Rightarrow>
          (case dbz_unfiltered self of
             None \<Rightarrow> True
           | Some u \<Rightarrow>
               \<not> (shape f = shape u \<and> extent_agrees (grid_info self) (shape f)
                    \<and> extent_agrees (grid_info self) (shape u))))"

text \<open>The joint product is absent, is not 2-D, or its shape is not the grid's.\<close>

definition joint_defect :: "'a BaseOutput_scheme \<Rightarrow> bool" where
  "joint_defect self =
     (case joint_product self of
        None \<Rightarrow> True
      | Some jp \<Rightarrow> \<not> (shape jp = [azims (grid_info self), gates (grid_info self)]))"

text \<open>The three auxiliary volumes do not all have the same shape.\<close>

definition aux_defect :: "'a IrisOutput_scheme \<Rightarrow> bool" where
  "aux_defect self =
     (case (velocity self, spectrum_width self, total_power self) of
        (Some v, Some w, Some p) \<Rightarrow> \<not> (shape v = shape w \<and> shape v = shape p \<and> shape w = shape p)
      | _ \<Rightarrow> False)"

subsection \<open>Reading a file back\<close>

definition read_variable :: "filesystem \<Rightarrow> string \<Rightarrow> string \<Rightarrow> nc_values option option" where
  "read_variable fs filename k =
     (case files fs filename of
        None \<Rightarrow> None
      | Some d \<Rightarrow> map_option var_data (variables d k))"

definition read_attr :: "filesystem \<Rightarrow> string \<Rightarrow> string \<Rightarrow> attr_value option" where
  "read_attr fs filename k = (case files fs filename of None \<Rightarrow> None | Some d \<Rightarrow> attrs d k)"

definition empty_filesystem :: filesystem where
  "empty_filesystem = \<lparr>files = (\<lambda>p. None), opened = []\<rparr>"

subsection \<open>Concrete inputs\<close>

definition example_metadata :: metadata where
  "example_metadata =
     \<lparr>lat = 45, lon = -73, radar_id = ''xam'',
      scan_dt = \<lparr>year = 2019, month = 7, day = 4, hour = 9, minute = 30, second = 12\<rparr>,
      name = ''demo''\<rparr>"

definition ramp :: "nat list \<Rightarrow> rat ndarray" where
  "ramp sh = \<lparr>shape = sh, elem = (\<lambda>idx. of_nat (ravel sh idx))\<rparr>"

definition full :: "nat list \<Rightarrow> 'a \<Rightarrow> 'a ndarray" where
  "full sh v = \<lparr>shape = sh, elem = (\<lambda>idx. v)\<rparr>"

text \<open>The output set of the spec's round trip: three elevations on a 4 by 4 grid.\<close>

definition example_output :: IrisOutput where
  "example_output =
     \<lparr>metadata = example_metadata, grid_info = \<lparr>azims = 4, gates = 4\<rparr>, radar_filetype = ''iris'',
      dbz_elevs = [1/2, 3/2, 5/2],
      dbz_filtered = Some (ramp [3, 4, 4]), dbz_unfiltered = Some (ramp [3, 4, 4]),
      joint_product = Some (ramp [4, 4]),
      velocity = Some (ramp [2, 4, 4]), spectrum_width = Some (ramp [2, 4, 4]),
      total_power = Some (ramp [2, 4, 4]), dop_elevs = [1/2, 1]\<rparr>"

text \<open>A file that already declares the three dimensions, and nothing else.\<close>

definition example_filesystem :: filesystem where
  "example_filesystem =
     \<lparr>files = (\<lambda>p. if p = ''out.nc'' then
                      Some (empty_dataset\<lparr>dims := (\<lambda>k. if k = ''dbz_elevs'' then Some 3
                                                       else if k = ''azims'' then Some 4
                                                       else if k = ''gates'' then Some 4 else None)\<rparr>)
                    else None),
      opened = []\<rparr>"

text \<open>A calibrated processor on an 8 by 8 grid, with three CONVOL and two DOPVOL scan angles.\<close>

definition example_processor :: IrisProcessor where
  "example_processor =
     \<lparr>metadata = example_metadata, grid_info = \<lparr>azims = 8, gates = 8\<rparr>,
      config = \<lparr>precip = \<lparr>azim_region = 4, gate_region = 4, max_dbz_per_degree = 5\<rparr>, plot_dir = ''plots''\<rparr>,
      calib_file = ''calib.nc'', plotter = True,
      lats = full [8, 8] 0, lons = full [8, 8] 0, altitude = full [8, 8] 0,
      convol_angles = [1/2, 1, 3/2], dopvol_angles = [1/2, 1],
      convol_clutter = full [3, 8, 8] 0, dopvol_clutter = full [2, 8, 8] 0\<rparr>"

subsection \<open>Masked volumes on the heap\<close>

text \<open>
  The mask of a volume, when it has one, is an array that was allocated, and it has the
  shape of the data (numpy keeps both for every masked array).
\<close>

definition allocated :: "store \<Rightarrow> masked_array \<Rightarrow> bool" where
  "allocated s vol = (case ma_mask vol of None \<Rightarrow> True | Some m \<Rightarrow> m < next_ref s)"

definition mask_fits :: "store \<Rightarrow> masked_array \<Rightarrow> bool" where
  "mask_fits s vol =
     (case ma_mask vol of None \<Rightarrow> True | Some m \<Rightarrow> shape (arrays s m) = shape (ma_data vol))"

subsection \<open>Zones\<close>

text \<open>
  The (angle, value) pairs of one zone, pooled over all elevations and all cells of the
  zone's azimuth and gate block, and the verdict on them: the least-squares slope exists
  and is greater than the configured maximum.
\<close>

definition pooled_pairs ::
  "store \<Rightarrow> rat list \<Rightarrow> masked_array \<Rightarrow> precip_config \<Rightarrow> nat \<Rightarrow> nat \<Rightarrow> (rat \<times> rat option) list" where
  "pooled_pairs s angles vol cfg x y =
     [(angles ! e, sample s vol [e, a, g]).
        e \<leftarrow> [0..<length angles],
        a \<leftarrow> [x * azim_region cfg..<(x + 1) * azim_region cfg],
        g \<leftarrow> [y * gate_region cfg..<(y + 1) * gate_region cfg]]"

definition zone_contaminated ::
  "store \<Rightarrow> rat list \<Rightarrow> masked_array \<Rightarrow> precip_config \<Rightarrow> nat \<Rightarrow> nat \<Rightarrow> bool" where
  "zone_contaminated s angles vol cfg x y =
     (case linregress_slope (map fst (pooled_pairs s angles vol cfg x y))
             (map snd (pooled_pairs s angles vol cfg x y)) of
        Inl e \<Rightarrow> False
      | Inr slope \<Rightarrow> exceeds slope (max_dbz_per_degree cfg))"

text \<open>
  Two of the scan angles differ (with identical angles the regression is refused).
\<close>

definition angles_vary :: "rat list \<Rightarrow> bool" where
  "angles_vary angles = list_ex (\<lambda>a. list_ex (\<lambda>b. \<not> (a = b)) angles) angles"

text \<open>
  The cells of zone \<open>(x, y)\<close>, on every elevation; the zone a cell of the grid lies in;
  what the loop decides for a zone in a given store.
\<close>

definition zone_block :: "precip_config \<Rightarrow> nat \<Rightarrow> nat \<Rightarrow> nat list \<Rightarrow> bool" where
  "zone_block cfg x y idx =
     in_block (x * azim_region cfg) ((x + 1) * azim_region cfg)
              (y * gate_region cfg) ((y + 1) * gate_region cfg) idx"

definition zone_index :: "precip_config \<Rightarrow> nat \<times> nat \<Rightarrow> nat \<times> nat" where
  "zone_index cfg = (\<lambda>(a, g). (a div azim_region cfg, g div gate_region cfg))"

definition zone_flagged :: "IrisProcessor \<Rightarrow> store \<Rightarrow> iris_data \<Rightarrow> nat \<Rightarrow> nat \<Rightarrow> bool" where
  "zone_flagged self s iris x y =
     (case determine_zone_slope self s iris x y of
        Inl e \<Rightarrow> False
      | Inr slope \<Rightarrow> exceeds slope (max_dbz_per_degree (precip (config self))))"

text \<open>
  Two stores that differ at most in the cells of the two filter arrays.
\<close>

definition same_but :: "nat \<Rightarrow> nat \<Rightarrow> store \<Rightarrow> store \<Rightarrow> bool" where
  "same_but rc rd s s' =
     (next_ref s' = next_ref s
      \<and> (\<forall>q. \<not> (q = rc \<or> q = rd) \<longrightarrow> arrays s' q = arrays s q)
      \<and> shape (arrays s' rc) = shape (arrays s rc)
      \<and> shape (arrays s' rd) = shape (arrays s rd))"

text \<open>
  A filter array as a new zone mask is: three axes (or more) and no cell flagged.
\<close>

definition unflagged :: "store \<Rightarrow> PrecipFilter \<Rightarrow> bool" where
  "unflagged s f =
     (3 \<le> length (shape (arrays s (filter_3d f)))
      \<and> (\<forall>e a g. \<not> elem (arrays s (filter_3d f)) [e, a, g]))"

subsection \<open>The spec's detection scenario\<close>

text \<open>
  An 8 by 8 grid in zones of 4 by 4, scan angles 0.5, 1.0 and 1.5 degrees, a slope limit
  of 5 dB per degree. In zone (0, 0) the reflectivity is 20 times the angle, elsewhere it
  is 10. The DOPVOL volume is flat. The two filters are the ones \<^verbatim>\<open>process_set\<close>
  creates, at the first two addresses of an empty heap.
\<close>

definition scenario_config :: config where
  "scenario_config =
     \<lparr>precip = \<lparr>azim_region = 4, gate_region = 4, max_dbz_per_degree = 5\<rparr>, plot_dir = ''plots''\<rparr>"

definition scenario_iris :: iris_data where
  "scenario_iris =
     \<lparr>convol =
        \<lparr>ma_data = \<lparr>shape = [3, 8, 8],
                     elem = (\<lambda>idx. if idx ! 1 < 4 \<and> idx ! 2 < 4
                                     then 20 * ([1/2, 1, 3/2] ! (idx ! 0)) else 10)\<rparr>,
         ma_mask = None\<rparr>,
      dopvol = \<lparr>ma_data = full [2, 8, 8] 0, ma_mask = None\<rparr>\<rparr>"

definition empty_store :: store where
  "empty_store = \<lparr>arrays = (\<lambda>r. full [] False), next_ref = 0\<rparr>"

definition scenario_store :: store where
  "scenario_store =
     snd (PrecipFilter_new example_metadata (grid_info example_processor) (dopvol_angles example_processor)
       (snd (PrecipFilter_new example_metadata (grid_info example_processor) (convol_angles example_processor)
          empty_store)))"

definition convol_filter :: PrecipFilter where
  "convol_filter = \<lparr>filter_3d = 0\<rparr>"

definition dopvol_filter :: PrecipFilter where
  "dopvol_filter = \<lparr>filter_3d = 1\<rparr>"

text \<open>
  A one by two by two volume whose mask flags its first cell, a clutter map that flags
  its last cell and a zone mask that flags the second.
\<close>

definition fusion_store :: store where
  "fusion_store = \<lparr>arrays = (\<lambda>r. \<lparr>shape = [1, 2, 2], elem = (\<lambda>idx. idx = [0, 0, 0])\<rparr>), next_ref = 1\<rparr>"

definition fusion_iris :: iris_data where
  "fusion_iris =
     \<lparr>convol = \<lparr>ma_data = ramp [1, 2, 2], ma_mask = Some 0\<rparr>,
      dopvol = \<lparr>ma_data = ramp [1, 2, 2], ma_mask = None\<rparr>\<rparr>"

definition fusion_clutter :: "int ndarray" where
  "fusion_clutter = \<lparr>shape = [1, 2, 2], elem = (\<lambda>idx. if idx = [0, 1, 1] then 1 else 0)\<rparr>"

definition fusion_precip :: "bool ndarray" where
  "fusion_precip = \<lparr>shape = [1, 2, 2], elem = (\<lambda>idx. idx = [0, 0, 1])\<rparr>"

section \<open>Calibration checks\<close>

text \<open>
  Claim C8, as the code has it. In each phase the first field, in the order of the
  checks, whose loaded shape is not the expected one makes the verification fail with a
  ValueError; its message is that field's label followed by the shape that was loaded.
  When no field disagrees the verification passes. The clutter volumes are compared only
  once both angle lists have at least two entries.
\<close>

theorem calib_mismatch_message:
  "(\<forall>label sh.
       List.find (\<lambda>(label, sh). \<not> (sh = [azims (grid_info self), gates (grid_info self)]))
         (universal_fields self) = Some (label, sh)
       \<longrightarrow> verify_universal_calib self = Inl (ValueError (label @ str_tuple sh)))
   \<and> (List.find (\<lambda>(label, sh). \<not> (sh = [azims (grid_info self), gates (grid_info self)]))
         (universal_fields self) = None
       \<longrightarrow> verify_universal_calib self = Inr ())
   \<and> (1 < length (convol_angles self) \<and> 1 < length (dopvol_angles self) \<longrightarrow>
        (\<forall>label sh expected.
           List.find (\<lambda>(label, sh, expected). \<not> (sh = expected)) (specific_fields self)
             = Some (label, sh, expected)
           \<longrightarrow> verify_specific_calib self = Inl (ValueError (label @ str_tuple sh)))
        \<and> (List.find (\<lambda>(label, sh, expected). \<not> (sh = expected)) (specific_fields self) = None
           \<longrightarrow> verify_specific_calib self = Inr ()))"
  by (simp add: universal_fields_def specific_fields_def verify_universal_calib_def
      verify_specific_calib_def Let_def)

text \<open>
  The longitude grid of the 8 by 8 processor loaded as 8 by 7, and its DOPVOL clutter
  loaded with three elevations for two scan angles.
\<close>

theorem calib_mismatch_message_witness:
  "verify_universal_calib (example_processor\<lparr>lons := full [8, 7] 0\<rparr>)
     = Inl (ValueError ''Lon grid invalid dims: (8, 7)'')
   \<and> verify_specific_calib (example_processor\<lparr>dopvol_clutter := full [3, 8, 8] 0\<rparr>)
     = Inl (ValueError ''Invalid dopvol dimensions: (3, 8, 8)'')"
proof -
  have 1: "List.find (\<lambda>(label, sh). \<not> (sh = [azims (grid_info (example_processor\<lparr>lons := full [8, 7] 0\<rparr>)),
                gates (grid_info (example_processor\<lparr>lons := full [8, 7] 0\<rparr>))]))
         (universal_fields (example_processor\<lparr>lons := full [8, 7] 0\<rparr>))
        = Some (''Lon grid invalid dims: '', [8, 7])"
    by (simp add: universal_fields_def example_processor_def full_def)
  have 2: "List.find (\<lambda>(label, sh, expected). \<not> (sh = expected))
         (specific_fields (example_processor\<lparr>dopvol_clutter := full [3, 8, 8] 0\<rparr>))
        = Some (''Invalid dopvol dimensions: '', [3, 8, 8], [2, 8, 8])"
    by (simp add: specific_fields_def example_processor_def full_def)
  have 3: "1 < length (convol_angles (example_processor\<lparr>dopvol_clutter := full [3, 8, 8] 0\<rparr>))
     \<and> 1 < length (dopvol_angles (example_processor\<lparr>dopvol_clutter := full [3, 8, 8] 0\<rparr>))"
    by (simp add: example_processor_def)
  have s7: "str_tuple [8, 7] = ''(8, 7)''" "str_tuple [3, 8, 8] = ''(3, 8, 8)''"
    by (simp_all add: str_tuple_def str_nat.simps)
  from 1 calib_mismatch_message[of "example_processor\<lparr>lons := full [8, 7] 0\<rparr>"]
  have a: "verify_universal_calib (example_processor\<lparr>lons := full [8, 7] 0\<rparr>)
     = Inl (ValueError (''Lon grid invalid dims: '' @ str_tuple [8, 7]))"
    by blast
  from 2 3 calib_mismatch_message[of "example_processor\<lparr>dopvol_clutter := full [3, 8, 8] 0\<rparr>"]
  have b: "verify_specific_calib (example_processor\<lparr>dopvol_clutter := full [3, 8, 8] 0\<rparr>)
     = Inl (ValueError (''Invalid dopvol dimensions: '' @ str_tuple [3, 8, 8]))"
    by blast
  from a b s7 show ?thesis by simp
qed

text \<open>
  Claim C8 as the spec states it asks for the expected shape in the message too. The
  latitude grid loaded as 3 by 4 on the 8 by 8 grid gives a message that holds the loaded
  shape only: the expected \<^verbatim>\<open>(8, 8)\<close> occurs nowhere in it.
\<close>

theorem calib_message_omits_expected_shape:
  "verify_universal_calib (example_processor\<lparr>lats := full [3, 4] 0\<rparr>)
     = Inl (ValueError ''Lat grid invalid dims: (3, 4)'')
   \<and> str_tuple [azims (grid_info example_processor), gates (grid_info example_processor)] = ''(8, 8)''
   \<and> \<not> contains ''Lat grid invalid dims: (3, 4)'' ''(8, 8)''"
  by (simp add: verify_universal_calib_def example_processor_def full_def str_tuple_def str_nat.simps)

section \<open>Unimplemented variants\<close>

text \<open>
  Claim C7. The two output variants raise NotImplementedError whatever metadata and grid
  they are given. The two processor variants never get that far: for every argument list
  the construction ends in a TypeError, since the abstract methods are not implemented;
  and the body of their \<^verbatim>\<open>__init__\<close> on its own ends in a TypeError as well, from
  \<^verbatim>\<open>super().__init__()\<close> without arguments (or from its own arity), before the
  misspelt raise is reached.
\<close>

theorem unimplemented_variants:
  "OdimOutput_new [md, gi] = Inl (NotImplementedError ''OdimOutput'')
   \<and> NexradOutput_new [md, gi] = Inl (NotImplementedError ''NEXRAD'')
   \<and> OdimProcessor_new env args = Inl (TypeError ''Cannot instantiate abstract class OdimProcessor'')
   \<and> NexradProcessor_new env args = Inl (TypeError ''Cannot instantiate abstract class NexradProcessor'')
   \<and> (\<exists>msg. unimplemented_processor_init label env args = Inl (TypeError msg))"
  by (simp add: OdimOutput_new_def NexradOutput_new_def OdimOutput_init_def NexradOutput_init_def
      OdimProcessor_new_def NexradProcessor_new_def abstract_left_def OdimProcessor_methods_def
      NexradProcessor_methods_def Processor_abstractmethods_def
      unimplemented_processor_init_def Processor_init_call_def and_then_def)

section \<open>Writer\<close>

lemmas nc_defs = seq_def lift_def ret_def Dataset_open_def createVariable_def createDimension_def
  update_dataset_def put_float_def put_int_def slice_all_def and_then_def setncattr_def write_metadata_def
  conform_def var_shape_def empty_dataset_def

lemma shape_array_of_list: "shape (array_of_list xs) = [length xs]"
  by (simp add: array_of_list_def)

lemma list2_nth: "length xs = 2 \<Longrightarrow> xs = [xs ! 0, xs ! Suc 0]"
  by (cases xs; cases "tl xs") auto

lemma base_validate_short:
  assumes "dbz_rank_short self"
  shows "BaseOutput_validate self = Inl (IndexError ''tuple index out of range'')"
  using assms
  by (auto simp: dbz_rank_short_def BaseOutput_validate_def Let_def split: option.splits)

lemma base_validate_defect:
  assumes "\<not> dbz_rank_short self" "dbz_defect self \<or> joint_defect self"
  shows "\<exists>msg. BaseOutput_validate self = Inl (ValueError msg)"
  using assms
  by (auto simp: dbz_rank_short_def dbz_defect_def joint_defect_def BaseOutput_validate_def Let_def
      extent_agrees_def split: option.splits dest: list2_nth)

lemma base_validate_result:
  assumes "\<not> dbz_rank_short self"
  shows "BaseOutput_validate self = Inr () \<or> (\<exists>msg. BaseOutput_validate self = Inl (ValueError msg))"
  using assms
  by (auto simp: dbz_rank_short_def BaseOutput_validate_def Let_def split: option.splits)

lemma iris_validate_defect:
  assumes "\<not> dbz_rank_short self" "dbz_defect self \<or> joint_defect self \<or> aux_defect self"
  shows "\<exists>msg. IrisOutput_validate self = Inl (ValueError msg)"
proof (cases "dbz_defect self \<or> joint_defect self")
  case True
  then obtain msg where "BaseOutput_validate self = Inl (ValueError msg)"
    using base_validate_defect assms(1) by blast
  then show ?thesis by (simp add: IrisOutput_validate_def and_then_def)
next
  case False
  then have aux: "aux_defect self" using assms(2) by blast
  from base_validate_result[OF assms(1)] show ?thesis
  proof
    assume "BaseOutput_validate self = Inr ()"
    then show ?thesis using aux
      by (auto simp: IrisOutput_validate_def and_then_def aux_defect_def shape_of_def
          split: option.splits)
  next
    assume "\<exists>msg. BaseOutput_validate self = Inl (ValueError msg)"
    then show ?thesis by (auto simp: IrisOutput_validate_def and_then_def)
  qed
qed

text \<open>
  Claim C2, on the code. An output set with one of the listed defects (a dbz volume
  absent, dbz shapes that differ or disagree with the grid, a joint product absent, not
  2-D or not of the grid's shape, auxiliary volumes of different shapes) is refused by
  \<^verbatim>\<open>IrisOutput.write\<close> in \<^verbatim>\<open>validate\<close>, and the file system afterwards is the one
  before: no file was opened, created or changed. The exception is a ValueError, except
  when both dbz volumes are present with one shape of fewer than three axes: the number
  of axes of the joint product is checked, that of the dbz volumes is not, and reading
  \<^verbatim>\<open>shape[1]\<close> or \<^verbatim>\<open>shape[2]\<close> of the short shape raises IndexError before any other
  check is reached.
\<close>

theorem write_rejects_before_opening:
  assumes "dbz_defect self \<or> joint_defect self \<or> aux_defect self"
  shows "(dbz_rank_short self \<longrightarrow>
            IrisOutput_write self filename fs = (Inl (IndexError ''tuple index out of range''), fs))
       \<and> (\<not> dbz_rank_short self \<longrightarrow>
            (\<exists>msg. IrisOutput_write self filename fs = (Inl (ValueError msg), fs)))"
proof (intro conjI impI)
  assume "dbz_rank_short self"
  then show "IrisOutput_write self filename fs = (Inl (IndexError ''tuple index out of range''), fs)"
    by (simp add: base_validate_short IrisOutput_write_def IrisOutput_validate_def and_then_def
        seq_def lift_def)
next
  assume "\<not> dbz_rank_short self"
  then obtain msg where "IrisOutput_validate self = Inl (ValueError msg)"
    using iris_validate_defect assms by blast
  then show "\<exists>msg. IrisOutput_write self filename fs = (Inl (ValueError msg), fs)"
    by (simp add: IrisOutput_write_def seq_def lift_def)
qed

text \<open>
  Two dbz volumes of shape (4, 4) and no joint product, on the 4 by 4 grid: the joint
  product is absent, and the call ends with an IndexError. The spec's scenario, dbz
  volumes of shapes (3, 4, 4) and (2, 4, 4): a ValueError. In both nothing is at the
  target path before the call and nothing after it.
\<close>

theorem write_rejects_before_opening_witness:
  "joint_defect (example_output\<lparr>dbz_filtered := Some (ramp [4, 4]), dbz_unfiltered := Some (ramp [4, 4]),
                               joint_product := None\<rparr>)
   \<and> IrisOutput_write (example_output\<lparr>dbz_filtered := Some (ramp [4, 4]), dbz_unfiltered := Some (ramp [4, 4]),
                               joint_product := None\<rparr>) ''out.nc'' empty_filesystem
       = (Inl (IndexError ''tuple index out of range''), empty_filesystem)
   \<and> IrisOutput_write (example_output\<lparr>dbz_unfiltered := Some (ramp [2, 4, 4])\<rparr>) ''out.nc'' empty_filesystem
       = (Inl (ValueError ''dbz grids must have the same dimension.''), empty_filesystem)
   \<and> files empty_filesystem ''out.nc'' = None \<and> opened empty_filesystem = []"
proof -
  let ?short = "example_output\<lparr>dbz_filtered := Some (ramp [4, 4]), dbz_unfiltered := Some (ramp [4, 4]),
                               joint_product := None\<rparr>"
  let ?differ = "example_output\<lparr>dbz_unfiltered := Some (ramp [2, 4, 4])\<rparr>"
  have j: "joint_defect ?short" by (simp add: joint_defect_def)
  have s: "dbz_rank_short ?short" by (simp add: dbz_rank_short_def ramp_def)
  from j have "dbz_defect ?short \<or> joint_defect ?short \<or> aux_defect ?short" by simp
  from write_rejects_before_opening[OF this, where filename = "''out.nc''" and fs = empty_filesystem] s
  have 1: "IrisOutput_write ?short ''out.nc'' empty_filesystem
       = (Inl (IndexError ''tuple index out of range''), empty_filesystem)" by blast
  have d: "dbz_defect ?differ" by (simp add: dbz_defect_def example_output_def ramp_def)
  have n: "\<not> dbz_rank_short ?differ" by (simp add: dbz_rank_short_def example_output_def ramp_def)
  from d have "dbz_defect ?differ \<or> joint_defect ?differ \<or> aux_defect ?differ" by simp
  from write_rejects_before_opening[OF this, where filename = "''out.nc''" and fs = empty_filesystem] n
  obtain msg where m: "IrisOutput_write ?differ ''out.nc'' empty_filesystem
       = (Inl (ValueError msg), empty_filesystem)" by blast
  have "fst (IrisOutput_write ?differ ''out.nc'' empty_filesystem)
       = Inl (ValueError ''dbz grids must have the same dimension.'')"
    by (simp add: IrisOutput_write_def IrisOutput_validate_def BaseOutput_validate_def and_then_def
        seq_def lift_def example_output_def ramp_def)
  with m have 2: "IrisOutput_write ?differ ''out.nc'' empty_filesystem
       = (Inl (ValueError ''dbz grids must have the same dimension.''), empty_filesystem)" by simp
  show ?thesis using j 1 2 by (simp add: empty_filesystem_def)
qed

text \<open>
  Claim C10. \<^verbatim>\<open>append_target_id\<close> validates \<^verbatim>\<open>self\<close> alone. When the validation
  fails the call ends there and the file system is untouched; when it passes and the
  file exists, the file has been reopened in append mode whatever \<open>id_matrix\<close> is.
\<close>

theorem append_opens_whatever_id_matrix:
  "(validate self = Inl e \<longrightarrow> append_target_id validate self filename id_matrix fs = (Inl e, fs))
   \<and> (validate self = Inr () \<and> files fs filename = Some d \<longrightarrow>
        opened (snd (append_target_id validate self filename id_matrix fs)) = opened fs @ [(filename, ''a'')])"
  by (auto simp: append_target_id_def nc_defs split: prod.splits sum.splits option.splits if_splits)

text \<open>
  A valid output set and a 2-D \<open>id_matrix\<close>: the validation passes, the file is reopened
  and the variable \<^verbatim>\<open>target_id\<close> is declared in it, and only then the slice
  \<^verbatim>\<open>id_matrix[:,:,:]\<close> raises; the variable stays in the file without data.
\<close>

theorem append_opens_whatever_id_matrix_witness:
  "IrisOutput_validate example_output = Inr ()
   \<and> opened (snd (append_target_id IrisOutput_validate example_output ''out.nc'' (full [4, 4] 1) example_filesystem))
       = [(''out.nc'', ''a'')]
   \<and> fst (append_target_id IrisOutput_validate example_output ''out.nc'' (full [4, 4] 1) example_filesystem)
       = Inl (IndexError ''too many indices for array'')
   \<and> read_variable (snd (append_target_id IrisOutput_validate example_output ''out.nc'' (full [4, 4] 1) example_filesystem))
        ''out.nc'' ''target_id'' = Some None"
proof -
  have v: "IrisOutput_validate example_output = Inr ()"
    by (simp add: IrisOutput_validate_def BaseOutput_validate_def example_output_def ramp_def
       and_then_def shape_of_def)
  have f: "files example_filesystem ''out.nc'' = Some (empty_dataset\<lparr>dims := (\<lambda>k. if k = ''dbz_elevs'' then Some 3
                                                       else if k = ''azims'' then Some 4
                                                       else if k = ''gates'' then Some 4 else None)\<rparr>)"
    by (simp add: example_filesystem_def)
  from v f append_opens_whatever_id_matrix[of IrisOutput_validate example_output _ "''out.nc''" "full [4, 4] 1" example_filesystem]
  have o: "opened (snd (append_target_id IrisOutput_validate example_output ''out.nc'' (full [4, 4] 1) example_filesystem))
       = opened example_filesystem @ [(''out.nc'', ''a'')]" by blast
  have r: "append_target_id IrisOutput_validate example_output ''out.nc'' (full [4, 4] 1) example_filesystem
     = (Inl (IndexError ''too many indices for array''),
        example_filesystem\<lparr>files := (files example_filesystem)(''out.nc'' := Some
           (empty_dataset\<lparr>dims := (\<lambda>k. if k = ''dbz_elevs'' then Some 3
                                                       else if k = ''azims'' then Some 4
                                                       else if k = ''gates'' then Some 4 else None),
              variables := (variables empty_dataset)(''target_id'' := Some \<lparr>var_type = NcInt, var_dims = [''dbz_elevs'', ''azims'', ''gates''], var_data = None\<rparr>)\<rparr>)),
          opened := [(''out.nc'', ''a'')]\<rparr>)"
    by (simp add: append_target_id_def v f nc_defs full_def) (simp add: example_filesystem_def)
  show ?thesis using v o r by (simp add: read_variable_def example_filesystem_def)
qed

text \<open>
  The statements of \<^verbatim>\<open>BaseOutput.write\<close> after \<^verbatim>\<open>write_metadata\<close>, on a file that has
  no dimension and no variable yet: the elevations and both dbz volumes are stored, and
  \<^verbatim>\<open>dbz_joint\<close> is declared and holds no data.
\<close>

lemma write_arrays_leave_joint_unwritten:
  assumes "files fs dset = Some d" "dims d = (\<lambda>k. None)" "variables d = (\<lambda>k. None)"
    "dbz_filtered self = Some f" "dbz_unfiltered self = Some u" "joint_product self = Some jp"
    "shape f = [length (dbz_elevs self), azims (grid_info self), gates (grid_info self)]"
    "shape u = [length (dbz_elevs self), azims (grid_info self), gates (grid_info self)]"
    "shape jp = [azims (grid_info self), gates (grid_info self)]"
  shows "(case write_arrays self dset fs of
      (r, fs') \<Rightarrow>
        r = Inr ()
      \<and> read_variable fs' dset ''dbz_elevs'' = Some (Some (FloatValues (array_of_list (dbz_elevs self))))
      \<and> read_variable fs' dset ''dbz_filtered'' = Some (Some (FloatValues f))
      \<and> read_variable fs' dset ''dbz_unfiltered'' = Some (Some (FloatValues u))
      \<and> read_variable fs' dset ''dbz_joint'' = Some None)"
  using assms
  by (simp add: write_arrays_def nc_defs read_variable_def Let_def shape_array_of_list)

text \<open>
  Claim C1, on the code. For every output set that passes the validation,
  \<^verbatim>\<open>IrisOutput.write\<close> creates the file, stores the attributes \<^verbatim>\<open>latitude\<close>,
  \<^verbatim>\<open>longitude\<close>, \<^verbatim>\<open>radar_id\<close> and \<^verbatim>\<open>datetime\<close> (the timestamp as \<^verbatim>\<open>YYYYMMDDHHMM\<close>), and
  ends with the AttributeError of the assignment \<^verbatim>\<open>dset.name = ...\<close>. The file it leaves
  has neither the attribute \<^verbatim>\<open>name\<close> nor \<^verbatim>\<open>filetype\<close> and no variable: no array can be
  read back from it.
\<close>

theorem write_stops_in_metadata:
  assumes "IrisOutput_validate self = Inr ()"
  shows "(case IrisOutput_write self filename fs of
      (r, fs') \<Rightarrow>
        (\<exists>msg. r = Inl (AttributeError msg))
      \<and> opened fs' = opened fs @ [(filename, ''w'')]
      \<and> read_attr fs' filename ''latitude'' = Some (NumAttr (lat (metadata self)))
      \<and> read_attr fs' filename ''longitude'' = Some (NumAttr (lon (metadata self)))
      \<and> read_attr fs' filename ''radar_id'' = Some (StrAttr (radar_id (metadata self)))
      \<and> read_attr fs' filename ''datetime'' = Some (StrAttr (strftime_YmdHM (scan_dt (metadata self))))
      \<and> read_attr fs' filename ''name'' = None
      \<and> read_attr fs' filename ''filetype'' = None
      \<and> (\<forall>k. read_variable fs' filename k = None))"
  using assms
  by (simp add: IrisOutput_write_def BaseOutput_write_def nc_defs Dataset_setattr_def raise_def
        private_atts_def read_variable_def read_attr_def)

text \<open>
  The spec's round trip, elevations 0.5, 1.5, 2.5 on the 4 by 4 grid: the output set is
  valid, the write raises, and of the arrays and attributes given the file holds the
  timestamp, but neither \<^verbatim>\<open>dbz_filtered\<close> nor \<^verbatim>\<open>dbz_joint\<close> nor the name.
\<close>

theorem write_stops_in_metadata_witness:
  "IrisOutput_validate example_output = Inr ()
   \<and> joint_product example_output = Some (ramp [4, 4])
   \<and> (\<exists>msg. fst (IrisOutput_write example_output ''out.nc'' empty_filesystem) = Inl (AttributeError msg))
   \<and> read_attr (snd (IrisOutput_write example_output ''out.nc'' empty_filesystem)) ''out.nc'' ''datetime''
       = Some (StrAttr ''201907040930'')
   \<and> read_attr (snd (IrisOutput_write example_output ''out.nc'' empty_filesystem)) ''out.nc'' ''name'' = None
   \<and> read_variable (snd (IrisOutput_write example_output ''out.nc'' empty_filesystem)) ''out.nc'' ''dbz_filtered''
       = None
   \<and> read_variable (snd (IrisOutput_write example_output ''out.nc'' empty_filesystem)) ''out.nc'' ''dbz_joint''
       = None"
proof -
  have v: "IrisOutput_validate example_output = Inr ()"
    by (simp add: IrisOutput_validate_def BaseOutput_validate_def example_output_def ramp_def
       and_then_def shape_of_def)
  have d: "strftime_YmdHM (scan_dt (metadata example_output)) = ''201907040930''"
    by (simp add: strftime_YmdHM_def example_output_def example_metadata_def str_nat.simps)
  have j: "joint_product example_output = Some (ramp [4, 4])"
    by (simp add: example_output_def)
  from write_stops_in_metadata[OF v, where filename = "''out.nc''" and fs = empty_filesystem] d
  have "(\<exists>msg. fst (IrisOutput_write example_output ''out.nc'' empty_filesystem) = Inl (AttributeError msg))
   \<and> read_attr (snd (IrisOutput_write example_output ''out.nc'' empty_filesystem)) ''out.nc'' ''datetime''
       = Some (StrAttr ''201907040930'')
   \<and> read_attr (snd (IrisOutput_write example_output ''out.nc'' empty_filesystem)) ''out.nc'' ''name'' = None
   \<and> read_variable (snd (IrisOutput_write example_output ''out.nc'' empty_filesystem)) ''out.nc'' ''dbz_filtered''
       = None
   \<and> read_variable (snd (IrisOutput_write example_output ''out.nc'' empty_filesystem)) ''out.nc'' ''dbz_joint''
       = None"
    by (auto split: prod.splits)
  with v j show ?thesis by simp
qed

section \<open>Mask fusion\<close>

lemma set_indices: "set (indices sh) = {idx. valid_index sh idx}"
proof (induction sh)
  case Nil
  then show ?case by (auto simp: valid_index_def)
next
  case (Cons d ds)
  have "\<And>idx. valid_index (d # ds) idx \<longleftrightarrow> (\<exists>i r. idx = i # r \<and> i < d \<and> valid_index ds r)"
    by (auto simp: valid_index_def list_all2_Cons2)
  with Cons show ?case by auto
qed

lemma broadcast_rev_same: "broadcast_rev xs xs = Some xs"
  by (induction xs) auto

lemma broadcast_shapes_same: "broadcast_shapes sh sh = Some sh"
  by (simp add: broadcast_shapes_def broadcast_rev_same)

lemma broadcast_index_valid: "valid_index sh idx \<Longrightarrow> broadcast_index sh idx = idx"
proof -
  assume "valid_index sh idx"
  then have l: "list_all2 (\<lambda>i d. i < d) idx sh" by (simp add: valid_index_def)
  then have len: "length idx = length sh" by (rule list_all2_lengthD)
  from l have "map (\<lambda>(d, i). if d = 1 then 0 else i) (zip sh idx) = idx"
    by (induction rule: list_all2_induct) auto
  with len show ?thesis by (simp add: broadcast_index_def)
qed

lemma logical_or_same_shape:
  assumes "shape a = shape b"
  shows "\<exists>r. logical_or a b = Inr r \<and> shape r = shape a
           \<and> (\<forall>idx. valid_index (shape a) idx \<longrightarrow> elem r idx = (elem a idx \<or> elem b idx))"
  using assms by (simp add: logical_or_def broadcast_shapes_same broadcast_index_valid)

lemma make_mask_shrink_cases:
  "(make_mask_shrink m = None \<and> (\<forall>idx. valid_index (shape m) idx \<longrightarrow> \<not> elem m idx))
   \<or> make_mask_shrink m = Some m"
  using set_indices[of "shape m"]
  by (auto simp: make_mask_shrink_def list_ex_iff)

lemma ma_array_allocated:
  assumes "ma_array data given s = (Inr d, s')" "allocated s data"
  shows "allocated s' d"
  using assms
  by (auto simp: ma_array_def alloc_def allocated_def split: option.splits sum.splits)

lemma ma_array_monotone:
  assumes "ma_array data given s1 = (Inr d, s')" "allocated s1 data"
    "getmask s1 data = getmask s data" "is_masked s data idx"
  shows "is_masked s' d idx"
  using assms
  by (auto simp: ma_array_def alloc_def is_masked_def getmask_def allocated_def
      split: option.splits sum.splits)

lemma ma_array_frame:
  assumes "ma_array data given s = (r, s')"
  shows "next_ref s \<le> next_ref s'" and "\<And>q. q < next_ref s \<Longrightarrow> arrays s' q = arrays s q"
  using assms
  by (auto simp: ma_array_def alloc_def split: option.splits sum.splits)

lemma is_masked_frame:
  assumes "allocated s vol" "\<And>q. q < next_ref s \<Longrightarrow> arrays s' q = arrays s q"
  shows "is_masked s' vol idx = is_masked s vol idx" and "getmask s' vol = getmask s vol"
  using assms by (auto simp: is_masked_def allocated_def getmask_def split: option.splits)

lemma allocated_mono: "allocated s vol \<Longrightarrow> next_ref s \<le> next_ref s' \<Longrightarrow> allocated s' vol"
  by (auto simp: allocated_def split: option.splits)

lemma impose_filter_shape:
  assumes "impose_filter iris np_convol np_dopvol s = (Inr (), iris', s')"
  shows "shape (ma_data (convol iris')) = shape (ma_data (convol iris))
       \<and> shape (ma_data (dopvol iris')) = shape (ma_data (dopvol iris))"
  using assms
  by (auto simp: impose_filter_def Let_def split: sum.splits prod.splits if_splits)

lemma impose_filter_monotone:
  assumes r: "impose_filter iris np_convol np_dopvol s = (Inr (), iris', s')"
    and a: "allocated s (convol iris)" "allocated s (dopvol iris)"
  shows "(is_masked s (convol iris) idx \<longrightarrow> is_masked s' (convol iris') idx)
       \<and> (is_masked s (dopvol iris) idx \<longrightarrow> is_masked s' (dopvol iris') idx)"
proof -
  from r obtain dm cm d s1 c where
      dm: "mask_or np_dopvol (getmask s (dopvol iris)) = Inr dm"
    and cm: "mask_or np_convol (getmask s (convol iris)) = Inr cm"
    and d: "ma_array (dopvol iris) dm s = (Inr d, s1)"
    and c: "ma_array (convol iris) cm s1 = (Inr c, s')"
    and i: "iris' = iris\<lparr>dopvol := d, convol := c\<rparr>"
    by (auto simp: impose_filter_def Let_def split: sum.splits prod.splits if_splits)
  have f1: "\<And>q. q < next_ref s \<Longrightarrow> arrays s1 q = arrays s q" and n1: "next_ref s \<le> next_ref s1"
    using ma_array_frame[OF d] by auto
  have f2: "\<And>q. q < next_ref s1 \<Longrightarrow> arrays s' q = arrays s1 q"
    using ma_array_frame[OF c] by auto
  have ad: "allocated s1 d" using ma_array_allocated[OF d a(2)] .
  have ac: "allocated s1 (convol iris)" using allocated_mono[OF a(1) n1] .
  have gc: "getmask s1 (convol iris) = getmask s (convol iris)"
    using is_masked_frame(2)[OF a(1)] f1 by blast
  have "is_masked s (dopvol iris) idx \<Longrightarrow> is_masked s' d idx"
  proof -
    assume "is_masked s (dopvol iris) idx"
    then have "is_masked s1 d idx" using ma_array_monotone[OF d a(2)] by simp
    then show ?thesis using is_masked_frame(1)[OF ad, of s'] f2 by blast
  qed
  moreover have "is_masked s (convol iris) idx \<Longrightarrow> is_masked s' c idx"
    using ma_array_monotone[OF c ac gc] by simp
  ultimately show ?thesis using i by simp
qed

lemma fuse_same_shape:
  assumes sh: "shape np = shape (ma_data vol)" and fit: "mask_fits s vol"
    and g: "getmask s1 vol = getmask s vol"
  shows "\<exists>mk d s'. mask_or np (getmask s vol) = Inr mk \<and> ma_array vol mk s1 = (Inr d, s')
       \<and> ma_data d = ma_data vol
       \<and> (\<forall>idx. valid_index (shape (ma_data vol)) idx \<longrightarrow>
             is_masked s' d idx = (elem np idx \<or> is_masked s vol idx))"
proof (cases "ma_mask vol")
  case None
  then have gm: "getmask s vol = None" by (simp add: getmask_def)
  from make_mask_shrink_cases[of np] show ?thesis
  proof
    assume "make_mask_shrink np = None \<and> (\<forall>idx. valid_index (shape np) idx \<longrightarrow> \<not> elem np idx)"
    then show ?thesis using None gm sh
      by (simp add: mask_or_def ma_array_def is_masked_def)
  next
    assume "make_mask_shrink np = Some np"
    then show ?thesis using None gm sh g
      by (simp add: mask_or_def ma_array_def is_masked_def fit_mask_def alloc_def)
  qed
next
  case (Some m)
  then have gm: "getmask s vol = Some (arrays s m)" by (simp add: getmask_def)
  have shm: "shape np = shape (arrays s m)" using fit Some sh by (simp add: mask_fits_def)
  have am: "arrays s1 m = arrays s m" using g Some by (simp add: getmask_def)
  from logical_or_same_shape[OF shm] obtain r where
    r: "logical_or np (arrays s m) = Inr r" "shape r = shape np"
       "\<forall>idx. valid_index (shape np) idx \<longrightarrow> elem r idx = (elem np idx \<or> elem (arrays s m) idx)"
    by blast
  from make_mask_shrink_cases[of r] show ?thesis
  proof
    assume "make_mask_shrink r = None \<and> (\<forall>idx. valid_index (shape r) idx \<longrightarrow> \<not> elem r idx)"
    then show ?thesis using Some gm sh r am
      by (simp add: mask_or_def ma_array_def is_masked_def and_then_def)
  next
    assume "make_mask_shrink r = Some r"
    then show ?thesis using Some gm sh g r am
      by (auto simp: mask_or_def ma_array_def is_masked_def fit_mask_def alloc_def and_then_def)
  qed
qed

lemma impose_filter_same_shape:
  assumes a: "allocated s (convol iris)" "allocated s (dopvol iris)"
    and f: "mask_fits s (convol iris)" "mask_fits s (dopvol iris)"
    and sh: "shape np_convol = shape (ma_data (convol iris))"
            "shape np_dopvol = shape (ma_data (dopvol iris))"
  shows "\<exists>iris' s'. impose_filter iris np_convol np_dopvol s = (Inr (), iris', s')
       \<and> (\<forall>idx. valid_index (shape (ma_data (convol iris))) idx \<longrightarrow>
             is_masked s' (convol iris') idx = (elem np_convol idx \<or> is_masked s (convol iris) idx))
       \<and> (\<forall>idx. valid_index (shape (ma_data (dopvol iris))) idx \<longrightarrow>
             is_masked s' (dopvol iris') idx = (elem np_dopvol idx \<or> is_masked s (dopvol iris) idx))"
proof -
  from fuse_same_shape[OF sh(2) f(2), of s] obtain dm d s1 where
      dm: "mask_or np_dopvol (getmask s (dopvol iris)) = Inr dm"
    and d: "ma_array (dopvol iris) dm s = (Inr d, s1)"
    and dd: "ma_data d = ma_data (dopvol iris)"
    and dv: "\<forall>idx. valid_index (shape (ma_data (dopvol iris))) idx \<longrightarrow>
             is_masked s1 d idx = (elem np_dopvol idx \<or> is_masked s (dopvol iris) idx)"
    by blast
  have f1: "\<And>q. q < next_ref s \<Longrightarrow> arrays s1 q = arrays s q" and n1: "next_ref s \<le> next_ref s1"
    using ma_array_frame[OF d] by auto
  have gc: "getmask s1 (convol iris) = getmask s (convol iris)"
    using is_masked_frame(2)[OF a(1)] f1 by blast
  from fuse_same_shape[OF sh(1) f(1) gc] obtain cm c s2 where
      cm: "mask_or np_convol (getmask s (convol iris)) = Inr cm"
    and c: "ma_array (convol iris) cm s1 = (Inr c, s2)"
    and cd: "ma_data c = ma_data (convol iris)"
    and cv: "\<forall>idx. valid_index (shape (ma_data (convol iris))) idx \<longrightarrow>
             is_masked s2 c idx = (elem np_convol idx \<or> is_masked s (convol iris) idx)"
    by blast
  have f2: "\<And>q. q < next_ref s1 \<Longrightarrow> arrays s2 q = arrays s1 q"
    using ma_array_frame[OF c] by auto
  have ad: "allocated s1 d" using ma_array_allocated[OF d a(2)] .
  have md: "\<And>idx. is_masked s2 d idx = is_masked s1 d idx"
    using is_masked_frame(1)[OF ad, of s2] f2 by blast
  have "impose_filter iris np_convol np_dopvol s = (Inr (), iris\<lparr>dopvol := d, convol := c\<rparr>, s2)"
    using dm cm d c dd cd by (simp add: impose_filter_def Let_def)
  then show ?thesis using cv dv md by simp
qed

text \<open>
  Claim C4. For volumes whose masks are allocated arrays: whenever \<^verbatim>\<open>impose_filter\<close>
  returns, both volumes have the shape they had and every cell that was masked is still
  masked. When the clutter maps, the zone masks and the volumes' own masks all have the
  shape of their volume, the joint filters exist, \<^verbatim>\<open>impose_filter\<close> returns, and at
  every cell of a volume the new mask is the union of its clutter map, its zone mask and
  the mask it had.
\<close>

theorem fusion_is_monotone_and_keeps_shape:
  assumes "allocated s (convol iris)" and "allocated s (dopvol iris)"
  shows
    "(\<forall>iris' s'. impose_filter iris np_convol np_dopvol s = (Inr (), iris', s') \<longrightarrow>
        shape (ma_data (convol iris')) = shape (ma_data (convol iris))
      \<and> shape (ma_data (dopvol iris')) = shape (ma_data (dopvol iris))
      \<and> (\<forall>idx. is_masked s (convol iris) idx \<longrightarrow> is_masked s' (convol iris') idx)
      \<and> (\<forall>idx. is_masked s (dopvol iris) idx \<longrightarrow> is_masked s' (dopvol iris') idx))
   \<and> (mask_fits s (convol iris) \<and> mask_fits s (dopvol iris)
      \<and> shape clutter_c = shape (ma_data (convol iris)) \<and> shape precip_c = shape (ma_data (convol iris))
      \<and> shape clutter_d = shape (ma_data (dopvol iris)) \<and> shape precip_d = shape (ma_data (dopvol iris))
      \<longrightarrow>
      (\<exists>joint_c joint_d iris' s'.
          logical_or (astype_bool clutter_c) precip_c = Inr joint_c
        \<and> logical_or (astype_bool clutter_d) precip_d = Inr joint_d
        \<and> impose_filter iris joint_c joint_d s = (Inr (), iris', s')
        \<and> (\<forall>idx. valid_index (shape (ma_data (convol iris))) idx \<longrightarrow>
              is_masked s' (convol iris') idx
                = (\<not> (elem clutter_c idx = 0) \<or> elem precip_c idx \<or> is_masked s (convol iris) idx))
        \<and> (\<forall>idx. valid_index (shape (ma_data (dopvol iris))) idx \<longrightarrow>
              is_masked s' (dopvol iris') idx
                = (\<not> (elem clutter_d idx = 0) \<or> elem precip_d idx \<or> is_masked s (dopvol iris) idx))))"
proof (intro conjI allI impI)
  fix iris' s'
  assume r: "impose_filter iris np_convol np_dopvol s = (Inr (), iris', s')"
  show "shape (ma_data (convol iris')) = shape (ma_data (convol iris))"
    and "shape (ma_data (dopvol iris')) = shape (ma_data (dopvol iris))"
    using impose_filter_shape[OF r] by auto
  fix idx
  show "is_masked s (convol iris) idx \<Longrightarrow> is_masked s' (convol iris') idx"
    and "is_masked s (dopvol iris) idx \<Longrightarrow> is_masked s' (dopvol iris') idx"
    using impose_filter_monotone[OF r assms] by auto
next
  assume h: "mask_fits s (convol iris) \<and> mask_fits s (dopvol iris)
      \<and> shape clutter_c = shape (ma_data (convol iris)) \<and> shape precip_c = shape (ma_data (convol iris))
      \<and> shape clutter_d = shape (ma_data (dopvol iris)) \<and> shape precip_d = shape (ma_data (dopvol iris))"
  have "shape (astype_bool clutter_c) = shape precip_c" using h by (simp add: astype_bool_def)
  from logical_or_same_shape[OF this] obtain jc where
    jc: "logical_or (astype_bool clutter_c) precip_c = Inr jc" "shape jc = shape (ma_data (convol iris))"
        "\<forall>idx. valid_index (shape (ma_data (convol iris))) idx \<longrightarrow>
            elem jc idx = (\<not> (elem clutter_c idx = 0) \<or> elem precip_c idx)"
    using h by (auto simp: astype_bool_def)
  have "shape (astype_bool clutter_d) = shape precip_d" using h by (simp add: astype_bool_def)
  from logical_or_same_shape[OF this] obtain jd where
    jd: "logical_or (astype_bool clutter_d) precip_d = Inr jd" "shape jd = shape (ma_data (dopvol iris))"
        "\<forall>idx. valid_index (shape (ma_data (dopvol iris))) idx \<longrightarrow>
            elem jd idx = (\<not> (elem clutter_d idx = 0) \<or> elem precip_d idx)"
    using h by (auto simp: astype_bool_def)
  from impose_filter_same_shape[OF assms _ _ jc(2) jd(2)] h obtain iris' s' where
    "impose_filter iris jc jd s = (Inr (), iris', s')"
    "\<forall>idx. valid_index (shape (ma_data (convol iris))) idx \<longrightarrow>
             is_masked s' (convol iris') idx = (elem jc idx \<or> is_masked s (convol iris) idx)"
    "\<forall>idx. valid_index (shape (ma_data (dopvol iris))) idx \<longrightarrow>
             is_masked s' (dopvol iris') idx = (elem jd idx \<or> is_masked s (dopvol iris) idx)"
    by blast
  then show "\<exists>joint_c joint_d iris' s'.
          logical_or (astype_bool clutter_c) precip_c = Inr joint_c
        \<and> logical_or (astype_bool clutter_d) precip_d = Inr joint_d
        \<and> impose_filter iris joint_c joint_d s = (Inr (), iris', s')
        \<and> (\<forall>idx. valid_index (shape (ma_data (convol iris))) idx \<longrightarrow>
              is_masked s' (convol iris') idx
                = (\<not> (elem clutter_c idx = 0) \<or> elem precip_c idx \<or> is_masked s (convol iris) idx))
        \<and> (\<forall>idx. valid_index (shape (ma_data (dopvol iris))) idx \<longrightarrow>
              is_masked s' (dopvol iris') idx
                = (\<not> (elem clutter_d idx = 0) \<or> elem precip_d idx \<or> is_masked s (dopvol iris) idx))"
    using jc jd by (intro exI[of _ jc] exI[of _ jd] exI[of _ iris'] exI[of _ s']) auto
qed

text \<open>
  On the small volume: the cell masked before, the clutter cell and the zone cell are
  masked afterwards, the fourth cell is not, and the shape is kept.
\<close>

theorem fusion_is_monotone_and_keeps_shape_witness:
  "\<exists>joint_c joint_d iris' s'.
      logical_or (astype_bool fusion_clutter) fusion_precip = Inr joint_c
    \<and> logical_or (astype_bool fusion_clutter) fusion_precip = Inr joint_d
    \<and> impose_filter fusion_iris joint_c joint_d fusion_store = (Inr (), iris', s')
    \<and> is_masked fusion_store (convol fusion_iris) [0, 0, 0]
    \<and> is_masked s' (convol iris') [0, 0, 0]
    \<and> is_masked s' (convol iris') [0, 1, 1]
    \<and> is_masked s' (convol iris') [0, 0, 1]
    \<and> \<not> is_masked s' (convol iris') [0, 1, 0]
    \<and> \<not> is_masked s' (dopvol iris') [0, 0, 0]
    \<and> shape (ma_data (convol iris')) = [1, 2, 2]"
proof -
  have a: "allocated fusion_store (convol fusion_iris)" "allocated fusion_store (dopvol fusion_iris)"
    by (simp_all add: allocated_def fusion_store_def fusion_iris_def)
  have h: "mask_fits fusion_store (convol fusion_iris) \<and> mask_fits fusion_store (dopvol fusion_iris)
      \<and> shape fusion_clutter = shape (ma_data (convol fusion_iris))
      \<and> shape fusion_precip = shape (ma_data (convol fusion_iris))
      \<and> shape fusion_clutter = shape (ma_data (dopvol fusion_iris))
      \<and> shape fusion_precip = shape (ma_data (dopvol fusion_iris))"
    by (simp add: mask_fits_def fusion_store_def fusion_iris_def fusion_clutter_def fusion_precip_def ramp_def)
  note t = fusion_is_monotone_and_keeps_shape[OF a, where clutter_c = fusion_clutter
      and precip_c = fusion_precip and clutter_d = fusion_clutter and precip_d = fusion_precip]
  from t h obtain jc jd iris' s' where
    j: "logical_or (astype_bool fusion_clutter) fusion_precip = Inr jc"
       "logical_or (astype_bool fusion_clutter) fusion_precip = Inr jd"
    and r: "impose_filter fusion_iris jc jd fusion_store = (Inr (), iris', s')"
    and c: "\<forall>idx. valid_index (shape (ma_data (convol fusion_iris))) idx \<longrightarrow>
              is_masked s' (convol iris') idx
                = (\<not> (elem fusion_clutter idx = 0) \<or> elem fusion_precip idx
                     \<or> is_masked fusion_store (convol fusion_iris) idx)"
    and d: "\<forall>idx. valid_index (shape (ma_data (dopvol fusion_iris))) idx \<longrightarrow>
              is_masked s' (dopvol iris') idx
                = (\<not> (elem fusion_clutter idx = 0) \<or> elem fusion_precip idx
                     \<or> is_masked fusion_store (dopvol fusion_iris) idx)"
    by blast
  from t r have sh: "shape (ma_data (convol iris')) = shape (ma_data (convol fusion_iris))" by blast
  have v: "valid_index (shape (ma_data (convol fusion_iris))) [0, 0, 0]"
      "valid_index (shape (ma_data (convol fusion_iris))) [0, 1, 1]"
      "valid_index (shape (ma_data (convol fusion_iris))) [0, 0, 1]"
      "valid_index (shape (ma_data (convol fusion_iris))) [0, 1, 0]"
      "valid_index (shape (ma_data (dopvol fusion_iris))) [0, 0, 0]"
    by (simp_all add: valid_index_def fusion_iris_def ramp_def)
  have m: "is_masked s' (convol iris') [0, 0, 0]" "is_masked s' (convol iris') [0, 1, 1]"
      "is_masked s' (convol iris') [0, 0, 1]" "\<not> is_masked s' (convol iris') [0, 1, 0]"
      "\<not> is_masked s' (dopvol iris') [0, 0, 0]" "is_masked fusion_store (convol fusion_iris) [0, 0, 0]"
    using c[rule_format, OF v(1)] c[rule_format, OF v(2)] c[rule_format, OF v(3)]
      c[rule_format, OF v(4)] d[rule_format, OF v(5)]
    by (simp_all add: fusion_clutter_def fusion_precip_def is_masked_def fusion_iris_def fusion_store_def)
  show ?thesis using j r m sh by (auto simp: fusion_iris_def ramp_def)
qed

section \<open>The precipitation filter\<close>

subsection \<open>The samples of a zone\<close>

lemma foldl_append_pairs:
  "foldl (\<lambda>(angle_list, dbz_list) dbz. (angle_list @ [c], dbz_list @ [dbz])) (al, dl) zs
     = (al @ map (\<lambda>z. c) zs, dl @ zs)"
  by (induction zs arbitrary: al dl) auto

lemma zone_flat_3d:
  assumes "shape (ma_data vol) = [n, A, G]" "e < n" "a1 \<le> A" "g1 \<le> G"
  shows "zone_flat s vol e a0 a1 g0 g1 = Inr [sample s vol [e, a, g]. a \<leftarrow> [a0..<a1], g \<leftarrow> [g0..<g1]]"
  using assms by (simp add: zone_flat_def min_def)

lemma pool_samples_3d:
  assumes "shape (ma_data vol) = [n, A, G]" "\<forall>e \<in> set es. e < n" "a1 \<le> A" "g1 \<le> G"
  shows "pool_samples s angles vol (a0, a1, g0, g1) es (al, dl)
     = Inr (al @ map fst [(angles ! e, sample s vol [e, a, g]). e \<leftarrow> es, a \<leftarrow> [a0..<a1], g \<leftarrow> [g0..<g1]],
            dl @ map snd [(angles ! e, sample s vol [e, a, g]). e \<leftarrow> es, a \<leftarrow> [a0..<a1], g \<leftarrow> [g0..<g1]])"
  using assms(2)
proof (induction es arbitrary: al dl)
  case Nil
  then show ?case by simp
next
  case (Cons e es)
  have z: "zone_flat s vol e a0 a1 g0 g1 = Inr [sample s vol [e, a, g]. a \<leftarrow> [a0..<a1], g \<leftarrow> [g0..<g1]]"
    using zone_flat_3d[OF assms(1) _ assms(3,4)] Cons.prems by simp
  show ?case
    using Cons.prems
    by (simp add: z foldl_append_pairs Cons.IH map_concat comp_def)
qed

lemma zone_slope_pooled:
  assumes "shape (ma_data vol) = [length angles, A, G]"
    "(x + 1) * azim_region cfg \<le> A" "(y + 1) * gate_region cfg \<le> G"
  shows "zone_slope cfg s angles vol x y
     = linregress_slope (map fst (pooled_pairs s angles vol cfg x y))
         (map snd (pooled_pairs s angles vol cfg x y))"
proof -
  have "pool_samples s angles vol
          (x * azim_region cfg, (x + 1) * azim_region cfg, y * gate_region cfg, (y + 1) * gate_region cfg)
          [0..<length angles] ([], [])
        = Inr (map fst (pooled_pairs s angles vol cfg x y), map snd (pooled_pairs s angles vol cfg x y))"
    using pool_samples_3d[OF assms(1) _ assms(2,3), of "[0..<length angles]" s angles _ _ "[]" "[]"]
    by (simp add: pooled_pairs_def)
  then show ?thesis
    by (simp add: zone_slope_def Let_def and_then_def)
qed

lemma linregress_defined:
  assumes "length xs = length ys" "a \<in> set xs" "b \<in> set xs" "a \<noteq> b"
  shows "\<exists>v. linregress_slope xs ys = Inr v"
proof -
  have ne: "xs \<noteq> []" "ys \<noteq> []" using assms by auto
  have "Min (set xs) \<le> a" "a \<le> Max (set xs)" "Min (set xs) \<le> b" "b \<le> Max (set xs)"
    using assms by auto
  then have "Max (set xs) \<noteq> Min (set xs)" using assms(4) by auto
  then show ?thesis using ne assms(1)
    by (auto simp: linregress_slope_def Let_def split: option.splits)
qed

lemma pooled_angles:
  assumes "0 < azim_region cfg" "0 < gate_region cfg" "i < length angles"
  shows "angles ! i \<in> set (map fst (pooled_pairs s angles vol cfg x y))"
proof -
  have "(angles ! i, sample s vol [i, x * azim_region cfg, y * gate_region cfg])
          \<in> set (pooled_pairs s angles vol cfg x y)"
    using assms
    apply (simp add: pooled_pairs_def)
    apply (rule bexI[of _ i])
     apply (rule bexI[of _ "x * azim_region cfg"])
      apply (rule image_eqI[of _ _ "y * gate_region cfg"])
       apply simp_all
    done
  then show ?thesis by force
qed

lemma zone_slope_defined:
  assumes "shape (ma_data vol) = [length angles, A, G]"
    "(x + 1) * azim_region cfg \<le> A" "(y + 1) * gate_region cfg \<le> G"
    "0 < azim_region cfg" "0 < gate_region cfg" "angles_vary angles"
  shows "\<exists>v. zone_slope cfg s angles vol x y = Inr v"
proof -
  from assms(6) obtain i j where ij: "i < length angles" "j < length angles" "angles ! i \<noteq> angles ! j"
    by (auto simp: angles_vary_def list_ex_iff in_set_conv_nth)
  have "\<exists>v. linregress_slope (map fst (pooled_pairs s angles vol cfg x y))
         (map snd (pooled_pairs s angles vol cfg x y)) = Inr v"
    by (rule linregress_defined[OF _ pooled_angles[OF assms(4,5) ij(1)] pooled_angles[OF assms(4,5) ij(2)] ij(3)])
       simp
  then show ?thesis using zone_slope_pooled[OF assms(1-3)] by simp
qed

subsection \<open>The store during the loops\<close>

lemma sample_store:
  assumes "\<And>m. ma_mask vol = Some m \<Longrightarrow> arrays s' m = arrays s m"
  shows "sample s' vol idx = sample s vol idx"
  using assms by (auto simp: sample_def is_masked_def split: option.splits)

lemma zone_flat_store:
  assumes "\<And>m. ma_mask vol = Some m \<Longrightarrow> arrays s' m = arrays s m"
  shows "zone_flat s' vol e a0 a1 g0 g1 = zone_flat s vol e a0 a1 g0 g1"
proof -
  have h: "\<And>idx. sample s' vol idx = sample s vol idx"
    by (rule sample_store) (rule assms)
  show ?thesis by (simp add: zone_flat_def Let_def h)
qed

lemma pool_samples_store:
  assumes "\<And>m. ma_mask vol = Some m \<Longrightarrow> arrays s' m = arrays s m"
  shows "pool_samples s' angles vol zone es acc = pool_samples s angles vol zone es acc"
proof (induction es arbitrary: acc)
  case Nil
  then show ?case by simp
next
  case (Cons e es)
  obtain a0 a1 g0 g1 where z: "zone = (a0, a1, g0, g1)" by (cases zone) auto
  have h: "zone_flat s' vol e a0 a1 g0 g1 = zone_flat s vol e a0 a1 g0 g1"
    by (rule zone_flat_store) (rule assms)
  show ?case by (simp add: z h Cons.IH[unfolded z] split: sum.splits)
qed

lemma zone_slope_store:
  assumes "\<And>m. ma_mask vol = Some m \<Longrightarrow> arrays s' m = arrays s m"
  shows "zone_slope cfg s' angles vol x y = zone_slope cfg s angles vol x y"
proof -
  have h: "\<And>zone es acc. pool_samples s' angles vol zone es acc = pool_samples s angles vol zone es acc"
    by (rule pool_samples_store) (rule assms)
  show ?thesis by (simp add: zone_slope_def Let_def h)
qed

lemma set_block_frame:
  assumes "set_block r a0 a1 g0 g1 s = (res, s')"
  shows "next_ref s' = next_ref s" and "\<And>q. q \<noteq> r \<Longrightarrow> arrays s' q = arrays s q"
    and "shape (arrays s' r) = shape (arrays s r)"
  using assms by (auto simp: set_block_def Let_def split: if_splits)

lemma set_block_effect:
  assumes "3 \<le> length (shape (arrays s r))"
  shows "\<exists>s'. set_block r a0 a1 g0 g1 s = (Inr (), s')
           \<and> (\<forall>idx. elem (arrays s' r) idx = (in_block a0 a1 g0 g1 idx \<or> elem (arrays s r) idx))"
  using assms by (auto simp: set_block_def Let_def)

lemma mark_zone_frame:
  assumes "mark_zone cfg cp dp x y s = (res, s')"
  shows "next_ref s' = next_ref s"
    and "\<And>q. q \<noteq> filter_3d cp \<Longrightarrow> q \<noteq> filter_3d dp \<Longrightarrow> arrays s' q = arrays s q"
    and "shape (arrays s' (filter_3d cp)) = shape (arrays s (filter_3d cp))"
    and "shape (arrays s' (filter_3d dp)) = shape (arrays s (filter_3d dp))"
proof -
  let ?a0 = "x * azim_region cfg" and ?a1 = "(x + 1) * azim_region cfg"
  let ?g0 = "y * gate_region cfg" and ?g1 = "(y + 1) * gate_region cfg"
  obtain r1 s1 where 1: "set_block (filter_3d cp) ?a0 ?a1 ?g0 ?g1 s = (r1, s1)" by force
  obtain r2 s2 where 2: "set_block (filter_3d dp) ?a0 ?a1 ?g0 ?g1 s1 = (r2, s2)" by force
  have s': "s' = s1 \<or> s' = s2"
    using assms 1 2 by (auto simp: mark_zone_def Let_def seq_def split: sum.splits)
  note f1 = set_block_frame[OF 1] and f2 = set_block_frame[OF 2]
  show "next_ref s' = next_ref s" using s' f1(1) f2(1) by auto
  show "\<And>q. q \<noteq> filter_3d cp \<Longrightarrow> q \<noteq> filter_3d dp \<Longrightarrow> arrays s' q = arrays s q"
    using s' f1(2) f2(2) by auto
  show "shape (arrays s' (filter_3d cp)) = shape (arrays s (filter_3d cp))"
    using s' f1(2,3) f2(2,3) by (cases "filter_3d cp = filter_3d dp") auto
  show "shape (arrays s' (filter_3d dp)) = shape (arrays s (filter_3d dp))"
    using s' f1(2,3) f2(2,3) by (cases "filter_3d cp = filter_3d dp") auto
qed

lemma mark_zone_effect:
  assumes "3 \<le> length (shape (arrays s (filter_3d cp)))" "3 \<le> length (shape (arrays s (filter_3d dp)))"
  shows "\<exists>s'. mark_zone cfg cp dp x y s = (Inr (), s')
     \<and> (\<forall>idx. elem (arrays s' (filter_3d cp)) idx
            = (in_block (x * azim_region cfg) ((x + 1) * azim_region cfg)
                        (y * gate_region cfg) ((y + 1) * gate_region cfg) idx
               \<or> elem (arrays s (filter_3d cp)) idx))
     \<and> (\<forall>idx. elem (arrays s' (filter_3d dp)) idx
            = (in_block (x * azim_region cfg) ((x + 1) * azim_region cfg)
                        (y * gate_region cfg) ((y + 1) * gate_region cfg) idx
               \<or> elem (arrays s (filter_3d dp)) idx))"
proof -
  let ?a0 = "x * azim_region cfg" and ?a1 = "(x + 1) * azim_region cfg"
  let ?g0 = "y * gate_region cfg" and ?g1 = "(y + 1) * gate_region cfg"
  from set_block_effect[OF assms(1)] obtain s1 where
    1: "set_block (filter_3d cp) ?a0 ?a1 ?g0 ?g1 s = (Inr (), s1)"
       "\<forall>idx. elem (arrays s1 (filter_3d cp)) idx = (in_block ?a0 ?a1 ?g0 ?g1 idx \<or> elem (arrays s (filter_3d cp)) idx)"
    by blast
  note f1 = set_block_frame[OF 1(1)]
  have "3 \<le> length (shape (arrays s1 (filter_3d dp)))"
    using assms f1(2,3) by (cases "filter_3d cp = filter_3d dp") auto
  from set_block_effect[OF this] obtain s2 where
    2: "set_block (filter_3d dp) ?a0 ?a1 ?g0 ?g1 s1 = (Inr (), s2)"
       "\<forall>idx. elem (arrays s2 (filter_3d dp)) idx = (in_block ?a0 ?a1 ?g0 ?g1 idx \<or> elem (arrays s1 (filter_3d dp)) idx)"
    by blast
  note f2 = set_block_frame[OF 2(1)]
  have m: "mark_zone cfg cp dp x y s = (Inr (), s2)"
    using 1(1) 2(1) by (simp add: mark_zone_def Let_def seq_def)
  show ?thesis
  proof (cases "filter_3d cp = filter_3d dp")
    case True
    then show ?thesis using m 1(2) 2(2) by auto
  next
    case False
    then show ?thesis using m 1(2) 2(2) f1(2) f2(2) by auto
  qed
qed

lemma same_but_refl: "same_but rc rd s s"
  by (simp add: same_but_def)

lemma same_but_trans: "same_but rc rd s s1 \<Longrightarrow> same_but rc rd s1 s2 \<Longrightarrow> same_but rc rd s s2"
  by (auto simp: same_but_def)

lemma mark_zone_same_but:
  "mark_zone cfg cp dp x y s = (res, s') \<Longrightarrow> same_but (filter_3d cp) (filter_3d dp) s s'"
  using mark_zone_frame[of cfg cp dp x y s res s'] by (auto simp: same_but_def)

lemma filter_gates_frame:
  "filter_gates self cp dp iris x ys s = (res, s') \<Longrightarrow> same_but (filter_3d cp) (filter_3d dp) s s'"
proof (induction ys arbitrary: s)
  case Nil
  then show ?case by (simp add: same_but_refl)
next
  case (Cons y ys)
  show ?case
  proof (cases "determine_zone_slope self s iris x y")
    case (Inl e)
    then show ?thesis using Cons.prems by (simp add: same_but_refl)
  next
    case (Inr slope)
    show ?thesis
    proof (cases "exceeds slope (max_dbz_per_degree (precip (config self)))")
      case False
      then show ?thesis using Cons.prems Inr Cons.IH by simp
    next
      case True
      obtain r1 s1 where m: "mark_zone (precip (config self)) cp dp x y s = (r1, s1)" by force
      note sb = mark_zone_same_but[OF m]
      show ?thesis
      proof (cases r1)
        case (Inl e)
        then show ?thesis using Cons.prems Inr True m sb by simp
      next
        case (Inr u)
        then have "filter_gates self cp dp iris x ys s1 = (res, s')"
          using Cons.prems \<open>determine_zone_slope self s iris x y = Inr slope\<close> True m by simp
        from Cons.IH[OF this] sb show ?thesis by (rule same_but_trans[rotated])
      qed
    qed
  qed
qed

lemma filter_azims_frame:
  "filter_azims self cp dp iris xs ys s = (res, s') \<Longrightarrow> same_but (filter_3d cp) (filter_3d dp) s s'"
proof (induction xs arbitrary: s)
  case Nil
  then show ?case by (simp add: same_but_refl)
next
  case (Cons x xs)
  obtain r1 s1 where g: "filter_gates self cp dp iris x ys s = (r1, s1)" by force
  note sb = filter_gates_frame[OF g]
  show ?case
  proof (cases r1)
    case (Inl e)
    then show ?thesis using Cons.prems g sb by simp
  next
    case (Inr u)
    then have "filter_azims self cp dp iris xs ys s1 = (res, s')" using Cons.prems g by simp
    from Cons.IH[OF this] sb show ?thesis by (rule same_but_trans[rotated])
  qed
qed

lemma filter_precip_frame:
  "filter_precip loaded self cp dp iris s = (res, self', s')
     \<Longrightarrow> self' = self\<lparr>config := loaded\<rparr> \<and> same_but (filter_3d cp) (filter_3d dp) s s'"
  by (auto simp: filter_precip_def Let_def same_but_refl split: if_splits prod.splits
      dest: filter_azims_frame)

lemma zone_flagged_store:
  assumes "same_but rc rd s s'" "ma_mask (convol iris) \<noteq> Some rc" "ma_mask (convol iris) \<noteq> Some rd"
  shows "determine_zone_slope self s' iris x y = determine_zone_slope self s iris x y"
proof -
  have "zone_slope (precip (config self)) s' (convol_angles self) (convol iris) x y
      = zone_slope (precip (config self)) s (convol_angles self) (convol iris) x y"
    by (rule zone_slope_store) (use assms in \<open>auto simp: same_but_def\<close>)
  then show ?thesis by (simp add: determine_zone_slope_def)
qed

lemma filter_gates_effect:
  assumes na: "ma_mask (convol iris) \<noteq> Some (filter_3d cp)" "ma_mask (convol iris) \<noteq> Some (filter_3d dp)"
    and ok: "\<forall>y \<in> set ys. \<exists>v. determine_zone_slope self s0 iris x y = Inr v"
    and sb: "same_but (filter_3d cp) (filter_3d dp) s0 s"
    and rk: "3 \<le> length (shape (arrays s (filter_3d cp)))" "3 \<le> length (shape (arrays s (filter_3d dp)))"
  shows "\<exists>s'. filter_gates self cp dp iris x ys s = (Inr (), s')
     \<and> (\<forall>idx. elem (arrays s' (filter_3d cp)) idx
           = (elem (arrays s (filter_3d cp)) idx
              \<or> (\<exists>y \<in> set ys. zone_flagged self s0 iris x y \<and> zone_block (precip (config self)) x y idx)))
     \<and> (\<forall>idx. elem (arrays s' (filter_3d dp)) idx
           = (elem (arrays s (filter_3d dp)) idx
              \<or> (\<exists>y \<in> set ys. zone_flagged self s0 iris x y \<and> zone_block (precip (config self)) x y idx)))"
  using ok sb rk
proof (induction ys arbitrary: s)
  case Nil
  then show ?case by simp
next
  case (Cons y ys)
  from Cons.prems(1) obtain v where v0: "determine_zone_slope self s0 iris x y = Inr v" by auto
  have v: "determine_zone_slope self s iris x y = Inr v"
    using zone_flagged_store[OF Cons.prems(2) na] v0 by simp
  have ok': "\<forall>y \<in> set ys. \<exists>v. determine_zone_slope self s0 iris x y = Inr v"
    using Cons.prems(1) by simp
  show ?case
  proof (cases "exceeds v (max_dbz_per_degree (precip (config self)))")
    case False
    then have nf: "\<not> zone_flagged self s0 iris x y" by (simp add: zone_flagged_def v0)
    from Cons.IH[OF ok' Cons.prems(2,3,4)] obtain s' where
      "filter_gates self cp dp iris x ys s = (Inr (), s')"
      "\<forall>idx. elem (arrays s' (filter_3d cp)) idx
           = (elem (arrays s (filter_3d cp)) idx
              \<or> (\<exists>y \<in> set ys. zone_flagged self s0 iris x y \<and> zone_block (precip (config self)) x y idx))"
      "\<forall>idx. elem (arrays s' (filter_3d dp)) idx
           = (elem (arrays s (filter_3d dp)) idx
              \<or> (\<exists>y \<in> set ys. zone_flagged self s0 iris x y \<and> zone_block (precip (config self)) x y idx))"
      by blast
    then show ?thesis using v False nf by auto
  next
    case True
    then have fl: "zone_flagged self s0 iris x y" by (simp add: zone_flagged_def v0)
    from mark_zone_effect[OF Cons.prems(3,4), of "precip (config self)" x y] obtain s1 where
      m: "mark_zone (precip (config self)) cp dp x y s = (Inr (), s1)"
      and mc: "\<forall>idx. elem (arrays s1 (filter_3d cp)) idx
            = (zone_block (precip (config self)) x y idx \<or> elem (arrays s (filter_3d cp)) idx)"
      and md: "\<forall>idx. elem (arrays s1 (filter_3d dp)) idx
            = (zone_block (precip (config self)) x y idx \<or> elem (arrays s (filter_3d dp)) idx)"
      by (auto simp: zone_block_def)
    note sb1 = mark_zone_same_but[OF m]
    have sb01: "same_but (filter_3d cp) (filter_3d dp) s0 s1"
      using same_but_trans[OF Cons.prems(2) sb1] .
    have rk1: "3 \<le> length (shape (arrays s1 (filter_3d cp)))" "3 \<le> length (shape (arrays s1 (filter_3d dp)))"
      using sb1 Cons.prems(3,4) by (auto simp: same_but_def)
    from Cons.IH[OF ok' sb01 rk1] obtain s' where
      "filter_gates self cp dp iris x ys s1 = (Inr (), s')"
      "\<forall>idx. elem (arrays s' (filter_3d cp)) idx
           = (elem (arrays s1 (filter_3d cp)) idx
              \<or> (\<exists>y \<in> set ys. zone_flagged self s0 iris x y \<and> zone_block (precip (config self)) x y idx))"
      "\<forall>idx. elem (arrays s' (filter_3d dp)) idx
           = (elem (arrays s1 (filter_3d dp)) idx
              \<or> (\<exists>y \<in> set ys. zone_flagged self s0 iris x y \<and> zone_block (precip (config self)) x y idx))"
      by blast
    then show ?thesis using v True fl m mc md by auto
  qed
qed

lemma filter_azims_effect:
  assumes na: "ma_mask (convol iris) \<noteq> Some (filter_3d cp)" "ma_mask (convol iris) \<noteq> Some (filter_3d dp)"
    and ok: "\<forall>x \<in> set xs. \<forall>y \<in> set ys. \<exists>v. determine_zone_slope self s0 iris x y = Inr v"
    and sb: "same_but (filter_3d cp) (filter_3d dp) s0 s"
    and rk: "3 \<le> length (shape (arrays s (filter_3d cp)))" "3 \<le> length (shape (arrays s (filter_3d dp)))"
  shows "\<exists>s'. filter_azims self cp dp iris xs ys s = (Inr (), s')
     \<and> (\<forall>idx. elem (arrays s' (filter_3d cp)) idx
           = (elem (arrays s (filter_3d cp)) idx
              \<or> (\<exists>x \<in> set xs. \<exists>y \<in> set ys.
                    zone_flagged self s0 iris x y \<and> zone_block (precip (config self)) x y idx)))
     \<and> (\<forall>idx. elem (arrays s' (filter_3d dp)) idx
           = (elem (arrays s (filter_3d dp)) idx
              \<or> (\<exists>x \<in> set xs. \<exists>y \<in> set ys.
                    zone_flagged self s0 iris x y \<and> zone_block (precip (config self)) x y idx)))"
  using ok sb rk
proof (induction xs arbitrary: s)
  case Nil
  then show ?case by simp
next
  case (Cons x xs)
  have okx: "\<forall>y \<in> set ys. \<exists>v. determine_zone_slope self s0 iris x y = Inr v"
    and ok': "\<forall>x \<in> set xs. \<forall>y \<in> set ys. \<exists>v. determine_zone_slope self s0 iris x y = Inr v"
    using Cons.prems(1) by auto
  from filter_gates_effect[OF na okx Cons.prems(2,3,4)] obtain s1 where
    g: "filter_gates self cp dp iris x ys s = (Inr (), s1)"
    and gc: "\<forall>idx. elem (arrays s1 (filter_3d cp)) idx
           = (elem (arrays s (filter_3d cp)) idx
              \<or> (\<exists>y \<in> set ys. zone_flagged self s0 iris x y \<and> zone_block (precip (config self)) x y idx))"
    and gd: "\<forall>idx. elem (arrays s1 (filter_3d dp)) idx
           = (elem (arrays s (filter_3d dp)) idx
              \<or> (\<exists>y \<in> set ys. zone_flagged self s0 iris x y \<and> zone_block (precip (config self)) x y idx))"
    by blast
  note sb1 = filter_gates_frame[OF g]
  have sb01: "same_but (filter_3d cp) (filter_3d dp) s0 s1"
    using same_but_trans[OF Cons.prems(2) sb1] .
  have rk1: "3 \<le> length (shape (arrays s1 (filter_3d cp)))" "3 \<le> length (shape (arrays s1 (filter_3d dp)))"
    using sb1 Cons.prems(3,4) by (auto simp: same_but_def)
  from Cons.IH[OF ok' sb01 rk1] obtain s' where
    "filter_azims self cp dp iris xs ys s1 = (Inr (), s')"
    "\<forall>idx. elem (arrays s' (filter_3d cp)) idx
           = (elem (arrays s1 (filter_3d cp)) idx
              \<or> (\<exists>x \<in> set xs. \<exists>y \<in> set ys.
                    zone_flagged self s0 iris x y \<and> zone_block (precip (config self)) x y idx))"
    "\<forall>idx. elem (arrays s' (filter_3d dp)) idx
           = (elem (arrays s1 (filter_3d dp)) idx
              \<or> (\<exists>x \<in> set xs. \<exists>y \<in> set ys.
                    zone_flagged self s0 iris x y \<and> zone_block (precip (config self)) x y idx))"
    by blast
  then show ?case using g gc gd by auto
qed

subsection \<open>Cells and zones\<close>

lemma zone_of_cell: "0 < (r::nat) \<Longrightarrow> (x * r \<le> a \<and> a < (x + 1) * r) = (x = a div r)"
proof
  assume r: "0 < r" and h: "x * r \<le> a \<and> a < (x + 1) * r"
  then have "x \<le> a div r" by (simp add: less_eq_div_iff_mult_less_eq)
  moreover have "a div r < x + 1" using h r by (simp add: div_less_iff_less_mult)
  ultimately show "x = a div r" by simp
next
  assume r: "0 < r" and x: "x = a div r"
  have 1: "a = r * (a div r) + a mod r" by simp
  have 2: "a mod r < r" using r by simp
  have "a < r * (a div r) + r" using 1 2 by linarith
  then have 3: "a < (a div r + 1) * r" by (simp add: algebra_simps)
  have "a div r * r \<le> a" by simp
  moreover note 3
  ultimately show "x * r \<le> a \<and> a < (x + 1) * r" using x by simp
qed

lemma zone_block_cell:
  assumes "0 < azim_region cfg" "0 < gate_region cfg"
  shows "zone_block cfg x y [e, a, g] = (x = a div azim_region cfg \<and> y = g div gate_region cfg)"
  using zone_of_cell[OF assms(1), of x a] zone_of_cell[OF assms(2), of y g]
  by (auto simp: zone_block_def in_block_def)

lemma div_zone_bound: "0 < (r::nat) \<Longrightarrow> A mod r = 0 \<Longrightarrow> a < A \<Longrightarrow> a div r < A div r"
proof -
  assume r: "0 < r" and m: "A mod r = 0" and a: "a < A"
  have "A = r * (A div r) + A mod r" by simp
  then have "A = A div r * r" using m by (simp add: mult.commute)
  then have "a < A div r * r" using a by simp
  then show ?thesis using r by (simp add: div_less_iff_less_mult)
qed

lemma zone_upper_bound: "A mod (r::nat) = 0 \<Longrightarrow> x < A div r \<Longrightarrow> (x + 1) * r \<le> A"
proof -
  assume m: "A mod r = 0" and x: "x < A div r"
  then have "x + 1 \<le> A div r" by simp
  then have "(x + 1) * r \<le> (A div r) * r" by (rule mult_le_mono1)
  also have "\<dots> = A"
  proof -
    have "A = r * (A div r) + A mod r" by simp
    then show ?thesis using m by (simp add: mult.commute)
  qed
  finally show ?thesis .
qed

lemma zones_of_grid:
  assumes "0 < azim_region cfg" "0 < gate_region cfg"
    "A mod azim_region cfg = 0" "G mod gate_region cfg = 0"
  shows "zone_index cfg ` ({..<A} \<times> {..<G}) = {..<A div azim_region cfg} \<times> {..<G div gate_region cfg}"
proof (intro equalityI subsetI)
  fix z assume "z \<in> zone_index cfg ` ({..<A} \<times> {..<G})"
  then show "z \<in> {..<A div azim_region cfg} \<times> {..<G div gate_region cfg}"
    using div_zone_bound[OF assms(1,3)] div_zone_bound[OF assms(2,4)]
    by (auto simp: zone_index_def)
next
  fix z assume z: "z \<in> {..<A div azim_region cfg} \<times> {..<G div gate_region cfg}"
  obtain x y where xy: "z = (x, y)" by (cases z) auto
  have bx: "(x + 1) * azim_region cfg \<le> A" and by': "(y + 1) * gate_region cfg \<le> G"
    using z xy zone_upper_bound[OF assms(3)] zone_upper_bound[OF assms(4)] by auto
  have "x * azim_region cfg < A" "y * gate_region cfg < G"
    using bx by' assms(1,2) by auto
  moreover have "zone_index cfg (x * azim_region cfg, y * gate_region cfg) = (x, y)"
    using assms(1,2) by (simp add: zone_index_def)
  ultimately show "z \<in> zone_index cfg ` ({..<A} \<times> {..<G})"
    unfolding xy by (metis (no_types, lifting) SigmaI image_eqI lessThan_iff)
qed

lemma filter_precip_effect:
  assumes pos: "0 < azim_region (precip loaded)" "0 < gate_region (precip loaded)"
    and dv: "azims (grid_info self) mod azim_region (precip loaded) = 0"
            "gates (grid_info self) mod gate_region (precip loaded) = 0"
    and sh: "shape (ma_data (convol iris))
               = [length (convol_angles self), azims (grid_info self), gates (grid_info self)]"
    and av: "angles_vary (convol_angles self)"
    and rk: "3 \<le> length (shape (arrays s (filter_3d cp)))" "3 \<le> length (shape (arrays s (filter_3d dp)))"
    and na: "ma_mask (convol iris) \<noteq> Some (filter_3d cp)" "ma_mask (convol iris) \<noteq> Some (filter_3d dp)"
  shows "\<exists>s'. filter_precip loaded self cp dp iris s = (Inr (), self\<lparr>config := loaded\<rparr>, s')
     \<and> (\<forall>e a g. a < azims (grid_info self) \<and> g < gates (grid_info self) \<longrightarrow>
           elem (arrays s' (filter_3d cp)) [e, a, g]
             = (elem (arrays s (filter_3d cp)) [e, a, g]
                \<or> zone_contaminated s (convol_angles self) (convol iris) (precip loaded)
                     (a div azim_region (precip loaded)) (g div gate_region (precip loaded))))
     \<and> (\<forall>e a g. a < azims (grid_info self) \<and> g < gates (grid_info self) \<longrightarrow>
           elem (arrays s' (filter_3d dp)) [e, a, g]
             = (elem (arrays s (filter_3d dp)) [e, a, g]
                \<or> zone_contaminated s (convol_angles self) (convol iris) (precip loaded)
                     (a div azim_region (precip loaded)) (g div gate_region (precip loaded))))"
proof -
  let ?self = "self\<lparr>config := loaded\<rparr>"
  let ?cfg = "precip loaded"
  let ?A = "azims (grid_info self)" and ?G = "gates (grid_info self)"
  let ?xs = "[0..<?A div azim_region ?cfg]" and ?ys = "[0..<?G div gate_region ?cfg]"
  have slope: "determine_zone_slope ?self s iris x y
        = linregress_slope (map fst (pooled_pairs s (convol_angles self) (convol iris) ?cfg x y))
            (map snd (pooled_pairs s (convol_angles self) (convol iris) ?cfg x y))"
    if "x \<in> set ?xs" "y \<in> set ?ys" for x y
    using that zone_slope_pooled[OF sh zone_upper_bound[OF dv(1)] zone_upper_bound[OF dv(2)], of x y s]
    by (simp add: determine_zone_slope_def)
  have fl: "zone_flagged ?self s iris x y
        = zone_contaminated s (convol_angles self) (convol iris) ?cfg x y"
    if "x \<in> set ?xs" "y \<in> set ?ys" for x y
    using slope[OF that] by (simp add: zone_flagged_def zone_contaminated_def split: sum.splits)
  have ok: "\<forall>x \<in> set ?xs. \<forall>y \<in> set ?ys. \<exists>v. determine_zone_slope ?self s iris x y = Inr v"
  proof (intro ballI)
    fix x y assume "x \<in> set ?xs" "y \<in> set ?ys"
    then show "\<exists>v. determine_zone_slope ?self s iris x y = Inr v"
      using zone_slope_defined[OF sh zone_upper_bound[OF dv(1)] zone_upper_bound[OF dv(2)] pos av, of x y s]
      by (simp add: determine_zone_slope_def)
  qed
  from filter_azims_effect[OF na ok same_but_refl rk] obtain s' where
    r: "filter_azims ?self cp dp iris ?xs ?ys s = (Inr (), s')"
    and c: "\<forall>idx. elem (arrays s' (filter_3d cp)) idx
           = (elem (arrays s (filter_3d cp)) idx
              \<or> (\<exists>x \<in> set ?xs. \<exists>y \<in> set ?ys.
                    zone_flagged ?self s iris x y \<and> zone_block (precip (config ?self)) x y idx))"
    and d: "\<forall>idx. elem (arrays s' (filter_3d dp)) idx
           = (elem (arrays s (filter_3d dp)) idx
              \<or> (\<exists>x \<in> set ?xs. \<exists>y \<in> set ?ys.
                    zone_flagged ?self s iris x y \<and> zone_block (precip (config ?self)) x y idx))"
    by blast
  have fp: "filter_precip loaded self cp dp iris s = (Inr (), ?self, s')"
    using pos dv r by (simp add: filter_precip_def Let_def)
  have zone: "(\<exists>x \<in> set ?xs. \<exists>y \<in> set ?ys.
                 zone_flagged ?self s iris x y \<and> zone_block (precip (config ?self)) x y [e, a, g])
            = zone_contaminated s (convol_angles self) (convol iris) ?cfg
                (a div azim_region ?cfg) (g div gate_region ?cfg)"
    if "a < ?A" "g < ?G" for e a g
  proof -
    have m: "a div azim_region ?cfg \<in> set ?xs" "g div gate_region ?cfg \<in> set ?ys"
      using div_zone_bound[OF pos(1) dv(1) that(1)] div_zone_bound[OF pos(2) dv(2) that(2)] by auto
    show ?thesis
      using m fl[OF m] by (auto simp: zone_block_cell[OF pos])
  qed
  show ?thesis
    using fp c d zone by (intro exI[of _ s']) simp
qed

subsection \<open>The scenario\<close>

lemma scenario_store_arrays:
  "arrays scenario_store 0 = full [3, 8, 8] False" "arrays scenario_store 1 = full [2, 8, 8] False"
  "arrays scenario_store (Suc 0) = full [2, 8, 8] False"
  "arrays scenario_store 5 = full [] False"
  "next_ref scenario_store = 2"
  by (simp_all add: scenario_store_def empty_store_def PrecipFilter_new_def alloc_def
      example_processor_def full_def)

lemma scenario_hyps:
  "0 < azim_region (precip scenario_config)" "0 < gate_region (precip scenario_config)"
  "azims (grid_info example_processor) mod azim_region (precip scenario_config) = 0"
  "gates (grid_info example_processor) mod gate_region (precip scenario_config) = 0"
  "shape (ma_data (convol scenario_iris))
     = [length (convol_angles example_processor), azims (grid_info example_processor),
        gates (grid_info example_processor)]"
  "angles_vary (convol_angles example_processor)"
  "unflagged scenario_store convol_filter" "unflagged scenario_store dopvol_filter"
  "ma_mask (convol scenario_iris) \<noteq> Some (filter_3d convol_filter)"
  "ma_mask (convol scenario_iris) \<noteq> Some (filter_3d dopvol_filter)"
  by (simp_all add: scenario_config_def example_processor_def scenario_iris_def angles_vary_def
      unflagged_def convol_filter_def dopvol_filter_def scenario_store_arrays full_def)

lemma scenario_zones:
  "zone_contaminated scenario_store (convol_angles example_processor) (convol scenario_iris)
     (precip scenario_config) 0 0"
  "\<not> zone_contaminated scenario_store (convol_angles example_processor) (convol scenario_iris)
     (precip scenario_config) 0 1"
  "\<not> zone_contaminated scenario_store (convol_angles example_processor) (convol scenario_iris)
     (precip scenario_config) 1 0"
  "\<not> zone_contaminated scenario_store (convol_angles example_processor) (convol scenario_iris)
     (precip scenario_config) 1 1"
  by code_simp+

lemma scenario_dopvol_zone:
  "\<not> zone_contaminated scenario_store (dopvol_angles example_processor) (dopvol scenario_iris)
     (precip scenario_config) 0 0"
  by code_simp

lemma half: "a < 8 \<Longrightarrow> (a div 4 = 0 \<and> a < 4) \<or> (a div 4 = Suc 0 \<and> \<not> a < (4::nat))"
  by presburger

subsection \<open>Detection\<close>

text \<open>
  Claim C3. With region sizes that are positive and divide the grid, a CONVOL volume of
  the shape the angles and the grid give, scan angles that are not all the same, and new
  filters that are not the volume's own mask, \<^verbatim>\<open>filter_precip\<close> returns, and a cell of
  the grid is flagged in the CONVOL filter, on every elevation, exactly when the
  least-squares slope of the pairs pooled over its zone is greater than the limit.
\<close>

theorem contaminated_zones_are_marked:
  assumes "0 < azim_region (precip loaded)" and "0 < gate_region (precip loaded)"
    and "azims (grid_info self) mod azim_region (precip loaded) = 0"
    and "gates (grid_info self) mod gate_region (precip loaded) = 0"
    and "shape (ma_data (convol iris))
           = [length (convol_angles self), azims (grid_info self), gates (grid_info self)]"
    and "angles_vary (convol_angles self)"
    and "unflagged s convol_precip" and "unflagged s dopvol_precip"
    and "ma_mask (convol iris) \<noteq> Some (filter_3d convol_precip)"
    and "ma_mask (convol iris) \<noteq> Some (filter_3d dopvol_precip)"
  shows "\<exists>s'. filter_precip loaded self convol_precip dopvol_precip iris s
                = (Inr (), self\<lparr>config := loaded\<rparr>, s')
     \<and> (\<forall>e a g. a < azims (grid_info self) \<and> g < gates (grid_info self) \<longrightarrow>
           elem (arrays s' (filter_3d convol_precip)) [e, a, g]
             = zone_contaminated s (convol_angles self) (convol iris) (precip loaded)
                 (a div azim_region (precip loaded)) (g div gate_region (precip loaded)))"
proof -
  have rk: "3 \<le> length (shape (arrays s (filter_3d convol_precip)))"
    "3 \<le> length (shape (arrays s (filter_3d dopvol_precip)))"
    and z: "\<And>e a g. \<not> elem (arrays s (filter_3d convol_precip)) [e, a, g]"
    using assms(7,8) by (auto simp: unflagged_def)
  from filter_precip_effect[OF assms(1-6) rk assms(9,10)] z show ?thesis by auto
qed

text \<open>
  The spec's scenario: the cells flagged are exactly those of zone (0, 0), on all three
  elevations.
\<close>

theorem contaminated_zones_are_marked_witness:
  "\<exists>s'. filter_precip scenario_config example_processor convol_filter dopvol_filter scenario_iris
           scenario_store
          = (Inr (), example_processor\<lparr>config := scenario_config\<rparr>, s')
     \<and> list_all (\<lambda>e. list_all (\<lambda>a. list_all (\<lambda>g.
           elem (arrays s' 0) [e, a, g] = (a < 4 \<and> g < 4)) [0..<8]) [0..<8]) [0..<3]"
proof -
  from contaminated_zones_are_marked[OF scenario_hyps] obtain s' where
    r: "filter_precip scenario_config example_processor convol_filter dopvol_filter scenario_iris
           scenario_store = (Inr (), example_processor\<lparr>config := scenario_config\<rparr>, s')"
    and c: "\<And>e a g. a < 8 \<Longrightarrow> g < 8 \<Longrightarrow>
           elem (arrays s' 0) [e, a, g]
             = zone_contaminated scenario_store (convol_angles example_processor) (convol scenario_iris)
                 (precip scenario_config) (a div 4) (g div 4)"
    by (auto simp: example_processor_def scenario_config_def convol_filter_def)
  have "elem (arrays s' 0) [e, a, g] = (a < 4 \<and> g < 4)" if "a < 8" "g < 8" for e a g
    using c[OF that] half[OF that(1)] half[OF that(2)] scenario_zones by auto
  then show ?thesis using r by (auto simp: list_all_iff)
qed

subsection \<open>One set of scans, end to end\<close>

lemma PrecipFilter_new_result:
  "PrecipFilter_new md gi angles s
     = (Inr \<lparr>filter_3d = next_ref s\<rparr>,
        s\<lparr>arrays := (arrays s)(next_ref s := \<lparr>shape = [length angles, azims gi, gates gi],
                                                 elem = (\<lambda>idx. False)\<rparr>),
          next_ref := Suc (next_ref s)\<rparr>)"
  by (simp add: PrecipFilter_new_def alloc_def)

lemma plot_slices_3d: "shape (ma_data vol) = [n, A, G] \<Longrightarrow> plot_slices vol n = Inr ()"
  by (simp add: plot_slices_def list_all_iff)

lemma zone_contaminated_store:
  assumes "\<And>m. ma_mask vol = Some m \<Longrightarrow> arrays s' m = arrays s m"
  shows "zone_contaminated s' angles vol cfg x y = zone_contaminated s angles vol cfg x y"
proof -
  have h: "\<And>idx. sample s' vol idx = sample s vol idx"
    by (rule sample_store) (rule assms)
  show ?thesis by (simp add: zone_contaminated_def pooled_pairs_def h)
qed

text \<open>
  With a plotter, region sizes that divide the grid, volumes of the shapes the angles and
  the grid give, verified clutter maps and masks that are allocated arrays of their
  volume's shape, \<^verbatim>\<open>process_set\<close> returns, and the mask of each volume afterwards is, cell
  by cell, the union of that family's clutter map, the zone verdict on the CONVOL samples
  and the mask the volume had.
\<close>

lemma process_set_masks:
  assumes pl: "plotter self"
    and pos: "0 < azim_region (precip loaded)" "0 < gate_region (precip loaded)"
    and dv: "azims (grid_info self) mod azim_region (precip loaded) = 0"
            "gates (grid_info self) mod gate_region (precip loaded) = 0"
    and shc: "shape (ma_data (convol iris))
               = [length (convol_angles self), azims (grid_info self), gates (grid_info self)]"
    and shd: "shape (ma_data (dopvol iris))
               = [length (dopvol_angles self), azims (grid_info self), gates (grid_info self)]"
    and av: "angles_vary (convol_angles self)"
    and vf: "verify_specific_calib self = Inr ()"
    and al: "allocated s (convol iris)" "allocated s (dopvol iris)"
    and mf: "mask_fits s (convol iris)" "mask_fits s (dopvol iris)"
  shows "\<exists>iris' s'. process_set loaded self iris s = (Inr (), self\<lparr>config := loaded\<rparr>, iris', s')
     \<and> (\<forall>e a g. e < length (convol_angles self) \<and> a < azims (grid_info self) \<and> g < gates (grid_info self)
           \<longrightarrow> is_masked s' (convol iris') [e, a, g]
                 = (\<not> (elem (convol_clutter self) [e, a, g] = 0)
                    \<or> zone_contaminated s (convol_angles self) (convol iris) (precip loaded)
                         (a div azim_region (precip loaded)) (g div gate_region (precip loaded))
                    \<or> is_masked s (convol iris) [e, a, g]))
     \<and> (\<forall>e a g. e < length (dopvol_angles self) \<and> a < azims (grid_info self) \<and> g < gates (grid_info self)
           \<longrightarrow> is_masked s' (dopvol iris') [e, a, g]
                 = (\<not> (elem (dopvol_clutter self) [e, a, g] = 0)
                    \<or> zone_contaminated s (convol_angles self) (convol iris) (precip loaded)
                         (a div azim_region (precip loaded)) (g div gate_region (precip loaded))
                    \<or> is_masked s (dopvol iris) [e, a, g]))"
proof -
  let ?A = "azims (grid_info self)" and ?G = "gates (grid_info self)"
  let ?nc = "length (convol_angles self)" and ?nd = "length (dopvol_angles self)"
  let ?self = "self\<lparr>config := loaded\<rparr>"
  let ?cp = "\<lparr>filter_3d = next_ref s\<rparr>" and ?dp = "\<lparr>filter_3d = Suc (next_ref s)\<rparr>"
  let ?s1 = "s\<lparr>arrays := (arrays s)(next_ref s := \<lparr>shape = [?nc, ?A, ?G], elem = (\<lambda>idx. False)\<rparr>),
               next_ref := Suc (next_ref s)\<rparr>"
  let ?s2 = "?s1\<lparr>arrays := (arrays ?s1)(next_ref ?s1 := \<lparr>shape = [?nd, ?A, ?G], elem = (\<lambda>idx. False)\<rparr>),
               next_ref := Suc (next_ref ?s1)\<rparr>"
  have clc: "shape (convol_clutter self) = [?nc, ?A, ?G]"
    and cld: "shape (dopvol_clutter self) = [?nd, ?A, ?G]"
    using vf by (auto simp: verify_specific_calib_def Let_def split: if_splits)
  have p0: "plot_iris self iris = Inr ()"
    using pl plot_slices_3d[OF shc] plot_slices_3d[OF shd] by (simp add: plot_iris_def and_then_def)
  have old: "arrays ?s2 q = arrays s q" if "q < next_ref s" for q using that by simp
  have mc2: "\<And>m. ma_mask (convol iris) = Some m \<Longrightarrow> arrays ?s2 m = arrays s m"
    and md2: "\<And>m. ma_mask (dopvol iris) = Some m \<Longrightarrow> arrays ?s2 m = arrays s m"
    using al by (auto simp: allocated_def)
  have na: "ma_mask (convol iris) \<noteq> Some (filter_3d ?cp)" "ma_mask (convol iris) \<noteq> Some (filter_3d ?dp)"
    "ma_mask (dopvol iris) \<noteq> Some (filter_3d ?cp)" "ma_mask (dopvol iris) \<noteq> Some (filter_3d ?dp)"
    using al by (auto simp: allocated_def)
  have rk: "3 \<le> length (shape (arrays ?s2 (filter_3d ?cp)))" "3 \<le> length (shape (arrays ?s2 (filter_3d ?dp)))"
    by simp_all
  from filter_precip_effect[OF pos dv shc av rk na(1,2)] obtain s3 where
    fp: "filter_precip loaded self ?cp ?dp iris ?s2 = (Inr (), ?self, s3)"
    and fc: "\<And>e a g. a < ?A \<Longrightarrow> g < ?G \<Longrightarrow>
           elem (arrays s3 (next_ref s)) [e, a, g]
             = zone_contaminated ?s2 (convol_angles self) (convol iris) (precip loaded)
                 (a div azim_region (precip loaded)) (g div gate_region (precip loaded))"
    and fd: "\<And>e a g. a < ?A \<Longrightarrow> g < ?G \<Longrightarrow>
           elem (arrays s3 (Suc (next_ref s))) [e, a, g]
             = zone_contaminated ?s2 (convol_angles self) (convol iris) (precip loaded)
                 (a div azim_region (precip loaded)) (g div gate_region (precip loaded))"
    by auto
  have zc: "zone_contaminated ?s2 (convol_angles self) (convol iris) (precip loaded) x y
      = zone_contaminated s (convol_angles self) (convol iris) (precip loaded) x y" for x y
    by (rule zone_contaminated_store) (rule mc2)
  from filter_precip_frame[OF fp] have sb: "same_but (next_ref s) (Suc (next_ref s)) ?s2 s3" by simp
  then have n3: "next_ref s3 = Suc (Suc (next_ref s))"
    and fr3: "\<And>q. q < next_ref s \<Longrightarrow> arrays s3 q = arrays s q"
    and sc3: "shape (arrays s3 (next_ref s)) = [?nc, ?A, ?G]"
    and sd3: "shape (arrays s3 (Suc (next_ref s))) = [?nd, ?A, ?G]"
    by (auto simp: same_but_def)
  have al3: "allocated s3 (convol iris)" "allocated s3 (dopvol iris)"
    using al n3 by (auto simp: allocated_def split: option.splits)
  have mf3: "mask_fits s3 (convol iris)" "mask_fits s3 (dopvol iris)"
    using mf al fr3 by (auto simp: mask_fits_def allocated_def split: option.splits)
  have im3: "is_masked s3 (convol iris) idx = is_masked s (convol iris) idx"
            "is_masked s3 (dopvol iris) idx = is_masked s (dopvol iris) idx" for idx
    using al fr3 by (auto simp: is_masked_def allocated_def split: option.splits)
  have "shape (astype_bool (convol_clutter self)) = shape (arrays s3 (next_ref s))"
    using clc sc3 by (simp add: astype_bool_def)
  from logical_or_same_shape[OF this] obtain jc where
    jc: "logical_or (astype_bool (convol_clutter self)) (arrays s3 (next_ref s)) = Inr jc"
        "shape jc = [?nc, ?A, ?G]"
        "\<forall>idx. valid_index [?nc, ?A, ?G] idx \<longrightarrow>
            elem jc idx = (\<not> (elem (convol_clutter self) idx = 0) \<or> elem (arrays s3 (next_ref s)) idx)"
    using clc by (auto simp: astype_bool_def)
  have "shape (astype_bool (dopvol_clutter self)) = shape (arrays s3 (Suc (next_ref s)))"
    using cld sd3 by (simp add: astype_bool_def)
  from logical_or_same_shape[OF this] obtain jd where
    jd: "logical_or (astype_bool (dopvol_clutter self)) (arrays s3 (Suc (next_ref s))) = Inr jd"
        "shape jd = [?nd, ?A, ?G]"
        "\<forall>idx. valid_index [?nd, ?A, ?G] idx \<longrightarrow>
            elem jd idx = (\<not> (elem (dopvol_clutter self) idx = 0) \<or> elem (arrays s3 (Suc (next_ref s))) idx)"
    using cld by (auto simp: astype_bool_def)
  have sj: "shape jc = shape (ma_data (convol iris))" "shape jd = shape (ma_data (dopvol iris))"
    using jc(2) jd(2) shc shd by simp_all
  from impose_filter_same_shape[OF al3 mf3 sj] obtain iris' s4 where
    imp: "impose_filter iris jc jd s3 = (Inr (), iris', s4)"
    and ic: "\<forall>idx. valid_index (shape (ma_data (convol iris))) idx \<longrightarrow>
             is_masked s4 (convol iris') idx = (elem jc idx \<or> is_masked s3 (convol iris) idx)"
    and idd: "\<forall>idx. valid_index (shape (ma_data (dopvol iris))) idx \<longrightarrow>
             is_masked s4 (dopvol iris') idx = (elem jd idx \<or> is_masked s3 (dopvol iris) idx)"
    by blast
  from impose_filter_shape[OF imp] have
    "shape (ma_data (convol iris')) = [?nc, ?A, ?G]" "shape (ma_data (dopvol iris')) = [?nd, ?A, ?G]"
    using shc shd by simp_all
  then have p1: "plot_iris ?self iris' = Inr ()"
    using pl plot_slices_3d[of "convol iris'" ?nc ?A ?G] plot_slices_3d[of "dopvol iris'" ?nd ?A ?G]
    by (simp add: plot_iris_def and_then_def)
  have ps: "process_set loaded self iris s = (Inr (), ?self, iris', s4)"
    using p0 fp jc(1) jd(1) imp p1
    by (simp add: process_set_def PrecipFilter_new_result)
  have vc: "valid_index (shape (ma_data (convol iris))) [e, a, g]" if "e < ?nc" "a < ?A" "g < ?G" for e a g
    using that shc by (simp add: valid_index_def)
  have vd: "valid_index (shape (ma_data (dopvol iris))) [e, a, g]" if "e < ?nd" "a < ?A" "g < ?G" for e a g
    using that shd by (simp add: valid_index_def)
  have rc: "is_masked s4 (convol iris') [e, a, g]
                 = (\<not> (elem (convol_clutter self) [e, a, g] = 0)
                    \<or> zone_contaminated s (convol_angles self) (convol iris) (precip loaded)
                         (a div azim_region (precip loaded)) (g div gate_region (precip loaded))
                    \<or> is_masked s (convol iris) [e, a, g])" if "e < ?nc" "a < ?A" "g < ?G" for e a g
    using ic[rule_format, OF vc[OF that]] jc(3)[rule_format, of "[e, a, g]"] vc[OF that] shc
      fc[OF that(2,3), of e] zc im3(1) by simp
  have rd: "is_masked s4 (dopvol iris') [e, a, g]
                 = (\<not> (elem (dopvol_clutter self) [e, a, g] = 0)
                    \<or> zone_contaminated s (convol_angles self) (convol iris) (precip loaded)
                         (a div azim_region (precip loaded)) (g div gate_region (precip loaded))
                    \<or> is_masked s (dopvol iris) [e, a, g])" if "e < ?nd" "a < ?A" "g < ?G" for e a g
    using idd[rule_format, OF vd[OF that]] jd(3)[rule_format, of "[e, a, g]"] vd[OF that] shd
      fd[OF that(2,3), of e] zc im3(2) by simp
  show ?thesis using ps rc rd by (intro exI[of _ iris'] exI[of _ s4]) simp
qed

text \<open>
  Claim C5, as the code has it. The result of \<^verbatim>\<open>filter_precip\<close> does not depend on the
  DOPVOL volume at all. In \<^verbatim>\<open>process_set\<close> each volume is fused with the clutter map of
  its own family, and with one and the same contamination mask: a cell of either volume
  is contaminated exactly when the slope of the CONVOL samples of its zone is greater than
  the limit.
\<close>

theorem each_family_gets_convol_zones:
  "filter_precip loaded self convol_precip dopvol_precip (iris\<lparr>dopvol := other\<rparr>) st
     = filter_precip loaded self convol_precip dopvol_precip iris st
   \<and> (plotter self
      \<and> 0 < azim_region (precip loaded) \<and> 0 < gate_region (precip loaded)
      \<and> azims (grid_info self) mod azim_region (precip loaded) = 0
      \<and> gates (grid_info self) mod gate_region (precip loaded) = 0
      \<and> shape (ma_data (convol iris))
           = [length (convol_angles self), azims (grid_info self), gates (grid_info self)]
      \<and> shape (ma_data (dopvol iris))
           = [length (dopvol_angles self), azims (grid_info self), gates (grid_info self)]
      \<and> angles_vary (convol_angles self)
      \<and> verify_specific_calib self = Inr ()
      \<and> allocated s (convol iris) \<and> allocated s (dopvol iris)
      \<and> mask_fits s (convol iris) \<and> mask_fits s (dopvol iris)
      \<longrightarrow>
      (\<exists>iris' s'. process_set loaded self iris s = (Inr (), self\<lparr>config := loaded\<rparr>, iris', s')
         \<and> (\<forall>e a g. e < length (convol_angles self) \<and> a < azims (grid_info self)
                     \<and> g < gates (grid_info self)
               \<longrightarrow> is_masked s' (convol iris') [e, a, g]
                     = (\<not> (elem (convol_clutter self) [e, a, g] = 0)
                        \<or> zone_contaminated s (convol_angles self) (convol iris) (precip loaded)
                             (a div azim_region (precip loaded)) (g div gate_region (precip loaded))
                        \<or> is_masked s (convol iris) [e, a, g]))
         \<and> (\<forall>e a g. e < length (dopvol_angles self) \<and> a < azims (grid_info self)
                     \<and> g < gates (grid_info self)
               \<longrightarrow> is_masked s' (dopvol iris') [e, a, g]
                     = (\<not> (elem (dopvol_clutter self) [e, a, g] = 0)
                        \<or> zone_contaminated s (convol_angles self) (convol iris) (precip loaded)
                             (a div azim_region (precip loaded)) (g div gate_region (precip loaded))
                        \<or> is_masked s (dopvol iris) [e, a, g]))))"
proof (intro conjI impI)
  have dz: "\<And>self s x y. determine_zone_slope self s (iris\<lparr>dopvol := other\<rparr>) x y
      = determine_zone_slope self s iris x y"
    by (simp add: determine_zone_slope_def)
  have fg: "\<And>self x s. filter_gates self convol_precip dopvol_precip (iris\<lparr>dopvol := other\<rparr>) x ys s
      = filter_gates self convol_precip dopvol_precip iris x ys s" for ys
    by (induction ys) (simp_all add: dz split: sum.splits prod.splits)
  have fa: "\<And>self s. filter_azims self convol_precip dopvol_precip (iris\<lparr>dopvol := other\<rparr>) xs ys s
      = filter_azims self convol_precip dopvol_precip iris xs ys s" for xs ys
    by (induction xs) (simp_all add: fg split: sum.splits prod.splits)
  show "filter_precip loaded self convol_precip dopvol_precip (iris\<lparr>dopvol := other\<rparr>) st
     = filter_precip loaded self convol_precip dopvol_precip iris st"
    by (simp add: filter_precip_def Let_def fa)
next
  assume "plotter self
      \<and> 0 < azim_region (precip loaded) \<and> 0 < gate_region (precip loaded)
      \<and> azims (grid_info self) mod azim_region (precip loaded) = 0
      \<and> gates (grid_info self) mod gate_region (precip loaded) = 0
      \<and> shape (ma_data (convol iris))
           = [length (convol_angles self), azims (grid_info self), gates (grid_info self)]
      \<and> shape (ma_data (dopvol iris))
           = [length (dopvol_angles self), azims (grid_info self), gates (grid_info self)]
      \<and> angles_vary (convol_angles self)
      \<and> verify_specific_calib self = Inr ()
      \<and> allocated s (convol iris) \<and> allocated s (dopvol iris)
      \<and> mask_fits s (convol iris) \<and> mask_fits s (dopvol iris)"
  then have h: "plotter self"
      "0 < azim_region (precip loaded)" "0 < gate_region (precip loaded)"
      "azims (grid_info self) mod azim_region (precip loaded) = 0"
      "gates (grid_info self) mod gate_region (precip loaded) = 0"
      "shape (ma_data (convol iris))
           = [length (convol_angles self), azims (grid_info self), gates (grid_info self)]"
      "shape (ma_data (dopvol iris))
           = [length (dopvol_angles self), azims (grid_info self), gates (grid_info self)]"
      "angles_vary (convol_angles self)"
      "verify_specific_calib self = Inr ()"
      "allocated s (convol iris)" "allocated s (dopvol iris)"
      "mask_fits s (convol iris)" "mask_fits s (dopvol iris)"
    by auto
  show "\<exists>iris' s'. process_set loaded self iris s = (Inr (), self\<lparr>config := loaded\<rparr>, iris', s')
         \<and> (\<forall>e a g. e < length (convol_angles self) \<and> a < azims (grid_info self)
                     \<and> g < gates (grid_info self)
               \<longrightarrow> is_masked s' (convol iris') [e, a, g]
                     = (\<not> (elem (convol_clutter self) [e, a, g] = 0)
                        \<or> zone_contaminated s (convol_angles self) (convol iris) (precip loaded)
                             (a div azim_region (precip loaded)) (g div gate_region (precip loaded))
                        \<or> is_masked s (convol iris) [e, a, g]))
         \<and> (\<forall>e a g. e < length (dopvol_angles self) \<and> a < azims (grid_info self)
                     \<and> g < gates (grid_info self)
               \<longrightarrow> is_masked s' (dopvol iris') [e, a, g]
                     = (\<not> (elem (dopvol_clutter self) [e, a, g] = 0)
                        \<or> zone_contaminated s (convol_angles self) (convol iris) (precip loaded)
                             (a div azim_region (precip loaded)) (g div gate_region (precip loaded))
                        \<or> is_masked s (dopvol iris) [e, a, g]))"
    by (rule process_set_masks[OF h])
qed

text \<open>
  The scenario: another DOPVOL volume gives the same filters, and after \<^verbatim>\<open>process_set\<close>
  on an empty heap the flat DOPVOL volume is masked in the CONVOL zone (0, 0) and nowhere
  else.
\<close>

theorem each_family_gets_convol_zones_witness:
  "filter_precip scenario_config example_processor convol_filter dopvol_filter
       (scenario_iris\<lparr>dopvol := \<lparr>ma_data = ramp [2, 8, 8], ma_mask = None\<rparr>\<rparr>) scenario_store
     = filter_precip scenario_config example_processor convol_filter dopvol_filter scenario_iris
         scenario_store
   \<and> (\<exists>iris' s'. process_set scenario_config example_processor scenario_iris empty_store
          = (Inr (), example_processor\<lparr>config := scenario_config\<rparr>, iris', s')
        \<and> is_masked s' (dopvol iris') [1, 3, 3] \<and> \<not> is_masked s' (dopvol iris') [0, 4, 4]
        \<and> is_masked s' (convol iris') [2, 0, 0] \<and> \<not> is_masked s' (convol iris') [2, 0, 4])"
proof -
  note t = each_family_gets_convol_zones[where loaded = scenario_config and self = example_processor
      and convol_precip = convol_filter and dopvol_precip = dopvol_filter and iris = scenario_iris
      and other = "\<lparr>ma_data = ramp [2, 8, 8], ma_mask = None\<rparr>" and st = scenario_store
      and s = empty_store]
  from t have 1: "filter_precip scenario_config example_processor convol_filter dopvol_filter
       (scenario_iris\<lparr>dopvol := \<lparr>ma_data = ramp [2, 8, 8], ma_mask = None\<rparr>\<rparr>) scenario_store
     = filter_precip scenario_config example_processor convol_filter dopvol_filter scenario_iris
         scenario_store" by blast
  have h: "plotter example_processor"
      "shape (ma_data (dopvol scenario_iris))
           = [length (dopvol_angles example_processor), azims (grid_info example_processor),
              gates (grid_info example_processor)]"
      "verify_specific_calib example_processor = Inr ()"
      "allocated empty_store (convol scenario_iris)" "allocated empty_store (dopvol scenario_iris)"
      "mask_fits empty_store (convol scenario_iris)" "mask_fits empty_store (dopvol scenario_iris)"
    by (simp_all add: example_processor_def scenario_iris_def full_def verify_specific_calib_def
        allocated_def mask_fits_def)
  have prem: "plotter example_processor
      \<and> 0 < azim_region (precip scenario_config) \<and> 0 < gate_region (precip scenario_config)
      \<and> azims (grid_info example_processor) mod azim_region (precip scenario_config) = 0
      \<and> gates (grid_info example_processor) mod gate_region (precip scenario_config) = 0
      \<and> shape (ma_data (convol scenario_iris))
           = [length (convol_angles example_processor), azims (grid_info example_processor),
              gates (grid_info example_processor)]
      \<and> shape (ma_data (dopvol scenario_iris))
           = [length (dopvol_angles example_processor), azims (grid_info example_processor),
              gates (grid_info example_processor)]
      \<and> angles_vary (convol_angles example_processor)
      \<and> verify_specific_calib example_processor = Inr ()
      \<and> allocated empty_store (convol scenario_iris) \<and> allocated empty_store (dopvol scenario_iris)
      \<and> mask_fits empty_store (convol scenario_iris) \<and> mask_fits empty_store (dopvol scenario_iris)"
    by (intro conjI) (rule h scenario_hyps)+
  from t[THEN conjunct2, THEN mp, OF prem] obtain iris' s' where
    r: "process_set scenario_config example_processor scenario_iris empty_store
          = (Inr (), example_processor\<lparr>config := scenario_config\<rparr>, iris', s')"
    and c: "\<forall>e a g. e < length (convol_angles example_processor) \<and> a < azims (grid_info example_processor)
                     \<and> g < gates (grid_info example_processor)
               \<longrightarrow> is_masked s' (convol iris') [e, a, g]
                     = (\<not> (elem (convol_clutter example_processor) [e, a, g] = 0)
                        \<or> zone_contaminated empty_store (convol_angles example_processor) (convol scenario_iris)
                             (precip scenario_config) (a div azim_region (precip scenario_config))
                             (g div gate_region (precip scenario_config))
                        \<or> is_masked empty_store (convol scenario_iris) [e, a, g])"
    and d: "\<forall>e a g. e < length (dopvol_angles example_processor) \<and> a < azims (grid_info example_processor)
                     \<and> g < gates (grid_info example_processor)
               \<longrightarrow> is_masked s' (dopvol iris') [e, a, g]
                     = (\<not> (elem (dopvol_clutter example_processor) [e, a, g] = 0)
                        \<or> zone_contaminated empty_store (convol_angles example_processor) (convol scenario_iris)
                             (precip scenario_config) (a div azim_region (precip scenario_config))
                             (g div gate_region (precip scenario_config))
                        \<or> is_masked empty_store (dopvol scenario_iris) [e, a, g])"
    by blast
  have z: "zone_contaminated empty_store (convol_angles example_processor) (convol scenario_iris)
              (precip scenario_config) x y
         = zone_contaminated scenario_store (convol_angles example_processor) (convol scenario_iris)
              (precip scenario_config) x y" for x y
    by (rule zone_contaminated_store) (simp add: scenario_iris_def)
  have m: "is_masked s' (dopvol iris') [1, 3, 3]" "\<not> is_masked s' (dopvol iris') [0, 4, 4]"
      "is_masked s' (convol iris') [2, 0, 0]" "\<not> is_masked s' (convol iris') [2, 0, 4]"
    using d[rule_format, of 1 3 3] d[rule_format, of 0 4 4] c[rule_format, of 2 0 0]
      c[rule_format, of 2 0 4] z scenario_zones
    by (simp_all add: example_processor_def scenario_config_def scenario_iris_def full_def is_masked_def)
  show ?thesis using 1 r m by blast
qed

text \<open>
  Claim C5 as the spec states it has the DOPVOL mask computed from the DOPVOL scans. In
  the scenario the DOPVOL volume is flat, so its own zone (0, 0) is not contaminated,
  and yet the DOPVOL filter flags that zone.
\<close>

theorem dopvol_mask_ignores_dopvol_data:
  "\<exists>s'. filter_precip scenario_config example_processor convol_filter dopvol_filter scenario_iris
           scenario_store
          = (Inr (), example_processor\<lparr>config := scenario_config\<rparr>, s')
     \<and> elem (arrays s' (filter_3d dopvol_filter)) [0, 0, 0]
     \<and> \<not> zone_contaminated scenario_store (dopvol_angles example_processor) (dopvol scenario_iris)
           (precip scenario_config) 0 0"
proof -
  have rk: "3 \<le> length (shape (arrays scenario_store (filter_3d convol_filter)))"
    "3 \<le> length (shape (arrays scenario_store (filter_3d dopvol_filter)))"
    using scenario_hyps(7,8) by (auto simp: unflagged_def)
  from filter_precip_effect[OF scenario_hyps(1-6) rk scenario_hyps(9,10)] obtain s' where
    r: "filter_precip scenario_config example_processor convol_filter dopvol_filter scenario_iris
           scenario_store = (Inr (), example_processor\<lparr>config := scenario_config\<rparr>, s')"
    and d: "\<And>e a g. a < 8 \<Longrightarrow> g < 8 \<Longrightarrow>
           elem (arrays s' (filter_3d dopvol_filter)) [e, a, g]
             = (elem (arrays scenario_store (filter_3d dopvol_filter)) [e, a, g]
                \<or> zone_contaminated scenario_store (convol_angles example_processor) (convol scenario_iris)
                 (precip scenario_config) (a div 4) (g div 4))"
    by (auto simp: example_processor_def scenario_config_def)
  have "elem (arrays s' (filter_3d dopvol_filter)) [0, 0, 0]"
    using d[of 0 0 0] scenario_zones(1) by simp
  then show ?thesis using r scenario_dopvol_zone by blast
qed

text \<open>
  Claim C6, for positive region sizes. When a region size does not divide its extent,
  \<^verbatim>\<open>filter_precip\<close> raises a ValueError and the store is the one before: no zone was
  looked at. When both divide (and the volume, the angles and the filters are as in C3) it
  returns, two cells of the grid in the same zone carry the same flag on whatever
  elevations, in both filters, and the zones of the grid are the product of the two
  quotients in number.
\<close>

theorem region_sizes_partition_the_mask:
  assumes "0 < azim_region (precip loaded)" and "0 < gate_region (precip loaded)"
  shows
   "(\<not> (azims (grid_info self) mod azim_region (precip loaded) = 0
        \<and> gates (grid_info self) mod gate_region (precip loaded) = 0)
     \<longrightarrow> (\<exists>msg. filter_precip loaded self convol_precip dopvol_precip iris s
                  = (Inl (ValueError msg), self\<lparr>config := loaded\<rparr>, s)))
  \<and> (azims (grid_info self) mod azim_region (precip loaded) = 0
      \<and> gates (grid_info self) mod gate_region (precip loaded) = 0
      \<and> shape (ma_data (convol iris))
           = [length (convol_angles self), azims (grid_info self), gates (grid_info self)]
      \<and> angles_vary (convol_angles self)
      \<and> unflagged s convol_precip \<and> unflagged s dopvol_precip
      \<and> ma_mask (convol iris) \<noteq> Some (filter_3d convol_precip)
      \<and> ma_mask (convol iris) \<noteq> Some (filter_3d dopvol_precip)
     \<longrightarrow> (\<exists>s'. filter_precip loaded self convol_precip dopvol_precip iris s
                  = (Inr (), self\<lparr>config := loaded\<rparr>, s')
           \<and> (\<forall>e a g e' a' g'.
                 a < azims (grid_info self) \<and> g < gates (grid_info self)
               \<and> a' < azims (grid_info self) \<and> g' < gates (grid_info self)
               \<and> zone_index (precip loaded) (a, g) = zone_index (precip loaded) (a', g')
               \<longrightarrow> elem (arrays s' (filter_3d convol_precip)) [e, a, g]
                     = elem (arrays s' (filter_3d convol_precip)) [e', a', g']
                   \<and> elem (arrays s' (filter_3d dopvol_precip)) [e, a, g]
                     = elem (arrays s' (filter_3d dopvol_precip)) [e', a', g']))
        \<and> card (zone_index (precip loaded)
                   ` ({..<azims (grid_info self)} \<times> {..<gates (grid_info self)}))
            = (azims (grid_info self) div azim_region (precip loaded))
              * (gates (grid_info self) div gate_region (precip loaded)))"
proof (intro conjI impI)
  assume "\<not> (azims (grid_info self) mod azim_region (precip loaded) = 0
        \<and> gates (grid_info self) mod gate_region (precip loaded) = 0)"
  then show "\<exists>msg. filter_precip loaded self convol_precip dopvol_precip iris s
                  = (Inl (ValueError msg), self\<lparr>config := loaded\<rparr>, s)"
    using assms by (auto simp: filter_precip_def Let_def)
next
  assume h: "azims (grid_info self) mod azim_region (precip loaded) = 0
      \<and> gates (grid_info self) mod gate_region (precip loaded) = 0
      \<and> shape (ma_data (convol iris))
           = [length (convol_angles self), azims (grid_info self), gates (grid_info self)]
      \<and> angles_vary (convol_angles self)
      \<and> unflagged s convol_precip \<and> unflagged s dopvol_precip
      \<and> ma_mask (convol iris) \<noteq> Some (filter_3d convol_precip)
      \<and> ma_mask (convol iris) \<noteq> Some (filter_3d dopvol_precip)"
  then have rk: "3 \<le> length (shape (arrays s (filter_3d convol_precip)))"
    "3 \<le> length (shape (arrays s (filter_3d dopvol_precip)))"
    and z: "\<And>e a g. \<not> elem (arrays s (filter_3d convol_precip)) [e, a, g]"
           "\<And>e a g. \<not> elem (arrays s (filter_3d dopvol_precip)) [e, a, g]"
    by (auto simp: unflagged_def)
  from h have h': "azims (grid_info self) mod azim_region (precip loaded) = 0"
      "gates (grid_info self) mod gate_region (precip loaded) = 0"
      "shape (ma_data (convol iris))
           = [length (convol_angles self), azims (grid_info self), gates (grid_info self)]"
      "angles_vary (convol_angles self)"
      "ma_mask (convol iris) \<noteq> Some (filter_3d convol_precip)"
      "ma_mask (convol iris) \<noteq> Some (filter_3d dopvol_precip)"
    by auto
  from filter_precip_effect[OF assms h'(1-4) rk h'(5,6)] z
  obtain s' where
    r: "filter_precip loaded self convol_precip dopvol_precip iris s = (Inr (), self\<lparr>config := loaded\<rparr>, s')"
    and c: "\<And>e a g. a < azims (grid_info self) \<Longrightarrow> g < gates (grid_info self) \<Longrightarrow>
           elem (arrays s' (filter_3d convol_precip)) [e, a, g]
             = zone_contaminated s (convol_angles self) (convol iris) (precip loaded)
                     (a div azim_region (precip loaded)) (g div gate_region (precip loaded))"
    and d: "\<And>e a g. a < azims (grid_info self) \<Longrightarrow> g < gates (grid_info self) \<Longrightarrow>
           elem (arrays s' (filter_3d dopvol_precip)) [e, a, g]
             = zone_contaminated s (convol_angles self) (convol iris) (precip loaded)
                     (a div azim_region (precip loaded)) (g div gate_region (precip loaded))"
    by auto
  have "\<forall>e a g e' a' g'.
                 a < azims (grid_info self) \<and> g < gates (grid_info self)
               \<and> a' < azims (grid_info self) \<and> g' < gates (grid_info self)
               \<and> zone_index (precip loaded) (a, g) = zone_index (precip loaded) (a', g')
               \<longrightarrow> elem (arrays s' (filter_3d convol_precip)) [e, a, g]
                     = elem (arrays s' (filter_3d convol_precip)) [e', a', g']
                   \<and> elem (arrays s' (filter_3d dopvol_precip)) [e, a, g]
                     = elem (arrays s' (filter_3d dopvol_precip)) [e', a', g']"
    using c d by (simp add: zone_index_def)
  with r show "\<exists>s'. filter_precip loaded self convol_precip dopvol_precip iris s
                  = (Inr (), self\<lparr>config := loaded\<rparr>, s')
           \<and> (\<forall>e a g e' a' g'.
                 a < azims (grid_info self) \<and> g < gates (grid_info self)
               \<and> a' < azims (grid_info self) \<and> g' < gates (grid_info self)
               \<and> zone_index (precip loaded) (a, g) = zone_index (precip loaded) (a', g')
               \<longrightarrow> elem (arrays s' (filter_3d convol_precip)) [e, a, g]
                     = elem (arrays s' (filter_3d convol_precip)) [e', a', g']
                   \<and> elem (arrays s' (filter_3d dopvol_precip)) [e, a, g]
                     = elem (arrays s' (filter_3d dopvol_precip)) [e', a', g'])"
    by blast
  show "card (zone_index (precip loaded)
                   ` ({..<azims (grid_info self)} \<times> {..<gates (grid_info self)}))
            = (azims (grid_info self) div azim_region (precip loaded))
              * (gates (grid_info self) div gate_region (precip loaded))"
    using zones_of_grid[OF assms h'(1,2)] by simp
qed

text \<open>
  An azimuth region of 3 on the 8 by 8 grid is refused with the store untouched; with
  regions of 4 the grid has four zones, and two cells of zone (1, 0) agree.
\<close>

theorem region_sizes_partition_the_mask_witness:
  "filter_precip (scenario_config\<lparr>precip := (precip scenario_config)\<lparr>azim_region := 3\<rparr>\<rparr>)
          example_processor convol_filter dopvol_filter scenario_iris scenario_store
     = (Inl (ValueError ''Choose value of azim_region that divides 8 evenly.''),
        example_processor\<lparr>config := scenario_config\<lparr>precip := (precip scenario_config)\<lparr>azim_region := 3\<rparr>\<rparr>\<rparr>,
        scenario_store)
   \<and> card (zone_index (precip scenario_config) ` ({..<8} \<times> {..<8})) = 4
   \<and> (\<exists>s'. filter_precip scenario_config example_processor convol_filter dopvol_filter scenario_iris
           scenario_store
          = (Inr (), example_processor\<lparr>config := scenario_config\<rparr>, s')
        \<and> elem (arrays s' 0) [0, 5, 2] = elem (arrays s' 0) [2, 7, 0])"
proof -
  let ?c3 = "scenario_config\<lparr>precip := (precip scenario_config)\<lparr>azim_region := 3\<rparr>\<rparr>"
  have p3: "0 < azim_region (precip ?c3)" "0 < gate_region (precip ?c3)"
    by (simp_all add: scenario_config_def)
  have nd: "\<not> (azims (grid_info example_processor) mod azim_region (precip ?c3) = 0
        \<and> gates (grid_info example_processor) mod gate_region (precip ?c3) = 0)"
    by (simp add: scenario_config_def example_processor_def)
  from region_sizes_partition_the_mask[OF p3, where self = example_processor
      and convol_precip = convol_filter and dopvol_precip = dopvol_filter and iris = scenario_iris
      and s = scenario_store] nd
  obtain msg where m: "filter_precip ?c3 example_processor convol_filter dopvol_filter scenario_iris
      scenario_store = (Inl (ValueError msg), example_processor\<lparr>config := ?c3\<rparr>, scenario_store)"
    by blast
  have "fst (filter_precip ?c3 example_processor convol_filter dopvol_filter scenario_iris scenario_store)
      = Inl (ValueError ''Choose value of azim_region that divides 8 evenly.'')"
    by (simp add: filter_precip_def scenario_config_def example_processor_def str_nat.simps)
  with m have 1: "filter_precip ?c3 example_processor convol_filter dopvol_filter scenario_iris
      scenario_store = (Inl (ValueError ''Choose value of azim_region that divides 8 evenly.''),
        example_processor\<lparr>config := ?c3\<rparr>, scenario_store)" by simp
  from region_sizes_partition_the_mask[OF scenario_hyps(1,2), where self = example_processor
      and convol_precip = convol_filter and dopvol_precip = dopvol_filter and iris = scenario_iris
      and s = scenario_store] scenario_hyps
  obtain s' where
    r: "filter_precip scenario_config example_processor convol_filter dopvol_filter scenario_iris
           scenario_store = (Inr (), example_processor\<lparr>config := scenario_config\<rparr>, s')"
    and b: "\<forall>e a g e' a' g'.
                 a < azims (grid_info example_processor) \<and> g < gates (grid_info example_processor)
               \<and> a' < azims (grid_info example_processor) \<and> g' < gates (grid_info example_processor)
               \<and> zone_index (precip scenario_config) (a, g) = zone_index (precip scenario_config) (a', g')
               \<longrightarrow> elem (arrays s' (filter_3d convol_filter)) [e, a, g]
                     = elem (arrays s' (filter_3d convol_filter)) [e', a', g']
                   \<and> elem (arrays s' (filter_3d dopvol_filter)) [e, a, g]
                     = elem (arrays s' (filter_3d dopvol_filter)) [e', a', g']"
    and k: "card (zone_index (precip scenario_config)
                   ` ({..<azims (grid_info example_processor)} \<times> {..<gates (grid_info example_processor)}))
            = (azims (grid_info example_processor) div azim_region (precip scenario_config))
              * (gates (grid_info example_processor) div gate_region (precip scenario_config))"
    by blast
  have 2: "card (zone_index (precip scenario_config) ` ({..<8} \<times> {..<8})) = 4"
    using k by (simp add: example_processor_def scenario_config_def)
  have 3: "elem (arrays s' 0) [0, 5, 2] = elem (arrays s' 0) [2, 7, 0]"
    using b[rule_format, of 5 2 7 0 0 2]
    by (simp add: example_processor_def scenario_config_def zone_index_def convol_filter_def)
  show ?thesis using 1 2 3 r by blast
qed

text \<open>
  Claim C6 as the spec states it covers every region size that does not divide evenly.
  A region size of 0 divides nothing, and \<^verbatim>\<open>%\<close> by it is a ZeroDivisionError, not the
  ValueError of the check.
\<close>

theorem zero_region_is_a_division_error:
  "fst (filter_precip (scenario_config\<lparr>precip := (precip scenario_config)\<lparr>azim_region := 0\<rparr>\<rparr>)
          example_processor convol_filter dopvol_filter scenario_iris scenario_store)
     = Inl (ZeroDivisionError ''integer modulo by zero'')
   \<and> \<not> (azims (grid_info example_processor) mod 0 = 0)"
  by (simp add: filter_precip_def scenario_config_def example_processor_def)

text \<open>
  The processor after \<^verbatim>\<open>filter_precip\<close> holds the configuration just loaded from
  \<^verbatim>\<open>./bugtracker.json\<close>, whatever it held before: here the limit of 5 dBZ per degree it
  was built with has become 7.
\<close>

theorem detection_replaces_the_configuration:
  "fst (snd (filter_precip (scenario_config\<lparr>precip := (precip scenario_config)\<lparr>max_dbz_per_degree := 7\<rparr>\<rparr>)
               example_processor convol_filter dopvol_filter scenario_iris scenario_store))
     \<noteq> example_processor
   \<and> max_dbz_per_degree (precip (config (fst (snd (filter_precip
         (scenario_config\<lparr>precip := (precip scenario_config)\<lparr>max_dbz_per_degree := 7\<rparr>\<rparr>)
         example_processor convol_filter dopvol_filter scenario_iris scenario_store))))) = 7
   \<and> max_dbz_per_degree (precip (config example_processor)) = 5"
proof -
  let ?loaded = "scenario_config\<lparr>precip := (precip scenario_config)\<lparr>max_dbz_per_degree := 7\<rparr>\<rparr>"
  obtain res self' s' where
    r: "filter_precip ?loaded example_processor convol_filter dopvol_filter scenario_iris scenario_store
          = (res, self', s')"
    by (cases "filter_precip ?loaded example_processor convol_filter dopvol_filter scenario_iris
          scenario_store") auto
  from filter_precip_frame[OF r] have c: "config self' = ?loaded" by simp
  have e: "max_dbz_per_degree (precip (config example_processor)) = 5"
    by (simp add: example_processor_def)
  from c have "max_dbz_per_degree (precip (config self')) = 7" by simp
  with e have "self' \<noteq> example_processor" by auto
  with r c e show ?thesis by simp
qed

text \<open>
  Claim C9, as amended. When neither filter array is the mask of a volume,
  \<^verbatim>\<open>filter_precip\<close>, whether it returns or raises, leaves the mask of both volumes and
  every sample read from them as they were; the data buffers are values no statement of
  the method writes. The store changes only at the two filter arrays, nothing is
  allocated, and of the processor \<^verbatim>\<open>self.config\<close>, and nothing else, is replaced by the
  configuration just loaded.
\<close>

theorem detection_leaves_volumes_unchanged:
  assumes "ma_mask (convol iris) \<noteq> Some (filter_3d convol_precip)"
    and "ma_mask (convol iris) \<noteq> Some (filter_3d dopvol_precip)"
    and "ma_mask (dopvol iris) \<noteq> Some (filter_3d convol_precip)"
    and "ma_mask (dopvol iris) \<noteq> Some (filter_3d dopvol_precip)"
  shows "(case filter_precip loaded self convol_precip dopvol_precip iris s of
      (res, self', s') \<Rightarrow>
          getmask s' (convol iris) = getmask s (convol iris)
        \<and> getmask s' (dopvol iris) = getmask s (dopvol iris)
        \<and> (\<forall>idx. sample s' (convol iris) idx = sample s (convol iris) idx)
        \<and> (\<forall>idx. sample s' (dopvol iris) idx = sample s (dopvol iris) idx)
        \<and> (\<forall>q. \<not> (q = filter_3d convol_precip \<or> q = filter_3d dopvol_precip)
                 \<longrightarrow> arrays s' q = arrays s q)
        \<and> next_ref s' = next_ref s
        \<and> self' = self\<lparr>config := loaded\<rparr>)"
proof -
  obtain res self' s' where
    r: "filter_precip loaded self convol_precip dopvol_precip iris s = (res, self', s')"
    by (cases "filter_precip loaded self convol_precip dopvol_precip iris s") auto
  from filter_precip_frame[OF r] have
    self': "self' = self\<lparr>config := loaded\<rparr>"
    and sb: "same_but (filter_3d convol_precip) (filter_3d dopvol_precip) s s'" by auto
  have mc: "\<And>m. ma_mask (convol iris) = Some m \<Longrightarrow> arrays s' m = arrays s m"
    and md: "\<And>m. ma_mask (dopvol iris) = Some m \<Longrightarrow> arrays s' m = arrays s m"
    using sb assms by (auto simp: same_but_def)
  have "getmask s' (convol iris) = getmask s (convol iris)"
    using mc by (cases "ma_mask (convol iris)") (auto simp: getmask_def)
  moreover have "getmask s' (dopvol iris) = getmask s (dopvol iris)"
    using md by (cases "ma_mask (dopvol iris)") (auto simp: getmask_def)
  moreover have "\<And>idx. sample s' (convol iris) idx = sample s (convol iris) idx"
    by (rule sample_store) (rule mc)
  moreover have "\<And>idx. sample s' (dopvol iris) idx = sample s (dopvol iris) idx"
    by (rule sample_store) (rule md)
  ultimately show ?thesis using r self' sb by (simp add: same_but_def)
qed

text \<open>
  The scenario with a mask on the CONVOL volume, held at another address than the
  filters: the mask after detection is the array that was there.
\<close>

theorem detection_leaves_volumes_unchanged_witness:
  "getmask (snd (snd (filter_precip scenario_config example_processor convol_filter dopvol_filter
        (scenario_iris\<lparr>convol := (convol scenario_iris)\<lparr>ma_mask := Some 5\<rparr>\<rparr>) scenario_store)))
      (convol (scenario_iris\<lparr>convol := (convol scenario_iris)\<lparr>ma_mask := Some 5\<rparr>\<rparr>))
    = Some (arrays scenario_store 5)
   \<and> next_ref (snd (snd (filter_precip scenario_config example_processor convol_filter dopvol_filter
        (scenario_iris\<lparr>convol := (convol scenario_iris)\<lparr>ma_mask := Some 5\<rparr>\<rparr>) scenario_store))) = 2"
proof -
  let ?iris = "scenario_iris\<lparr>convol := (convol scenario_iris)\<lparr>ma_mask := Some 5\<rparr>\<rparr>"
  have na: "ma_mask (convol ?iris) \<noteq> Some (filter_3d convol_filter)"
    "ma_mask (convol ?iris) \<noteq> Some (filter_3d dopvol_filter)"
    "ma_mask (dopvol ?iris) \<noteq> Some (filter_3d convol_filter)"
    "ma_mask (dopvol ?iris) \<noteq> Some (filter_3d dopvol_filter)"
    by (simp_all add: scenario_iris_def convol_filter_def dopvol_filter_def)
  from detection_leaves_volumes_unchanged[OF na, where loaded = scenario_config
      and self = example_processor and s = scenario_store]
  show ?thesis
    by (auto simp: getmask_def scenario_store_arrays split: prod.splits)
qed

end
